(* ===== verification/Py_Prelude.thy ===== *)
theory Py_Prelude
  imports Complex_Main
begin

text \<open>
  The Python vocabulary shared by every component of the BugBrawl model.
  Python \<open>str\<close> values are HOL strings (byte strings: the model's lowering is the ASCII
  part of \<open>str.lower\<close>); a nullable string column (SQL NULL read back as \<open>None\<close>) is a
  \<open>string option\<close>; Python floats are \<open>real\<close> (the constants of the engine are decimal
  literals, and the one place where binary rounding could matter, \<open>round(x, 3)\<close>, is
  modelled by exact round-half-even, which agrees with CPython on every value the engine
  rounds because none of them lies on a tie); Python ints are \<open>int\<close>.
  A Python exception is a value of \<open>py_error\<close>, returned on the \<open>Inl\<close> side of a sum.
\<close>

named_theorems py_eval "rules that evaluate the Python runtime helpers on concrete values"

section \<open>Exceptions\<close>

datatype py_error =
    NameError string
  | ValueError
  | TypeError string
  | UnboundLocalError string
  | AttributeError string
  | KeyError string
  | ModuleNotFoundError string
  | IndentationError string nat

section \<open>Strings\<close>

text \<open>\<open>not s\<close> for a nullable string: \<open>None\<close> and the empty string are falsy.\<close>

definition py_falsy :: "string option \<Rightarrow> bool" where
  "py_falsy s \<longleftrightarrow> s = None \<or> s = Some []"

text \<open>\<open>(s or '')\<close>.\<close>

definition py_or_empty :: "string option \<Rightarrow> string" where
  "py_or_empty s = (case s of None \<Rightarrow> [] | Some t \<Rightarrow> t)"

text \<open>\<open>str.lower\<close> on ASCII: the letters A..Z (codes 65..90) move up by 32.\<close>

definition lower_char :: "char \<Rightarrow> char" where
  "lower_char c = (let n = (of_char c :: nat) in
     if 65 \<le> n \<and> n \<le> 90 then char_of (n + 32) else c)"

definition py_lower :: "string \<Rightarrow> string" where
  "py_lower s = map lower_char s"

text \<open>\<open>x in s\<close> where \<open>x\<close> may be \<open>None\<close>, which is in no set of strings.\<close>

definition py_opt_in :: "'a option \<Rightarrow> 'a set \<Rightarrow> bool" where
  "py_opt_in x s \<longleftrightarrow> (case x of None \<Rightarrow> False | Some v \<Rightarrow> v \<in> s)"

section \<open>Dictionaries and lists\<close>

text \<open>
  A dict literal with distinct keys is an association list; \<open>d.get(k, default)\<close> is
  \<open>dict_get d k default\<close>, \<open>d.get(k)\<close> (which yields \<open>None\<close> when absent) is \<open>map_of d k\<close>.
\<close>

definition dict_get :: "('k \<times> 'v) list \<Rightarrow> 'k \<Rightarrow> 'v \<Rightarrow> 'v" where
  "dict_get d k dflt = (case map_of d k of None \<Rightarrow> dflt | Some v \<Rightarrow> v)"

text \<open>\<open>xs.index(x)\<close>: the first position of \<open>x\<close>, or \<open>ValueError\<close>.\<close>

fun py_index :: "'a list \<Rightarrow> 'a \<Rightarrow> py_error + nat" where
  "py_index [] x = Inl ValueError"
| "py_index (y # ys) x =
     (if y = x then Inr 0 else case py_index ys x of Inl e \<Rightarrow> Inl e | Inr i \<Rightarrow> Inr (Suc i))"

section \<open>Floats\<close>

text \<open>Rounding to the nearest integer, ties to the even neighbour (Python 3 \<open>round\<close>).\<close>

definition round_half_even :: "real \<Rightarrow> int" where
  "round_half_even x = (let f = \<lfloor>x\<rfloor>; d = x - of_int f in
     if d < 1/2 then f else if 1/2 < d then f + 1 else if even f then f else f + 1)"

text \<open>\<open>round(x, n)\<close>.\<close>

definition py_round :: "real \<Rightarrow> nat \<Rightarrow> real" where
  "py_round x n = of_int (round_half_even (x * 10 ^ n)) / 10 ^ n"

text \<open>
  \<open>random.uniform(a, b)\<close> is \<open>a + (b - a) * random.random()\<close> in CPython; the draw
  \<open>u\<close> of \<open>random.random()\<close> lies in \<open>[0, 1)\<close>.
\<close>

definition py_uniform :: "real \<Rightarrow> real \<Rightarrow> real \<Rightarrow> real" where
  "py_uniform a b u = a + (b - a) * u"

definition random_draw :: "real \<Rightarrow> bool" where
  "random_draw u \<longleftrightarrow> 0 \<le> u \<and> u < 1"

section \<open>Generic lemmas\<close>

lemma lower_char_idem [simp]: "lower_char (lower_char c) = lower_char c"
  by (simp add: lower_char_def Let_def)

lemma py_lower_idem [simp]: "py_lower (py_lower s) = py_lower s"
  by (induction s) (simp_all add: py_lower_def)

lemma py_lower_Nil [simp, py_eval]: "py_lower [] = []"
  by (simp add: py_lower_def)

lemma py_falsy_simps [simp, py_eval]:
  "py_falsy None" "py_falsy (Some [])" "py_falsy (Some (c # cs)) = False"
  by (simp_all add: py_falsy_def)

lemma py_or_empty_simps [simp, py_eval]:
  "py_or_empty None = []" "py_or_empty (Some s) = s"
  by (simp_all add: py_or_empty_def)

lemma py_opt_in_simps [simp, py_eval]:
  "py_opt_in None s = False" "py_opt_in (Some v) s = (v \<in> s)"
  by (simp_all add: py_opt_in_def)

lemma dict_get_cases: "dict_get d k dflt \<in> insert dflt (snd ` set d)"
  by (auto simp: dict_get_def split: option.split dest: map_of_SomeD intro: rev_image_eqI)

lemma dict_get_absent [simp]:
  assumes "k \<notin> fst ` set d"
  shows "dict_get d k dflt = dflt"
proof -
  from assms have "map_of d k = None" by (simp add: map_of_eq_None_iff)
  then show ?thesis by (simp add: dict_get_def)
qed

lemma dict_get_Cons [simp, py_eval]:
  "dict_get ((k', v) # d) k dflt = (if k' = k then v else dict_get d k dflt)"
  by (simp add: dict_get_def)

lemma dict_get_Nil [simp, py_eval]: "dict_get [] k dflt = dflt"
  by (simp add: dict_get_def)

lemma py_index_Inr: "py_index xs x = Inr i \<Longrightarrow> i < length xs \<and> xs ! i = x"
  by (induction xs arbitrary: i) (auto split: if_splits sum.splits)

lemma py_index_ValueError: "py_index xs x = Inl e \<longleftrightarrow> x \<notin> set xs \<and> e = ValueError"
  by (induction xs) (auto split: sum.splits)

lemma py_index_absent [simp]: "x \<notin> set xs \<Longrightarrow> py_index xs x = Inl ValueError"
  by (simp add: py_index_ValueError)

lemma py_index_Inl: "py_index xs x = Inl e \<Longrightarrow> e = ValueError"
  by (simp add: py_index_ValueError)

lemma py_index_Inr_mem: "py_index xs x = Inr i \<Longrightarrow> x \<in> set xs"
  using py_index_Inr nth_mem by metis

lemma py_index_nth: "distinct xs \<Longrightarrow> i < length xs \<Longrightarrow> py_index xs (xs ! i) = Inr i"
proof (induction xs arbitrary: i)
  case Nil
  then show ?case by simp
next
  case (Cons y ys)
  then show ?case by (cases i) (auto simp: nth_mem)
qed

lemma round_half_even_of_int [simp]: "round_half_even (of_int k) = k"
  by (simp add: round_half_even_def)

lemma py_round_of_int [simp]: "py_round (of_int k) n = of_int k"
proof -
  have "of_int k * 10 ^ n = (of_int (k * 10 ^ n) :: real)" by simp
  then have "round_half_even (of_int k * 10 ^ n) = k * 10 ^ n"
    by (simp only: round_half_even_of_int)
  then show ?thesis by (simp add: py_round_def)
qed

lemma py_round_one [simp, py_eval]: "py_round 1 n = 1"
  using py_round_of_int [of 1 n] by simp

lemma py_round_exact: "py_round (of_int k / 10 ^ n) n = of_int k / 10 ^ n"
  by (simp add: py_round_def)

text \<open>A value rounded to \<open>n\<close> places is an integer number of \<open>10^-n\<close> units.\<close>

lemma py_round_Ints: "py_round x n * 10 ^ n \<in> \<int>"
  by (simp add: py_round_def)

lemma py_round3_Ints: "py_round x 3 * 1000 \<in> \<int>"
  using py_round_Ints [of x 3] by simp

lemma py_uniform_bounds:
  assumes "a \<le> b" and "random_draw u"
  shows "a \<le> py_uniform a b u \<and> py_uniform a b u \<le> b"
proof -
  from assms have "0 \<le> (b - a) * u" and "(b - a) * u \<le> b - a"
    by (simp_all add: random_draw_def mult_left_le)
  then show ?thesis by (simp add: py_uniform_def)
qed

end
