(* ===== verification/Matchup.thy ===== *)
theory Matchup
  imports Py_Prelude
begin

text \<open>
  The matchup table of \<open>src/app/routes/battles.py\<close>: the dict literal \<open>MATCHUP_MATRIX\<close>
  (offensive type to defensive type to multiplier) and its accessor
  \<open>get_matchup_multiplier\<close>, which lowers both keys, falls back to 1.0 for a falsy or
  unknown key and never raises. Beside the code stands the design table the spec
  describes, over the two enumerations of offensive and defensive types; the refinement
  lemma says that the string-keyed code implements it, and the remaining lemmas give the
  range of the multiplier, its case-insensitivity and its neutral fallback.
\<close>

section \<open>The code\<close>

definition MATCHUP_MATRIX :: "(string \<times> (string \<times> real) list) list" where
  "MATCHUP_MATRIX = [
    (''piercing'', [(''hard_shell'', 1.5), (''segmented_armor'', 1.0), (''evasive'', 0.7),
                    (''hairy_spiny'', 1.0), (''toxic_skin'', 1.5), (''thick_hide'', 0.7)]),
    (''crushing'', [(''hard_shell'', 1.5), (''segmented_armor'', 0.7), (''evasive'', 1.0),
                    (''hairy_spiny'', 1.0), (''toxic_skin'', 0.7), (''thick_hide'', 1.5)]),
    (''slashing'', [(''hard_shell'', 0.7), (''segmented_armor'', 1.5), (''evasive'', 1.5),
                    (''hairy_spiny'', 0.7), (''toxic_skin'', 1.0), (''thick_hide'', 1.0)]),
    (''venom'', [(''hard_shell'', 1.0), (''segmented_armor'', 1.5), (''evasive'', 1.0),
                 (''hairy_spiny'', 0.7), (''toxic_skin'', 0.7), (''thick_hide'', 1.5)]),
    (''chemical'', [(''hard_shell'', 1.0), (''segmented_armor'', 1.0), (''evasive'', 1.5),
                    (''hairy_spiny'', 1.5), (''toxic_skin'', 0.7), (''thick_hide'', 0.7)]),
    (''grappling'', [(''hard_shell'', 0.7), (''segmented_armor'', 0.7), (''evasive'', 1.5),
                     (''hairy_spiny'', 1.5), (''toxic_skin'', 1.0), (''thick_hide'', 1.0)])]"

definition get_matchup_multiplier :: "string option \<Rightarrow> string option \<Rightarrow> real" where
  "get_matchup_multiplier attack_type defense_type =
     (if py_falsy attack_type \<or> py_falsy defense_type then 1.0
      else
        let attack = py_lower (py_or_empty attack_type);
            defense = py_lower (py_or_empty defense_type)
        in dict_get (dict_get MATCHUP_MATRIX attack []) defense 1.0)"

section \<open>The design table\<close>

datatype offense = Piercing | Crushing | Slashing | Venom | Chemical | Grappling

datatype defense = Hard_shell | Segmented_armor | Evasive | Hairy_spiny | Toxic_skin | Thick_hide

definition offenses :: "offense list" where
  "offenses = [Piercing, Crushing, Slashing, Venom, Chemical, Grappling]"

definition defenses :: "defense list" where
  "defenses = [Hard_shell, Segmented_armor, Evasive, Hairy_spiny, Toxic_skin, Thick_hide]"

primrec offense_name :: "offense \<Rightarrow> string" where
  "offense_name Piercing = ''piercing''"
| "offense_name Crushing = ''crushing''"
| "offense_name Slashing = ''slashing''"
| "offense_name Venom = ''venom''"
| "offense_name Chemical = ''chemical''"
| "offense_name Grappling = ''grappling''"

primrec defense_name :: "defense \<Rightarrow> string" where
  "defense_name Hard_shell = ''hard_shell''"
| "defense_name Segmented_armor = ''segmented_armor''"
| "defense_name Evasive = ''evasive''"
| "defense_name Hairy_spiny = ''hairy_spiny''"
| "defense_name Toxic_skin = ''toxic_skin''"
| "defense_name Thick_hide = ''thick_hide''"

text \<open>The three grades of the design: advantage, neutral, disadvantage.\<close>

datatype effect = Strong | Neutral | Weak

primrec effect_mult :: "effect \<Rightarrow> real" where
  "effect_mult Strong = 1.5"
| "effect_mult Neutral = 1.0"
| "effect_mult Weak = 0.7"

fun effectiveness :: "offense \<Rightarrow> defense \<Rightarrow> effect" where
  "effectiveness Piercing d = (case d of Hard_shell \<Rightarrow> Strong | Evasive \<Rightarrow> Weak
     | Toxic_skin \<Rightarrow> Strong | Thick_hide \<Rightarrow> Weak | _ \<Rightarrow> Neutral)"
| "effectiveness Crushing d = (case d of Hard_shell \<Rightarrow> Strong | Segmented_armor \<Rightarrow> Weak
     | Toxic_skin \<Rightarrow> Weak | Thick_hide \<Rightarrow> Strong | _ \<Rightarrow> Neutral)"
| "effectiveness Slashing d = (case d of Hard_shell \<Rightarrow> Weak | Segmented_armor \<Rightarrow> Strong
     | Evasive \<Rightarrow> Strong | Hairy_spiny \<Rightarrow> Weak | _ \<Rightarrow> Neutral)"
| "effectiveness Venom d = (case d of Segmented_armor \<Rightarrow> Strong | Hairy_spiny \<Rightarrow> Weak
     | Toxic_skin \<Rightarrow> Weak | Thick_hide \<Rightarrow> Strong | _ \<Rightarrow> Neutral)"
| "effectiveness Chemical d = (case d of Evasive \<Rightarrow> Strong | Hairy_spiny \<Rightarrow> Strong
     | Toxic_skin \<Rightarrow> Weak | Thick_hide \<Rightarrow> Weak | _ \<Rightarrow> Neutral)"
| "effectiveness Grappling d = (case d of Hard_shell \<Rightarrow> Weak | Segmented_armor \<Rightarrow> Weak
     | Evasive \<Rightarrow> Strong | Hairy_spiny \<Rightarrow> Strong | _ \<Rightarrow> Neutral)"

text \<open>
  The enumerations read back from the strings the code receives: a type name is
  recognised when it is present, non-empty and, lowered, the name of one of the six types.
\<close>

definition parse_offense :: "string option \<Rightarrow> offense option" where
  "parse_offense a =
     (if py_falsy a then None else find (\<lambda>x. offense_name x = py_lower (py_or_empty a)) offenses)"

definition parse_defense :: "string option \<Rightarrow> defense option" where
  "parse_defense d =
     (if py_falsy d then None else find (\<lambda>y. defense_name y = py_lower (py_or_empty d)) defenses)"

section \<open>Lemmas\<close>

lemma offenses_UNIV: "set offenses = UNIV"
  by (auto simp: offenses_def intro: offense.exhaust)

lemma defenses_UNIV: "set defenses = UNIV"
  by (auto simp: defenses_def intro: defense.exhaust)

lemma matrix_rows_graded:
  "r \<in> snd ` set MATCHUP_MATRIX \<Longrightarrow> v \<in> snd ` set r \<Longrightarrow> v \<in> {0.7, 1.0, 1.5}"
  by (auto simp: MATCHUP_MATRIX_def)

lemma matchup_row_graded:
  "dict_get (dict_get MATCHUP_MATRIX k []) k' 1.0 \<in> {0.7, 1.0, 1.5}"
proof -
  let ?r = "dict_get MATCHUP_MATRIX k []"
  let ?v = "dict_get ?r k' 1.0"
  have r: "?r \<in> insert [] (snd ` set MATCHUP_MATRIX)" by (rule dict_get_cases)
  have v: "?v \<in> insert 1.0 (snd ` set ?r)" by (rule dict_get_cases)
  show ?thesis
  proof (cases "?v = 1.0")
    case True
    then show ?thesis by simp
  next
    case False
    with v have in_row: "?v \<in> snd ` set ?r" by blast
    with r have "?r \<in> snd ` set MATCHUP_MATRIX" by auto
    from this in_row show ?thesis by (rule matrix_rows_graded)
  qed
qed

lemma py_falsy_lower [simp]: "py_falsy (map_option py_lower s) = py_falsy s"
  by (cases s) (auto simp: py_falsy_def py_lower_def)

lemma py_or_empty_lower [simp]: "py_or_empty (map_option py_lower s) = py_lower (py_or_empty s)"
  by (cases s) simp_all

lemma matrix_keys: "fst ` set MATCHUP_MATRIX = set (map offense_name offenses)"
  by (simp add: MATCHUP_MATRIX_def offenses_def)

lemma matrix_row_keys:
  "r \<in> snd ` set MATCHUP_MATRIX \<Longrightarrow> fst ` set r = set (map defense_name defenses)"
  by (auto simp: MATCHUP_MATRIX_def defenses_def)

text \<open>The 36 entries of the table, evaluated by the kernel.\<close>

lemma matchup_table_check:
  "list_all (\<lambda>x. list_all (\<lambda>d. get_matchup_multiplier (Some (offense_name x)) (Some (defense_name d))
      = effect_mult (effectiveness x d)) defenses) offenses"
  by code_simp

lemma matchup_named: 
  "get_matchup_multiplier (Some (offense_name x)) (Some (defense_name d)) = effect_mult (effectiveness x d)"
  using matchup_table_check by (simp add: list_all_iff offenses_UNIV defenses_UNIV)

lemma effectiveness_balanced:
  "length (filter (\<lambda>d. effectiveness x d = e) defenses) = 2"
  by (cases x; cases e) (simp_all add: defenses_def)

lemma effect_mult_inj: "effect_mult e = effect_mult e' \<longleftrightarrow> e = e'"
  by (cases e; cases e') simp_all

lemma offense_name_lower [simp]: "py_lower (offense_name x) = offense_name x"
  by (cases x) (simp_all add: py_lower_def lower_char_def Let_def)

lemma defense_name_lower [simp]: "py_lower (defense_name y) = defense_name y"
  by (cases y) (simp_all add: py_lower_def lower_char_def Let_def)

lemma offense_name_falsy [simp]: "py_falsy (Some (offense_name x)) = False"
  by (cases x) simp_all

lemma defense_name_falsy [simp]: "py_falsy (Some (defense_name y)) = False"
  by (cases y) simp_all

lemma find_Some_holds: "find P xs = Some x \<Longrightarrow> P x"
  by (auto simp: find_Some_iff)

lemma parse_offense_Some:
  "parse_offense a = Some x \<Longrightarrow> \<not> py_falsy a \<and> py_lower (py_or_empty a) = offense_name x"
  by (auto simp: parse_offense_def split: if_splits dest: find_Some_holds)

lemma parse_defense_Some:
  "parse_defense d = Some y \<Longrightarrow> \<not> py_falsy d \<and> py_lower (py_or_empty d) = defense_name y"
  by (auto simp: parse_defense_def split: if_splits dest: find_Some_holds)

lemma parse_offense_None:
  "parse_offense a = None \<Longrightarrow> py_falsy a \<or> py_lower (py_or_empty a) \<notin> set (map offense_name offenses)"
  by (auto simp: parse_offense_def find_None_iff split: if_splits)

lemma parse_defense_None:
  "parse_defense d = None \<Longrightarrow> py_falsy d \<or> py_lower (py_or_empty d) \<notin> set (map defense_name defenses)"
  by (auto simp: parse_defense_def find_None_iff split: if_splits)

lemma matchup_recognised:
  assumes "\<not> py_falsy a" and "py_lower (py_or_empty a) = offense_name x"
    and "\<not> py_falsy d" and "py_lower (py_or_empty d) = defense_name y"
  shows "get_matchup_multiplier a d = get_matchup_multiplier (Some (offense_name x)) (Some (defense_name y))"
  using assms by (simp add: get_matchup_multiplier_def Let_def)

lemma matchup_lookup_unknown:
  assumes "py_falsy a \<or> py_falsy d \<or> py_lower (py_or_empty a) \<notin> set (map offense_name offenses)
           \<or> py_lower (py_or_empty d) \<notin> set (map defense_name defenses)"
  shows "get_matchup_multiplier a d = 1.0"
proof (cases "py_falsy a \<or> py_falsy d")
  case True
  then show ?thesis by (auto simp: get_matchup_multiplier_def)
next
  case False
  let ?r = "dict_get MATCHUP_MATRIX (py_lower (py_or_empty a)) []"
  have row: "?r = [] \<or> ?r \<in> snd ` set MATCHUP_MATRIX"
    using dict_get_cases [of MATCHUP_MATRIX "py_lower (py_or_empty a)" "[]"] by blast
  have "py_lower (py_or_empty d) \<notin> fst ` set ?r"
  proof (cases "py_lower (py_or_empty a) \<in> set (map offense_name offenses)")
    case True
    with assms False have absent: "py_lower (py_or_empty d) \<notin> set (map defense_name defenses)"
      by blast
    show ?thesis
    proof (cases "?r = []")
      case True
      then show ?thesis by simp
    next
      case False
      with row have "fst ` set ?r = set (map defense_name defenses)"
        using matrix_row_keys by blast
      with absent show ?thesis by simp
    qed
  next
    case unknown: False
    then have "py_lower (py_or_empty a) \<notin> fst ` set MATCHUP_MATRIX"
      using matrix_keys by simp
    then have "?r = []" by (rule dict_get_absent)
    then show ?thesis by simp
  qed
  with False show ?thesis by (simp add: get_matchup_multiplier_def Let_def)
qed

text \<open>
  C22. The string-keyed dict and its accessor implement the enumerated design table, on
  every input: when both arguments are present, non-empty and, lowered, the names of an
  offensive type \<open>x\<close> and a defensive type \<open>y\<close> of the design (in any letter case),
  the multiplier is the one of the design grade of \<open>(x, y)\<close>; for every other pair of
  arguments it is 1.0.
\<close>

theorem get_matchup_multiplier_refines:
  "get_matchup_multiplier a d =
     (case (parse_offense a, parse_defense d) of
        (Some x, Some y) \<Rightarrow> effect_mult (effectiveness x y)
      | _ \<Rightarrow> 1.0)"
proof (cases "parse_offense a")
  case None
  have "get_matchup_multiplier a d = 1.0"
    using parse_offense_None [OF None] by (intro matchup_lookup_unknown) blast
  with None show ?thesis by simp
next
  case (Some x)
  show ?thesis
  proof (cases "parse_defense d")
    case None
    have "get_matchup_multiplier a d = 1.0"
      using parse_defense_None [OF None] by (intro matchup_lookup_unknown) blast
    with Some None show ?thesis by simp
  next
    case y: (Some y)
    from parse_offense_Some [OF Some] parse_defense_Some [OF y]
    have "get_matchup_multiplier a d = get_matchup_multiplier (Some (offense_name x)) (Some (defense_name y))"
      by (intro matchup_recognised) simp_all
    with Some y show ?thesis by (simp add: matchup_named)
  qed
qed

theorem get_matchup_multiplier_refines_witness:
  "get_matchup_multiplier (Some ''Piercing'') (Some ''HARD_SHELL'') = 1.5
   \<and> parse_offense (Some ''Piercing'') = Some Piercing \<and> parse_defense (Some ''HARD_SHELL'') = Some Hard_shell"
proof -
  have p: "parse_offense (Some ''Piercing'') = Some Piercing" by code_simp
  have q: "parse_defense (Some ''HARD_SHELL'') = Some Hard_shell" by code_simp
  show ?thesis using get_matchup_multiplier_refines [of "Some ''Piercing''" "Some ''HARD_SHELL''"] p q by simp
qed

text \<open>
  Whatever its arguments (absent, empty, unknown or known, in any case), the matchup
  multiplier is one of 0.7, 1.0 and 1.5.
\<close>

theorem get_matchup_multiplier_graded: "get_matchup_multiplier a d \<in> {0.7, 1.0, 1.5}"
proof (cases "py_falsy a \<or> py_falsy d")
  case True
  then show ?thesis by (simp add: get_matchup_multiplier_def)
next
  case False
  then have "get_matchup_multiplier a d =
      dict_get (dict_get MATCHUP_MATRIX (py_lower (py_or_empty a)) []) (py_lower (py_or_empty d)) 1.0"
    by (simp add: get_matchup_multiplier_def Let_def)
  then show ?thesis by (simp only: matchup_row_graded)
qed

text \<open>
  The lookup is case-insensitive: lowering either argument beforehand does not change
  the multiplier.
\<close>

theorem get_matchup_multiplier_case_insensitive:
  "get_matchup_multiplier (map_option py_lower a) (map_option py_lower d) = get_matchup_multiplier a d"
  by (simp add: get_matchup_multiplier_def)

text \<open>
  C30. The lookup fails open: when either type is absent or empty, or its lowered name is
  not one of the six offensive (resp. defensive) types, the multiplier is exactly 1.0 and
  nothing is raised.
\<close>

theorem get_matchup_multiplier_unknown:
  assumes "py_falsy a \<or> py_falsy d \<or> py_lower (py_or_empty a) \<notin> set (map offense_name offenses)
           \<or> py_lower (py_or_empty d) \<notin> set (map defense_name defenses)"
  shows "get_matchup_multiplier a d = 1.0"
  using assms by (rule matchup_lookup_unknown)

theorem get_matchup_multiplier_unknown_witness:
  "py_lower (py_or_empty (Some ''Claws'')) \<notin> set (map offense_name offenses)
   \<and> get_matchup_multiplier (Some ''Claws'') (Some ''hard_shell'') = 1.0"
proof -
  have h: "py_lower (py_or_empty (Some ''Claws'')) \<notin> set (map offense_name offenses)"
    by code_simp
  show ?thesis using h get_matchup_multiplier_unknown [of "Some ''Claws''" "Some ''hard_shell''"] by blast
qed

text \<open>
  The design is balanced per attack: against the six defensive types, every offensive
  type has exactly two matchups at 1.5, two at 1.0 and two at 0.7.
\<close>

theorem get_matchup_multiplier_balanced:
  "length (filter (\<lambda>d. get_matchup_multiplier (Some (offense_name x)) (Some (defense_name d)) = effect_mult e)
     defenses) = 2"
  by (simp add: matchup_named effect_mult_inj effectiveness_balanced)

end
