(* ===== verification/Size_Modifier.thy ===== *)
theory Size_Modifier
  imports Py_Prelude
begin

text \<open>
  The size-modifier resolver of \<open>src/app/routes/battles.py\<close>: the ordered size classes
  \<open>SIZE_ORDER\<close>, the explicit pair table \<open>SIZE_BASE_MODIFIER\<close>, the two attack-type
  sets, the nested step function \<open>default_for_diff\<close> and \<open>get_size_multipliers\<close>, which
  turns two size classes and two attack types into a pair of multipliers or raises
  \<open>ValueError\<close> (from \<open>SIZE_ORDER.index\<close>) on a size outside the order.
  The lines 172 to 186 of the function, the explicit lookup with its reciprocal
  derivation and fallback, are the definition \<open>explicit_multipliers\<close>.
  The abstract side is the enumeration \<open>size_class\<close>, ordered by rank (a \<open>linorder\<close>
  instance), and the matrix \<open>size_modifier\<close> the resolver computes on it.
\<close>

section \<open>The code\<close>

definition SIZE_ORDER :: "string list" where
  "SIZE_ORDER = [''tiny'', ''small'', ''medium'', ''large'', ''massive'']"

definition SIZE_BASE_MODIFIER :: "((string \<times> string) \<times> real) list" where
  "SIZE_BASE_MODIFIER = [
    ((''massive'', ''tiny''), 1.5),
    ((''massive'', ''small''), 1.3),
    ((''massive'', ''medium''), 1.15),
    ((''large'', ''tiny''), 1.4),
    ((''large'', ''small''), 1.25),
    ((''large'', ''medium''), 1.1),
    ((''medium'', ''tiny''), 1.3),
    ((''medium'', ''small''), 1.15),
    ((''small'', ''tiny''), 1.2),
    ((''tiny'', ''massive''), 0.7),
    ((''tiny'', ''large''), 0.75),
    ((''tiny'', ''medium''), 0.8),
    ((''small'', ''massive''), 0.75),
    ((''small'', ''large''), 0.8),
    ((''small'', ''medium''), 0.85),
    ((''medium'', ''large''), 0.9),
    ((''medium'', ''massive''), 0.85),
    ((''large'', ''massive''), 0.9)]"

definition SIZE_DEPENDENT_ATTACKS :: "string set" where
  "SIZE_DEPENDENT_ATTACKS = {''crushing'', ''grappling'', ''piercing'', ''slashing''}"

definition SIZE_AGNOSTIC_ATTACKS :: "string set" where
  "SIZE_AGNOSTIC_ATTACKS = {''venom'', ''chemical''}"

text \<open>\<open>(attack_type or '').lower() if attack_type else None\<close> (lines 144 and 145).\<close>

definition lowered_attack :: "string option \<Rightarrow> string option" where
  "lowered_attack t = (if py_falsy t then None else Some (py_lower (py_or_empty t)))"

definition default_for_diff :: "int \<Rightarrow> real" where
  "default_for_diff d =
     (if d = 0 then 1.0
      else if d = 1 then 1.15
      else if d = 2 then 1.30
      else if d \<ge> 3 then 1.40
      else if d = -1 then 1.0 / 1.15
      else if d = -2 then 1.0 / 1.30
      else if d \<le> -3 then 1.0 / 1.40
      else 1.0)"

text \<open>\<open>1.0 / m if m != 0 else 1.0\<close>.\<close>

definition reciprocal_or_one :: "real \<Rightarrow> real" where
  "reciprocal_or_one m = (if m \<noteq> 0 then 1.0 / m else 1.0)"

definition explicit_multipliers :: "string \<Rightarrow> string \<Rightarrow> int \<Rightarrow> real \<times> real" where
  "explicit_multipliers a b diff =
     (let explicit_a = map_of SIZE_BASE_MODIFIER (a, b);
          explicit_b = map_of SIZE_BASE_MODIFIER (b, a)
      in if explicit_a \<noteq> None \<or> explicit_b \<noteq> None then
           (let explicit_a = (case (explicit_a, explicit_b) of
                                (None, Some eb) \<Rightarrow> Some (reciprocal_or_one eb)
                              | _ \<Rightarrow> explicit_a);
                explicit_b = (case (explicit_b, explicit_a) of
                                (None, Some ea) \<Rightarrow> Some (reciprocal_or_one ea)
                              | _ \<Rightarrow> explicit_b)
            in (case explicit_a of Some m \<Rightarrow> m | None \<Rightarrow> default_for_diff diff,
                case explicit_b of Some m \<Rightarrow> m | None \<Rightarrow> default_for_diff (- diff)))
         else (default_for_diff diff, default_for_diff (- diff)))"

text \<open>
  Lines 136 and 137 bind \<open>a\<close> and \<open>b\<close> to the \<open>size\<close> of the red and the blue corner
  bug; the model takes these two values as its first arguments.
\<close>

definition get_size_multipliers ::
    "string option \<Rightarrow> string option \<Rightarrow> string option \<Rightarrow> string option \<Rightarrow> py_error + real \<times> real" where
  "get_size_multipliers a b attack_type_a attack_type_b =
     (case (a, b) of
        (Some a, Some b) \<Rightarrow>
          (let atk_a = lowered_attack attack_type_a;
               atk_b = lowered_attack attack_type_b
           in if py_opt_in atk_a SIZE_AGNOSTIC_ATTACKS \<and> py_opt_in atk_b SIZE_AGNOSTIC_ATTACKS
              then Inr (1.0, 1.0)
              else
                (case py_index SIZE_ORDER a of
                   Inl e \<Rightarrow> Inl e
                 | Inr ia \<Rightarrow>
                     (case py_index SIZE_ORDER b of
                        Inl e \<Rightarrow> Inl e
                      | Inr ib \<Rightarrow>
                          (let diff = int ia - int ib;
                               (mult_a, mult_b) = explicit_multipliers a b diff;
                               mult_a = (if py_opt_in atk_a SIZE_AGNOSTIC_ATTACKS then 1.0 else mult_a);
                               mult_b = (if py_opt_in atk_b SIZE_AGNOSTIC_ATTACKS then 1.0 else mult_b)
                           in Inr (py_round mult_a 3, py_round mult_b 3)))))
      | _ \<Rightarrow> Inr (1.0, 1.0))"

section \<open>The size classes\<close>

datatype size_class = Tiny | Small | Medium | Large | Massive

primrec size_name :: "size_class \<Rightarrow> string" where
  "size_name Tiny = ''tiny''"
| "size_name Small = ''small''"
| "size_name Medium = ''medium''"
| "size_name Large = ''large''"
| "size_name Massive = ''massive''"

primrec size_rank :: "size_class \<Rightarrow> nat" where
  "size_rank Tiny = 0"
| "size_rank Small = 1"
| "size_rank Medium = 2"
| "size_rank Large = 3"
| "size_rank Massive = 4"

instantiation size_class :: linorder
begin

definition less_eq_size_class :: "size_class \<Rightarrow> size_class \<Rightarrow> bool" where
  "x \<le> y \<longleftrightarrow> size_rank x \<le> size_rank y"

definition less_size_class :: "size_class \<Rightarrow> size_class \<Rightarrow> bool" where
  "x < y \<longleftrightarrow> size_rank x < size_rank y"

instance
proof
  fix x y z :: size_class
  show "x < y \<longleftrightarrow> x \<le> y \<and> \<not> y \<le> x"
    by (auto simp: less_eq_size_class_def less_size_class_def)
  show "x \<le> x" by (simp add: less_eq_size_class_def)
  show "x \<le> y \<Longrightarrow> y \<le> z \<Longrightarrow> x \<le> z" by (simp add: less_eq_size_class_def)
  show "x \<le> y \<Longrightarrow> y \<le> x \<Longrightarrow> x = y"
    by (cases x; cases y) (simp_all add: less_eq_size_class_def)
  show "x \<le> y \<or> y \<le> x" by (auto simp: less_eq_size_class_def)
qed

end

text \<open>
  The matrix the resolver computes for two recognised size classes, attacker first:
  the explicit entries of \<open>SIZE_BASE_MODIFIER\<close>, the two derived reciprocals
  (large against massive gives 0.9, so massive against large is 1/0.9, rounded 1.111;
  small against tiny gives 1.2, so tiny against small is 1/1.2, rounded 0.833), and 1.0 on
  the diagonal.
\<close>

fun size_modifier :: "size_class \<Rightarrow> size_class \<Rightarrow> real" where
  "size_modifier Tiny y = (case y of Tiny \<Rightarrow> 1.0 | Small \<Rightarrow> 0.833 | Medium \<Rightarrow> 0.8
     | Large \<Rightarrow> 0.75 | Massive \<Rightarrow> 0.7)"
| "size_modifier Small y = (case y of Tiny \<Rightarrow> 1.2 | Small \<Rightarrow> 1.0 | Medium \<Rightarrow> 0.85
     | Large \<Rightarrow> 0.8 | Massive \<Rightarrow> 0.75)"
| "size_modifier Medium y = (case y of Tiny \<Rightarrow> 1.3 | Small \<Rightarrow> 1.15 | Medium \<Rightarrow> 1.0
     | Large \<Rightarrow> 0.9 | Massive \<Rightarrow> 0.85)"
| "size_modifier Large y = (case y of Tiny \<Rightarrow> 1.4 | Small \<Rightarrow> 1.25 | Medium \<Rightarrow> 1.1
     | Large \<Rightarrow> 1.0 | Massive \<Rightarrow> 0.9)"
| "size_modifier Massive y = (case y of Tiny \<Rightarrow> 1.5 | Small \<Rightarrow> 1.3 | Medium \<Rightarrow> 1.15
     | Large \<Rightarrow> 1.111 | Massive \<Rightarrow> 1.0)"

definition size_classes :: "size_class list" where
  "size_classes = [Tiny, Small, Medium, Large, Massive]"

text \<open>Whether an attack type is size-agnostic, as the resolver tests it (after lowering).\<close>

abbreviation size_agnostic :: "string option \<Rightarrow> bool" where
  "size_agnostic t \<equiv> py_opt_in (lowered_attack t) SIZE_AGNOSTIC_ATTACKS"

section \<open>Lemmas\<close>

lemma size_classes_UNIV: "set size_classes = UNIV"
  by (auto simp: size_classes_def intro: size_class.exhaust)

lemma size_order_names: "SIZE_ORDER = map size_name size_classes"
  by (simp add: SIZE_ORDER_def size_classes_def)

lemma size_index_name: "py_index SIZE_ORDER (size_name x) = Inr (size_rank x)"
  by (cases x) (simp_all add: SIZE_ORDER_def)

lemma size_name_inj: "size_name x = size_name y \<longleftrightarrow> x = y"
  by (cases x; cases y) simp_all

lemma size_order_member: "s \<in> set SIZE_ORDER \<Longrightarrow> \<exists>x. s = size_name x"
  by (auto simp: size_order_names)

text \<open>The resolver on all 25 pairs of recognised size classes, evaluated by the kernel.\<close>

lemma size_table_check:
  "list_all (\<lambda>x. list_all (\<lambda>y.
      let E = explicit_multipliers (size_name x) (size_name y) (int (size_rank x) - int (size_rank y))
      in py_round (fst E) 3 = size_modifier x y \<and> py_round (snd E) 3 = size_modifier y x)
    size_classes) size_classes"
  by code_simp

lemma get_size_multipliers_named:
  "get_size_multipliers (Some (size_name x)) (Some (size_name y)) ta tb =
     (let E = explicit_multipliers (size_name x) (size_name y) (int (size_rank x) - int (size_rank y))
      in Inr (py_round (if size_agnostic ta then 1 else fst E) 3,
              py_round (if size_agnostic tb then 1 else snd E) 3))"
  by (simp add: get_size_multipliers_def size_index_name Let_def split: prod.split)

lemma size_multipliers_recognised:
  "get_size_multipliers (Some (size_name x)) (Some (size_name y)) ta tb =
     Inr (if size_agnostic ta then 1 else size_modifier x y,
          if size_agnostic tb then 1 else size_modifier y x)"
  using size_table_check
  by (simp add: get_size_multipliers_named list_all_iff size_classes_UNIV Let_def)

lemma get_size_multipliers_absent:
  "a = None \<or> b = None \<Longrightarrow> get_size_multipliers a b ta tb = Inr (1, 1)"
  by (cases a; cases b) (simp_all add: get_size_multipliers_def)

lemma explicit_multipliers_swap:
  "explicit_multipliers b a (- d) = prod.swap (explicit_multipliers a b d)"
  by (simp add: explicit_multipliers_def Let_def split: option.split)

lemma size_modifier_bounds: "0.7 \<le> size_modifier x y \<and> size_modifier x y \<le> 1.5"
  by (cases x; cases y) simp_all

lemma size_modifier_mono: "x < y \<Longrightarrow> size_modifier x z < size_modifier y z"
  by (cases x; cases y; cases z) (simp_all add: less_size_class_def)

lemma size_modifier_anti: "x < y \<Longrightarrow> size_modifier z y < size_modifier z x"
  by (cases x; cases y; cases z) (simp_all add: less_size_class_def)

lemma size_modifier_gt_one: "1 < size_modifier x y \<longleftrightarrow> y < x"
  by (cases x; cases y) (simp_all add: less_size_class_def)

lemma size_modifier_lt_one: "size_modifier x y < 1 \<longleftrightarrow> x < y"
  by (cases x; cases y) (simp_all add: less_size_class_def)

lemma size_pairs_covered:
  "x \<noteq> y \<Longrightarrow> map_of SIZE_BASE_MODIFIER (size_name x, size_name y) \<noteq> None
     \<or> map_of SIZE_BASE_MODIFIER (size_name y, size_name x) \<noteq> None"
  by (cases x; cases y) (simp_all add: SIZE_BASE_MODIFIER_def)

lemma explicit_multipliers_diff_irrelevant:
  "map_of SIZE_BASE_MODIFIER (a, b) \<noteq> None \<or> map_of SIZE_BASE_MODIFIER (b, a) \<noteq> None \<Longrightarrow>
     explicit_multipliers a b d = explicit_multipliers a b d'"
  by (auto simp: explicit_multipliers_def Let_def split: option.split)

lemma get_size_multipliers_recognised_cases:
  assumes "get_size_multipliers a b ta tb = Inr (ma, mb)"
  shows "(ma, mb) = (1, 1) \<or>
    (\<exists>x y. a = Some (size_name x) \<and> b = Some (size_name y) \<and>
       ma = (if size_agnostic ta then 1 else size_modifier x y) \<and>
       mb = (if size_agnostic tb then 1 else size_modifier y x))"
proof (cases "a = None \<or> b = None \<or> (size_agnostic ta \<and> size_agnostic tb)")
  case True
  with assms show ?thesis by (auto simp: get_size_multipliers_def split: option.splits)
next
  case False
  then obtain s t where ab: "a = Some s" "b = Some t" by auto
  with False assms have "py_index SIZE_ORDER s \<noteq> Inl ValueError"
    and "py_index SIZE_ORDER t \<noteq> Inl ValueError"
    by (auto simp: get_size_multipliers_def Let_def split: sum.splits)
  then have "s \<in> set SIZE_ORDER" and "t \<in> set SIZE_ORDER"
    by (auto simp: py_index_ValueError)
  then obtain x y where xy: "s = size_name x" "t = size_name y"
    by (blast dest: size_order_member)
  with ab assms have "ma = (if size_agnostic ta then 1 else size_modifier x y) \<and>
      mb = (if size_agnostic tb then 1 else size_modifier y x)"
    by (simp add: size_multipliers_recognised)
  with ab xy show ?thesis by blast
qed


text \<open>
  C21. For two recognised size classes and any attack types, the resolver returns the
  computed matrix entry for each side, or 1.0 for a side whose attack is size-agnostic:
  the string-keyed code implements the enumerated size matrix.
\<close>

theorem get_size_multipliers_refines:
  "get_size_multipliers (Some (size_name x)) (Some (size_name y)) ta tb =
     Inr (if size_agnostic ta then 1 else size_modifier x y,
          if size_agnostic tb then 1 else size_modifier y x)"
  by (rule size_multipliers_recognised)

text \<open>
  C24. When both attacks are size-agnostic (venom or chemical, in any case), the resolver
  returns (1.0, 1.0) for any sizes at all, recognised, unknown or absent, and raises
  nothing.
\<close>

theorem get_size_multipliers_both_agnostic:
  "size_agnostic ta \<Longrightarrow> size_agnostic tb \<Longrightarrow> get_size_multipliers a b ta tb = Inr (1, 1)"
  by (simp add: get_size_multipliers_def split: option.split)

theorem get_size_multipliers_both_agnostic_witness:
  "size_agnostic (Some ''Venom'') \<and> size_agnostic (Some ''chemical'')
   \<and> get_size_multipliers (Some ''huge'') (Some ''tiny'') (Some ''Venom'') (Some ''chemical'') = Inr (1, 1)"
proof -
  have h: "size_agnostic (Some ''Venom'')" "size_agnostic (Some ''chemical'')" by code_simp+
  show ?thesis using get_size_multipliers_both_agnostic [OF h] h by simp
qed

text \<open>
  C25. Size immunity is one-sided: when only the first attack is size-agnostic, the
  first multiplier is 1.0 while the second still carries the size advantage or penalty
  of the matrix.
\<close>

theorem get_size_multipliers_one_sided:
  "size_agnostic ta \<Longrightarrow> \<not> size_agnostic tb \<Longrightarrow>
     get_size_multipliers (Some (size_name x)) (Some (size_name y)) ta tb = Inr (1, size_modifier y x)"
  by (simp add: size_multipliers_recognised)

theorem get_size_multipliers_one_sided_witness:
  "size_agnostic (Some ''venom'') \<and> \<not> size_agnostic (Some ''crushing'')
   \<and> get_size_multipliers (Some (size_name Tiny)) (Some (size_name Massive)) (Some ''venom'') (Some ''crushing'')
       = Inr (1, 1.5)"
proof -
  have h: "size_agnostic (Some ''venom'')" "\<not> size_agnostic (Some ''crushing'')" by code_simp+
  show ?thesis using get_size_multipliers_one_sided [OF h, of Tiny Massive] h by simp
qed

text \<open>
  C26. A size that is present but not one of the five classes (misspelt, capitalised,
  or empty) makes the resolver raise \<open>ValueError\<close> unless both attacks are
  size-agnostic; the spec's neutral fallback applies only to absent sizes.
\<close>

theorem get_size_multipliers_unknown_size:
  assumes "sa \<notin> set SIZE_ORDER \<or> sb \<notin> set SIZE_ORDER"
    and "\<not> (size_agnostic ta \<and> size_agnostic tb)"
  shows "get_size_multipliers (Some sa) (Some sb) ta tb = Inl ValueError"
  using assms
  by (auto simp: get_size_multipliers_def Let_def split: sum.split dest: py_index_Inr_mem py_index_Inl)

theorem get_size_multipliers_unknown_size_witness:
  "''Tiny'' \<notin> set SIZE_ORDER
   \<and> \<not> (size_agnostic None \<and> size_agnostic None)
   \<and> get_size_multipliers (Some ''Tiny'') (Some ''small'') None None = Inl ValueError"
proof -
  have t: "''Tiny'' \<notin> set SIZE_ORDER" by (simp add: SIZE_ORDER_def)
  then have h: "''Tiny'' \<notin> set SIZE_ORDER \<or> ''small'' \<notin> set SIZE_ORDER" ..
  have n: "\<not> (size_agnostic None \<and> size_agnostic None)"
    by (simp add: lowered_attack_def)
  show ?thesis using get_size_multipliers_unknown_size [OF h n] t n by simp
qed

text \<open>
  C27. Swapping the two competitors swaps the two multipliers and nothing else, on every
  branch, errors included.
\<close>

theorem get_size_multipliers_swap:
  "get_size_multipliers b a tb ta = map_sum id prod.swap (get_size_multipliers a b ta tb)"
proof (cases "a = None \<or> b = None")
  case True
  then show ?thesis by (auto simp: get_size_multipliers_absent)
next
  case False
  then obtain s t where ab: "a = Some s" "b = Some t" by auto
  show ?thesis
  proof (cases "py_index SIZE_ORDER s")
    case (Inl e)
    then show ?thesis
      by (auto simp: get_size_multipliers_def ab Let_def split: sum.split dest: py_index_Inl)
  next
    case (Inr i)
    show ?thesis
    proof (cases "py_index SIZE_ORDER t")
      case (Inl e)
      with Inr show ?thesis
        by (auto simp: get_size_multipliers_def ab Let_def dest: py_index_Inl)
    next
      case (Inr j)
      have "explicit_multipliers t s (int j - int i) = prod.swap (explicit_multipliers s t (int i - int j))"
        using explicit_multipliers_swap [of t s "int i - int j"] by simp
      with \<open>py_index SIZE_ORDER s = Inr i\<close> Inr show ?thesis
        by (simp add: get_size_multipliers_def ab Let_def split: prod.split)
    qed
  qed
qed

text \<open>
  C28. Every multiplier the resolver returns lies between 0.7 and 1.5.
\<close>

theorem get_size_multipliers_bounds:
  assumes "get_size_multipliers a b ta tb = Inr (ma, mb)"
  shows "0.7 \<le> ma \<and> ma \<le> 1.5 \<and> 0.7 \<le> mb \<and> mb \<le> 1.5"
  using get_size_multipliers_recognised_cases [OF assms] size_modifier_bounds by auto

theorem get_size_multipliers_bounds_witness:
  "get_size_multipliers (Some (size_name Massive)) (Some (size_name Large)) None None = Inr (1.111, 0.9)
   \<and> 0.7 \<le> (1.111::real) \<and> (1.111::real) \<le> 1.5 \<and> 0.7 \<le> (0.9::real) \<and> (0.9::real) \<le> 1.5"
proof -
  have h: "get_size_multipliers (Some (size_name Massive)) (Some (size_name Large)) None None = Inr (1.111, 0.9)"
    using size_multipliers_recognised [of Massive Large None None] by (simp add: lowered_attack_def)
  show ?thesis using get_size_multipliers_bounds [OF h] h by simp
qed

text \<open>
  Against a smaller opponent, a size-dependent attack gets a multiplier above 1.0 and
  the opponent's size-dependent attack one below 1.0.
\<close>

theorem get_size_multipliers_larger_advantage:
  assumes "y < x" and "\<not> size_agnostic ta" and "\<not> size_agnostic tb"
  shows "\<exists>ma mb. get_size_multipliers (Some (size_name x)) (Some (size_name y)) ta tb = Inr (ma, mb)
           \<and> 1 < ma \<and> mb < 1"
  using assms by (simp add: size_multipliers_recognised size_modifier_gt_one size_modifier_lt_one)

theorem get_size_multipliers_larger_advantage_witness:
  "Small < Large \<and> \<not> size_agnostic (Some ''piercing'') \<and> \<not> size_agnostic None
   \<and> get_size_multipliers (Some (size_name Large)) (Some (size_name Small)) (Some ''piercing'') None
       = Inr (1.25, 0.8)"
proof -
  have h: "Small < Large" by (simp add: less_size_class_def)
  have a: "\<not> size_agnostic (Some ''piercing'')" by code_simp
  have n: "\<not> size_agnostic None" by (simp add: lowered_attack_def)
  from get_size_multipliers_larger_advantage [OF h a n] obtain ma mb
    where "get_size_multipliers (Some (size_name Large)) (Some (size_name Small)) (Some ''piercing'') None
       = Inr (ma, mb)" by blast
  have "get_size_multipliers (Some (size_name Large)) (Some (size_name Small)) (Some ''piercing'') None
       = Inr (1.25, 0.8)"
    using a n size_multipliers_recognised [of Large Small "Some ''piercing''" None] by simp
  with h a n show ?thesis by simp
qed

text \<open>
  The attacker's multiplier grows strictly with its own size class: against the same
  opponent, a size-dependent attack from a larger class gets a strictly larger multiplier.
\<close>

theorem get_size_multipliers_monotone:
  assumes "x < y" and "\<not> size_agnostic ta"
  shows "fst (projr (get_size_multipliers (Some (size_name x)) (Some (size_name z)) ta tb))
       < fst (projr (get_size_multipliers (Some (size_name y)) (Some (size_name z)) ta tb))"
  using assms by (simp add: size_multipliers_recognised size_modifier_mono)

theorem get_size_multipliers_monotone_witness:
  "Medium < Massive \<and> \<not> size_agnostic (Some ''Slashing'')
   \<and> fst (projr (get_size_multipliers (Some (size_name Medium)) (Some (size_name Large)) (Some ''Slashing'') None))
     < fst (projr (get_size_multipliers (Some (size_name Massive)) (Some (size_name Large)) (Some ''Slashing'') None))"
proof -
  have h: "Medium < Massive" by (simp add: less_size_class_def)
  have a: "\<not> size_agnostic (Some ''Slashing'')" by code_simp
  show ?thesis using get_size_multipliers_monotone [OF h a, of Large None] h a by blast
qed

text \<open>
  C29. For two different recognised size classes the explicit table always has an entry
  in at least one direction, so the explicit multipliers do not depend on the rank
  difference: the step function \<open>default_for_diff\<close> is consulted only for equal sizes.
\<close>

theorem explicit_multipliers_no_fallback:
  "x \<noteq> y \<Longrightarrow> explicit_multipliers (size_name x) (size_name y) d = explicit_multipliers (size_name x) (size_name y) 0"
  by (rule explicit_multipliers_diff_irrelevant, rule size_pairs_covered)

theorem explicit_multipliers_no_fallback_witness:
  "Tiny \<noteq> Small \<and> explicit_multipliers (size_name Tiny) (size_name Small) (-1) = explicit_multipliers (size_name Tiny) (size_name Small) 0"
  using explicit_multipliers_no_fallback [of Tiny Small "-1"] by simp

text \<open>
  The resolver's result type: it raises nothing but \<open>ValueError\<close>, and every pair
  it returns holds two decimals with at most three places (\<open>round(m, 3)\<close> or the
  literal 1.0), whatever the sizes and attack types.
\<close>

theorem get_size_multipliers_result_type:
  "case get_size_multipliers a b ta tb of
     Inl e \<Rightarrow> e = ValueError
   | Inr (x, y) \<Rightarrow> x * 1000 \<in> \<int> \<and> y * 1000 \<in> \<int>"
  by (auto simp: get_size_multipliers_def Let_def py_round3_Ints
      split: option.split sum.split prod.split dest: py_index_Inl)

end
