(* ===== verification/Bug_Model.thy ===== *)
theory Bug_Model
  imports Py_Prelude
begin

text \<open>
  The \<open>Bug\<close> and \<open>Battle\<close> models of \<open>src/app/models.py\<close>, as far as the battle engine
  reads or writes them: the combat stats, the three type columns, the win and loss
  counters, the flair, and the derived properties \<open>win_rate\<close> and \<open>power_level\<close> with
  the flair generator \<open>generate_flair\<close>. A row is a record; a nullable string column is
  a \<open>string option\<close>. The columns the engine never touches (image path, location, tier,
  timestamps, owner) are left out. \<open>generate_flair\<close> assigns the undefined name \<open>Null\<close>
  in its last branch, so it returns \<open>NameError\<close> there.
\<close>

section \<open>Rows\<close>

record bug =
  bug_id :: int
  nickname :: string
  attack :: int
  defense :: int
  speed :: int
  health :: int
  attack_type :: "string option"
  defense_type :: "string option"
  size_class :: "string option"
  wins :: int
  losses :: int
  flair :: "string option"

text \<open>
  A new row takes the column defaults of lines 52 to 57 and 87 to 88 (the second
  declaration of \<open>attack\<close>, \<open>defense\<close>, \<open>speed\<close> and \<open>health\<close> is the one SQLAlchemy keeps).
\<close>

definition new_bug :: "int \<Rightarrow> string \<Rightarrow> bug" where
  "new_bug i name = \<lparr>bug_id = i, nickname = name, attack = 5, defense = 5, speed = 5,
     health = 100, attack_type = None, defense_type = None, size_class = None,
     wins = 0, losses = 0, flair = None\<rparr>"

record battle =
  battle_id :: int
  red_corner_bug_id :: int
  blue_corner_bug_id :: int
  winner_id :: "int option"
  narrative :: string
  battle_date :: int

section \<open>Derived properties\<close>

definition win_rate :: "bug \<Rightarrow> real" where
  "win_rate b = (let total = wins b + losses b in
     if total > 0 then of_int (wins b) / of_int total * 100 else 0)"

definition power_level :: "bug \<Rightarrow> int" where
  "power_level b = attack b + defense b + speed b"

definition generate_flair :: "bug \<Rightarrow> py_error + bug" where
  "generate_flair b =
     (if win_rate b \<ge> 1 then Inr (b\<lparr>flair := Some ''Undefeated''\<rparr>)
      else if win_rate b \<ge> 80 \<and> wins b \<ge> 5 then Inr (b\<lparr>flair := Some ''Dominator''\<rparr>)
      else if wins b \<ge> 5 then Inr (b\<lparr>flair := Some ''Veteran''\<rparr>)
      else if speed b \<ge> 80 then Inr (b\<lparr>flair := Some ''Speedster''\<rparr>)
      else if defense b \<ge> 80 then Inr (b\<lparr>flair := Some ''Tank''\<rparr>)
      else if attack b \<ge> 80 then Inr (b\<lparr>flair := Some ''Powerhouse''\<rparr>)
      else Inl (NameError ''Null''))"

text \<open>A row is well formed when its stats and counters are non-negative.\<close>

definition bug_wf :: "bug \<Rightarrow> bool" where
  "bug_wf b \<longleftrightarrow> 0 \<le> attack b \<and> 0 \<le> defense b \<and> 0 \<le> speed b \<and> 0 \<le> wins b \<and> 0 \<le> losses b"

section \<open>Lemmas\<close>

lemma win_rate_ratio:
  assumes "wins b + losses b > 0"
  shows "win_rate b = of_int (wins b) / of_int (wins b + losses b) * 100"
  using assms by (simp add: win_rate_def Let_def)

lemma win_rate_bounds:
  assumes "0 \<le> wins b" and "0 \<le> losses b"
  shows "0 \<le> win_rate b \<and> win_rate b \<le> 100"
proof (cases "wins b + losses b > 0")
  case True
  define w t where "w = (of_int (wins b) :: real)" and "t = (of_int (wins b + losses b) :: real)"
  have "0 < t" and "0 \<le> w" and "w \<le> t"
    using True assms by (simp_all add: w_def t_def)
  then have "0 \<le> w * 100 / t" and "w * 100 / t \<le> 100" by (simp_all add: pos_divide_le_eq)
  moreover have "win_rate b = w * 100 / t"
    using True by (simp add: win_rate_ratio w_def t_def)
  ultimately show ?thesis by simp
next
  case False
  then show ?thesis by (simp add: win_rate_def)
qed

lemma win_rate_ge_one_iff:
  assumes "0 \<le> wins b" and "0 \<le> losses b"
  shows "1 \<le> win_rate b \<longleftrightarrow> 0 < wins b \<and> losses b \<le> 99 * wins b"
proof (cases "wins b + losses b > 0")
  case True
  define w t where "w = (of_int (wins b) :: real)" and "t = (of_int (wins b + losses b) :: real)"
  have "0 < t" using True by (simp add: t_def)
  then have "1 \<le> w / t * 100 \<longleftrightarrow> t \<le> w * 100" by (simp add: field_simps)
  moreover have "w * 100 = of_int (wins b * 100)" by (simp add: w_def)
  moreover have "win_rate b = w / t * 100"
    using True by (simp add: win_rate_ratio w_def t_def)
  ultimately have "1 \<le> win_rate b \<longleftrightarrow> wins b + losses b \<le> wins b * 100"
    by (simp only: t_def of_int_le_iff)
  moreover have "wins b + losses b \<le> wins b * 100 \<longleftrightarrow> 0 < wins b \<and> losses b \<le> 99 * wins b"
    using assms True by presburger
  ultimately show ?thesis by simp
next
  case False
  with assms show ?thesis by (simp add: win_rate_def)
qed

lemma generate_flair_frame: "generate_flair b = Inr b' \<Longrightarrow> b' = b\<lparr>flair := flair b'\<rparr>"
  by (auto simp: generate_flair_def split: if_splits)

text \<open>
  C33. \<open>generate_flair\<close> labels "Undefeated" every bug with at least one win and at most
  99 losses per win, because it compares the win rate, a percentage, with 1: a bug that
  lost 50 battles out of 51 is "Undefeated".
\<close>

theorem generate_flair_undefeated_with_losses:
  assumes "0 < wins b" and "0 \<le> losses b" and "losses b \<le> 99 * wins b"
  shows "generate_flair b = Inr (b\<lparr>flair := Some ''Undefeated''\<rparr>)"
proof -
  from assms have "1 \<le> win_rate b" by (simp add: win_rate_ge_one_iff)
  then show ?thesis by (simp add: generate_flair_def)
qed

theorem generate_flair_undefeated_with_losses_witness:
  "0 < wins ((new_bug 7 ''Stag'')\<lparr>wins := 1, losses := 50\<rparr>)
   \<and> 0 \<le> losses ((new_bug 7 ''Stag'')\<lparr>wins := 1, losses := 50\<rparr>)
   \<and> losses ((new_bug 7 ''Stag'')\<lparr>wins := 1, losses := 50\<rparr>) \<le> 99 * wins ((new_bug 7 ''Stag'')\<lparr>wins := 1, losses := 50\<rparr>)
   \<and> generate_flair ((new_bug 7 ''Stag'')\<lparr>wins := 1, losses := 50\<rparr>)
       = Inr ((new_bug 7 ''Stag'')\<lparr>wins := 1, losses := 50, flair := Some ''Undefeated''\<rparr>)"
proof -
  let ?b = "(new_bug 7 ''Stag'')\<lparr>wins := 1, losses := 50\<rparr>"
  have h: "0 < wins ?b" "0 \<le> losses ?b" "losses ?b \<le> 99 * wins ?b" by (simp_all add: new_bug_def)
  show ?thesis using generate_flair_undefeated_with_losses [OF h] h by simp
qed

text \<open>
  C34. The "Dominator" branch is unreachable: whatever the bug, \<open>generate_flair\<close> never
  assigns the flair "Dominator", since a win rate of 80 already satisfies the first test.
\<close>

theorem generate_flair_never_dominator:
  assumes "generate_flair b = Inr b'"
  shows "flair b' \<noteq> Some ''Dominator''"
  using assms by (auto simp: generate_flair_def split: if_splits)

theorem generate_flair_never_dominator_witness:
  "generate_flair ((new_bug 3 ''Atlas'')\<lparr>wins := 9, losses := 1\<rparr>)
     = Inr ((new_bug 3 ''Atlas'')\<lparr>wins := 9, losses := 1, flair := Some ''Undefeated''\<rparr>)
   \<and> flair ((new_bug 3 ''Atlas'')\<lparr>wins := 9, losses := 1, flair := Some ''Undefeated''\<rparr>) \<noteq> Some ''Dominator''"
proof -
  have h: "generate_flair ((new_bug 3 ''Atlas'')\<lparr>wins := 9, losses := 1\<rparr>)
     = Inr ((new_bug 3 ''Atlas'')\<lparr>wins := 9, losses := 1, flair := Some ''Undefeated''\<rparr>)"
    by (simp add: generate_flair_def win_rate_def new_bug_def)
  show ?thesis using generate_flair_never_dominator [OF h] h by simp
qed

text \<open>
  C35. A bug with a win rate below 1, fewer than five wins and every stat below 80 makes
  \<open>generate_flair\<close> raise \<open>NameError\<close> on the undefined name \<open>Null\<close>; a freshly
  submitted bug with default stats is such a bug.
\<close>

theorem generate_flair_name_error:
  assumes "win_rate b < 1" and "wins b < 5" and "speed b < 80" and "defense b < 80" and "attack b < 80"
  shows "generate_flair b = Inl (NameError ''Null'')"
  using assms by (simp add: generate_flair_def)

theorem generate_flair_name_error_witness:
  "win_rate (new_bug 1 ''Hercules'') < 1 \<and> wins (new_bug 1 ''Hercules'') < 5
   \<and> speed (new_bug 1 ''Hercules'') < 80 \<and> defense (new_bug 1 ''Hercules'') < 80
   \<and> attack (new_bug 1 ''Hercules'') < 80
   \<and> generate_flair (new_bug 1 ''Hercules'') = Inl (NameError ''Null'')"
proof -
  have h: "win_rate (new_bug 1 ''Hercules'') < 1" "wins (new_bug 1 ''Hercules'') < 5"
    "speed (new_bug 1 ''Hercules'') < 80" "defense (new_bug 1 ''Hercules'') < 80"
    "attack (new_bug 1 ''Hercules'') < 80"
    by (simp_all add: new_bug_def win_rate_def)
  show ?thesis using generate_flair_name_error [OF h] h by simp
qed

end
