(* ===== verification/Battle_Power.thy ===== *)
theory Battle_Power
  imports Bug_Model
begin

text \<open>
  \<open>calculate_battle_power\<close> of \<open>src/app/routes/battles.py\<close>: the weighted sum of the
  three stats scaled by one draw of \<open>random.uniform(0.9, 1.1)\<close>. The draw of
  \<open>random.random()\<close> behind it is the explicit argument \<open>u\<close>, so the function is
  deterministic in the model and a battle is the sequence of its draws. The function
  reads no type or size column: the matchup table and the size resolver are not called
  by the code, whatever the spec and the module docstring say.
\<close>

definition calculate_battle_power :: "bug \<Rightarrow> real \<Rightarrow> real" where
  "calculate_battle_power b u =
     (let base_power = of_int (attack b) * 2.0 + of_int (defense b) * 1.5 + of_int (speed b) * 1.2;
          randomness = py_uniform 0.9 1.1 u
      in base_power * randomness)"

text \<open>The weighted stat sum, the \<open>base_power\<close> of the code.\<close>

abbreviation base_power :: "bug \<Rightarrow> real" where
  "base_power b \<equiv> of_int (attack b) * 2.0 + of_int (defense b) * 1.5 + of_int (speed b) * 1.2"

lemma calculate_battle_power_eq: "calculate_battle_power b u = base_power b * py_uniform 0.9 1.1 u"
  by (simp add: calculate_battle_power_def)

lemma base_power_nonneg: "bug_wf b \<Longrightarrow> 0 \<le> base_power b"
  by (simp add: bug_wf_def)

lemma randomness_bounds: "random_draw u \<Longrightarrow> 0.9 \<le> py_uniform 0.9 1.1 u \<and> py_uniform 0.9 1.1 u \<le> 1.1"
  by (rule py_uniform_bounds) simp_all

lemma battle_power_scaled_bounds:
  assumes "0 \<le> base_power b" and "random_draw u"
  shows "0.9 * base_power b \<le> calculate_battle_power b u \<and>
         calculate_battle_power b u \<le> 1.1 * base_power b"
proof -
  from assms(2) have r: "0.9 \<le> py_uniform 0.9 1.1 u" "py_uniform 0.9 1.1 u \<le> 1.1"
    using randomness_bounds by blast+
  have "base_power b * 0.9 \<le> base_power b * py_uniform 0.9 1.1 u"
    using r(1) assms(1) by (rule mult_left_mono)
  moreover have "base_power b * py_uniform 0.9 1.1 u \<le> base_power b * 1.1"
    using r(2) assms(1) by (rule mult_left_mono)
  ultimately show ?thesis by (simp add: calculate_battle_power_eq mult.commute)
qed

text \<open>
  C23. For a bug with non-negative stats and a draw of \<open>random.random()\<close> in
  \<open>[0, 1)\<close>, the battle power is non-negative and lies between 0.9 and 1.1 times the
  weighted stat sum \<open>2 attack + 1.5 defense + 1.2 speed\<close>.
\<close>

theorem calculate_battle_power_bounds:
  assumes "bug_wf b" and "random_draw u"
  shows "0 \<le> calculate_battle_power b u
    \<and> 0.9 * (of_int (attack b) * 2 + of_int (defense b) * 1.5 + of_int (speed b) * 1.2) \<le> calculate_battle_power b u
    \<and> calculate_battle_power b u \<le> 1.1 * (of_int (attack b) * 2 + of_int (defense b) * 1.5 + of_int (speed b) * 1.2)"
proof -
  have base: "0 \<le> base_power b" using assms(1) by (rule base_power_nonneg)
  with assms(2) have "0.9 * base_power b \<le> calculate_battle_power b u"
    and "calculate_battle_power b u \<le> 1.1 * base_power b"
    using battle_power_scaled_bounds by blast+
  moreover from base have "0 \<le> 0.9 * base_power b" by simp
  ultimately show ?thesis by simp
qed

theorem calculate_battle_power_bounds_witness:
  "bug_wf (new_bug 1 ''Hercules'') \<and> random_draw 0.5
   \<and> calculate_battle_power (new_bug 1 ''Hercules'') 0.5 = 23.5
   \<and> 0 \<le> (23.5::real) \<and> 0.9 * (5 * 2 + 5 * 1.5 + 5 * 1.2) \<le> (23.5::real)
   \<and> (23.5::real) \<le> 1.1 * (5 * 2 + 5 * 1.5 + 5 * 1.2)"
proof -
  have h: "bug_wf (new_bug 1 ''Hercules'')" "random_draw 0.5"
    by (simp_all add: bug_wf_def new_bug_def random_draw_def)
  have v: "calculate_battle_power (new_bug 1 ''Hercules'') 0.5 = 23.5"
    by (simp add: calculate_battle_power_def py_uniform_def new_bug_def)
  show ?thesis using calculate_battle_power_bounds [OF h] h v by (simp add: new_bug_def)
qed

text \<open>
  The spec's worked example: a bug with attack, defense and speed all 10 has base
  power 47, so its battle power lies in \<open>[42.3, 51.7]\<close> for every draw.
\<close>

theorem calculate_battle_power_example:
  assumes "attack b = 10" and "defense b = 10" and "speed b = 10" and "random_draw u"
  shows "42.3 \<le> calculate_battle_power b u \<and> calculate_battle_power b u \<le> 51.7"
proof -
  from assms(1-3) have "base_power b = 47" by simp
  with battle_power_scaled_bounds [of b u] assms(4) show ?thesis by simp
qed

theorem calculate_battle_power_example_witness:
  "attack ((new_bug 1 ''Ten'')\<lparr>attack := 10, defense := 10, speed := 10\<rparr>) = 10
   \<and> defense ((new_bug 1 ''Ten'')\<lparr>attack := 10, defense := 10, speed := 10\<rparr>) = 10
   \<and> speed ((new_bug 1 ''Ten'')\<lparr>attack := 10, defense := 10, speed := 10\<rparr>) = 10
   \<and> random_draw 0
   \<and> 42.3 \<le> calculate_battle_power ((new_bug 1 ''Ten'')\<lparr>attack := 10, defense := 10, speed := 10\<rparr>) 0
   \<and> calculate_battle_power ((new_bug 1 ''Ten'')\<lparr>attack := 10, defense := 10, speed := 10\<rparr>) 0 \<le> 51.7"
proof -
  let ?b = "(new_bug 1 ''Ten'')\<lparr>attack := 10, defense := 10, speed := 10\<rparr>"
  have h: "attack ?b = 10" "defense ?b = 10" "speed ?b = 10" "random_draw 0"
    by (simp_all add: random_draw_def)
  show ?thesis using calculate_battle_power_example [OF h] h by simp
qed

text \<open>
  C31. The battle power reads no type or size column: changing a bug's attack type,
  defense type or size class never changes its power, so the matchup table and the size
  resolver have no effect on any battle, contrary to the spec's power formula.
\<close>

theorem calculate_battle_power_ignores_types:
  "calculate_battle_power (b\<lparr>attack_type := t1, defense_type := t2, size_class := sz\<rparr>) u
     = calculate_battle_power b u"
  by (simp add: calculate_battle_power_def)

end
