(* ===== verification/Battle_Engine.thy ===== *)
theory Battle_Engine
  imports Battle_Power
begin

text \<open>
  \<open>simulate_battle\<close> of \<open>src/app/routes/battles.py\<close>: two power draws, the winner by
  comparison with a random tie-break, the narrative, the new \<open>Battle\<close> row and the two
  counter updates \<open>winner.wins += 1\<close> and \<open>loser.losses += 1\<close>, committed together.
  The database is an explicit store: the \<open>bug\<close> rows by primary key, the list of
  \<open>battle\<close> rows in insertion order and the next autoincrement key. The three random
  draws of one battle, in the order the code takes them (red power, blue power, then the
  tie-break of \<open>random.choice\<close>), are a \<open>draws\<close> record. The narrative generator is
  a parameter, since the code calls a function it never defines. The lemmas give the
  resolver's behaviour on every branch, the effect of one battle on the store, and the
  exact margin (11 to 9 in weighted stat sums) beyond which no draw can produce an upset.
\<close>

section \<open>Random draws and the store\<close>

record draws =
  red_draw :: real
  blue_draw :: real
  tie_pick :: bool

definition draws_ok :: "draws \<Rightarrow> bool" where
  "draws_ok d \<longleftrightarrow> random_draw (red_draw d) \<and> random_draw (blue_draw d)"

record arena =
  bugs :: "int \<rightharpoonup> bug"
  battles :: "battle list"
  next_battle_id :: int

type_synonym narrator = "bug \<Rightarrow> bug \<Rightarrow> bug \<Rightarrow> string"

section \<open>The resolver\<close>

text \<open>
  Lines 232 to 241: the higher power wins; on equal powers \<open>random.choice([bug1, bug2])\<close>
  picks the winner (\<open>second\<close> is the draw of index 1) and the loser is the other one.
\<close>

definition determine_winner :: "real \<Rightarrow> real \<Rightarrow> bool \<Rightarrow> 'b \<Rightarrow> 'b \<Rightarrow> 'b \<times> 'b" where
  "determine_winner p1 p2 second b1 b2 =
     (if p1 > p2 then (b1, b2)
      else if p2 > p1 then (b2, b1)
      else let winner = (if second then b2 else b1) in (winner, if winner = b1 then b2 else b1))"

text \<open>\<open>winner.wins += 1\<close> and \<open>loser.losses += 1\<close> on the rows of the store.\<close>

definition record_win :: "int \<Rightarrow> (int \<rightharpoonup> bug) \<Rightarrow> (int \<rightharpoonup> bug)" where
  "record_win i m = m(i := map_option (\<lambda>b. b\<lparr>wins := wins b + 1\<rparr>) (m i))"

definition record_loss :: "int \<Rightarrow> (int \<rightharpoonup> bug) \<Rightarrow> (int \<rightharpoonup> bug)" where
  "record_loss i m = m(i := map_option (\<lambda>b. b\<lparr>losses := losses b + 1\<rparr>) (m i))"

definition simulate_battle :: "narrator \<Rightarrow> int \<Rightarrow> bug \<Rightarrow> bug \<Rightarrow> draws \<Rightarrow> arena \<Rightarrow> battle \<times> arena" where
  "simulate_battle narrate now red blue d s =
     (let red_power = calculate_battle_power red (red_draw d);
          blue_power = calculate_battle_power blue (blue_draw d);
          (winner, loser) = determine_winner red_power blue_power (tie_pick d) red blue;
          narrative = narrate red blue winner;
          bt = \<lparr>battle_id = next_battle_id s, red_corner_bug_id = bug_id red,
                blue_corner_bug_id = bug_id blue, winner_id = Some (bug_id winner),
                narrative = narrative, battle_date = now\<rparr>;
          store = record_loss (bug_id loser) (record_win (bug_id winner) (bugs s))
      in (bt, s\<lparr>bugs := store, battles := battles s @ [bt], next_battle_id := next_battle_id s + 1\<rparr>))"

section \<open>Lemmas\<close>

lemma determine_winner_cases:
  "determine_winner p1 p2 c b1 b2 = (b1, b2) \<or> determine_winner p1 p2 c b1 b2 = (b2, b1)"
  by (auto simp: determine_winner_def Let_def)

lemma determine_winner_strict:
  "p1 \<noteq> p2 \<Longrightarrow> determine_winner p1 p2 c b1 b2 = (if p2 < p1 then (b1, b2) else (b2, b1))"
  by (auto simp: determine_winner_def)

lemma determine_winner_tie:
  "b1 \<noteq> b2 \<Longrightarrow> determine_winner p p c b1 b2 = (if c then (b2, b1) else (b1, b2))"
  by (simp add: determine_winner_def)

lemma record_win_other [simp]: "j \<noteq> i \<Longrightarrow> record_win i m j = m j"
  by (simp add: record_win_def)

lemma record_loss_other [simp]: "j \<noteq> i \<Longrightarrow> record_loss i m j = m j"
  by (simp add: record_loss_def)

lemma record_win_same [simp]: "record_win i m i = map_option (\<lambda>b. b\<lparr>wins := wins b + 1\<rparr>) (m i)"
  by (simp add: record_win_def)

lemma record_loss_same [simp]:
  "record_loss i m i = map_option (\<lambda>b. b\<lparr>losses := losses b + 1\<rparr>) (m i)"
  by (simp add: record_loss_def)

lemma record_dom [simp]: "dom (record_win i m) = dom m" "dom (record_loss i m) = dom m"
  by (auto simp: record_win_def record_loss_def)

text \<open>The shape of one simulated battle: which pair won, and the state after it.\<close>

lemma simulate_battle_shape:
  assumes "simulate_battle narrate now red blue d s = (bt, s')"
  obtains w l where "(w, l) = (red, blue) \<or> (w, l) = (blue, red)"
    and "bt = \<lparr>battle_id = next_battle_id s, red_corner_bug_id = bug_id red,
                blue_corner_bug_id = bug_id blue, winner_id = Some (bug_id w),
                narrative = narrate red blue w, battle_date = now\<rparr>"
    and "s' = s\<lparr>bugs := record_loss (bug_id l) (record_win (bug_id w) (bugs s)),
                battles := battles s @ [bt], next_battle_id := next_battle_id s + 1\<rparr>"
proof -
  let ?r = "determine_winner (calculate_battle_power red (red_draw d))
              (calculate_battle_power blue (blue_draw d)) (tie_pick d) red blue"
  have "?r = (red, blue) \<or> ?r = (blue, red)" by (rule determine_winner_cases)
  moreover have "bt = \<lparr>battle_id = next_battle_id s, red_corner_bug_id = bug_id red,
                blue_corner_bug_id = bug_id blue, winner_id = Some (bug_id (fst ?r)),
                narrative = narrate red blue (fst ?r), battle_date = now\<rparr>"
    and "s' = s\<lparr>bugs := record_loss (bug_id (snd ?r)) (record_win (bug_id (fst ?r)) (bugs s)),
                battles := battles s @ [bt], next_battle_id := next_battle_id s + 1\<rparr>"
    using assms by (auto simp: simulate_battle_def Let_def split: prod.splits)
  ultimately show ?thesis using that by (metis fst_conv snd_conv)
qed

text \<open>
  C8. When the two powers differ, the bug with the strictly higher power wins and the
  other loses, whatever the tie-break draw.
\<close>

theorem determine_winner_higher_power:
  assumes "p1 \<noteq> p2"
  shows "determine_winner p1 p2 c b1 b2 = (if p2 < p1 then (b1, b2) else (b2, b1))"
  using assms by (rule determine_winner_strict)

theorem determine_winner_higher_power_witness:
  "(42.3::real) \<noteq> 51.7 \<and> determine_winner 42.3 51.7 False (1::int) 2 = (2, 1)"
  using determine_winner_higher_power [of "42.3" "51.7" False "1::int" 2] by simp

text \<open>
  The resolution is symmetric under swapping the corners: resolving the pair the
  other way round, with the same two powers and the opposite tie-break draw (the same
  bug picked), gives the same winner and loser.
\<close>

theorem determine_winner_swap:
  assumes "b1 \<noteq> b2"
  shows "determine_winner p2 p1 (\<not> c) b2 b1 = determine_winner p1 p2 c b1 b2"
  using assms by (auto simp: determine_winner_def)

theorem determine_winner_swap_witness:
  "(1::int) \<noteq> 2 \<and> determine_winner (47::real) 47 (\<not> False) (2::int) 1 = determine_winner 47 47 False 1 2
   \<and> determine_winner (47::real) 47 False (1::int) 2 = (1, 2)"
proof -
  have h: "(1::int) \<noteq> 2" by simp
  show ?thesis using determine_winner_swap [OF h, of 47 47 False] h by (simp add: determine_winner_def)
qed

text \<open>
  On exactly equal powers neither bug is favoured: the draw of \<open>random.choice\<close>
  decides, each of its two values makes a different bug the winner, and the loser is
  always the other bug.
\<close>

theorem determine_winner_tie_by_draw:
  assumes "b1 \<noteq> b2"
  shows "determine_winner p p False b1 b2 = (b1, b2) \<and> determine_winner p p True b1 b2 = (b2, b1)"
  using assms by (simp add: determine_winner_tie)

theorem determine_winner_tie_by_draw_witness:
  "(1::int) \<noteq> 2 \<and> determine_winner (23.5::real) 23.5 False (1::int) 2 = (1, 2)
   \<and> determine_winner (23.5::real) 23.5 True (1::int) 2 = (2, 1)"
  using determine_winner_tie_by_draw [of "1::int" 2 "23.5::real"] by simp

text \<open>
  C7. One simulated battle between two different stored bugs appends exactly one battle
  row, with the next key, the two corners and a winner that is one of them; it adds one
  to the winner's wins and one to the loser's losses and leaves every other row as it was.
\<close>

theorem simulate_battle_effect:
  assumes "bug_id red \<noteq> bug_id blue"
    and "simulate_battle narrate now red blue d s = (bt, s')"
  shows "battles s' = battles s @ [bt] \<and> next_battle_id s' = next_battle_id s + 1
    \<and> battle_id bt = next_battle_id s
    \<and> red_corner_bug_id bt = bug_id red \<and> blue_corner_bug_id bt = bug_id blue
    \<and> (\<exists>w l. {w, l} = {bug_id red, bug_id blue} \<and> w \<noteq> l \<and> winner_id bt = Some w
         \<and> bugs s' w = map_option (\<lambda>b. b\<lparr>wins := wins b + 1\<rparr>) (bugs s w)
         \<and> bugs s' l = map_option (\<lambda>b. b\<lparr>losses := losses b + 1\<rparr>) (bugs s l)
         \<and> (\<forall>i. i \<noteq> w \<longrightarrow> i \<noteq> l \<longrightarrow> bugs s' i = bugs s i))"
proof -
  obtain w l where wl: "(w, l) = (red, blue) \<or> (w, l) = (blue, red)"
    and bt: "bt = \<lparr>battle_id = next_battle_id s, red_corner_bug_id = bug_id red,
                blue_corner_bug_id = bug_id blue, winner_id = Some (bug_id w),
                narrative = narrate red blue w, battle_date = now\<rparr>"
    and s': "s' = s\<lparr>bugs := record_loss (bug_id l) (record_win (bug_id w) (bugs s)),
                battles := battles s @ [bt], next_battle_id := next_battle_id s + 1\<rparr>"
    using simulate_battle_shape [OF assms(2)] by blast
  from wl assms(1) have ids: "{bug_id w, bug_id l} = {bug_id red, bug_id blue}" "bug_id w \<noteq> bug_id l"
    by auto
  have "bugs s' (bug_id w) = map_option (\<lambda>b. b\<lparr>wins := wins b + 1\<rparr>) (bugs s (bug_id w))"
    and "bugs s' (bug_id l) = map_option (\<lambda>b. b\<lparr>losses := losses b + 1\<rparr>) (bugs s (bug_id l))"
    and "\<forall>i. i \<noteq> bug_id w \<longrightarrow> i \<noteq> bug_id l \<longrightarrow> bugs s' i = bugs s i"
    using s' ids(2) by simp_all
  moreover have "winner_id bt = Some (bug_id w)" using bt by simp
  ultimately have "\<exists>w' l'. {w', l'} = {bug_id red, bug_id blue} \<and> w' \<noteq> l' \<and> winner_id bt = Some w'
         \<and> bugs s' w' = map_option (\<lambda>b. b\<lparr>wins := wins b + 1\<rparr>) (bugs s w')
         \<and> bugs s' l' = map_option (\<lambda>b. b\<lparr>losses := losses b + 1\<rparr>) (bugs s l')
         \<and> (\<forall>i. i \<noteq> w' \<longrightarrow> i \<noteq> l' \<longrightarrow> bugs s' i = bugs s i)"
    using ids by blast
  then show ?thesis using bt s' by simp
qed

theorem simulate_battle_effect_witness:
  "bug_id (new_bug 1 ''Hercules'') \<noteq> bug_id (new_bug 2 ''Goliath'')
   \<and> winner_id (fst (simulate_battle (\<lambda>_ _ _. ''a fight'') 7 (new_bug 1 ''Hercules'') (new_bug 2 ''Goliath'')
        \<lparr>red_draw = 0.25, blue_draw = 0.5, tie_pick = False\<rparr>
        \<lparr>bugs = [1 \<mapsto> new_bug 1 ''Hercules'', 2 \<mapsto> new_bug 2 ''Goliath''], battles = [], next_battle_id = 1\<rparr>)) = Some 2
   \<and> battles (snd (simulate_battle (\<lambda>_ _ _. ''a fight'') 7 (new_bug 1 ''Hercules'') (new_bug 2 ''Goliath'')
        \<lparr>red_draw = 0.25, blue_draw = 0.5, tie_pick = False\<rparr>
        \<lparr>bugs = [1 \<mapsto> new_bug 1 ''Hercules'', 2 \<mapsto> new_bug 2 ''Goliath''], battles = [], next_battle_id = 1\<rparr>))
     = [fst (simulate_battle (\<lambda>_ _ _. ''a fight'') 7 (new_bug 1 ''Hercules'') (new_bug 2 ''Goliath'')
        \<lparr>red_draw = 0.25, blue_draw = 0.5, tie_pick = False\<rparr>
        \<lparr>bugs = [1 \<mapsto> new_bug 1 ''Hercules'', 2 \<mapsto> new_bug 2 ''Goliath''], battles = [], next_battle_id = 1\<rparr>)]"
proof -
  let ?run = "simulate_battle (\<lambda>_ _ _. ''a fight'') 7 (new_bug 1 ''Hercules'') (new_bug 2 ''Goliath'')
        \<lparr>red_draw = 0.25, blue_draw = 0.5, tie_pick = False\<rparr>
        \<lparr>bugs = [1 \<mapsto> new_bug 1 ''Hercules'', 2 \<mapsto> new_bug 2 ''Goliath''], battles = [], next_battle_id = 1\<rparr>"
  have h: "bug_id (new_bug 1 ''Hercules'') \<noteq> bug_id (new_bug 2 ''Goliath'')" by (simp add: new_bug_def)
  have w: "winner_id (fst ?run) = Some 2"
    by (simp add: simulate_battle_def calculate_battle_power_def py_uniform_def determine_winner_def
        new_bug_def Let_def)
  from simulate_battle_effect [OF h, of _ 7 _ _ "fst ?run" "snd ?run"]
  have "battles (snd ?run) = [fst ?run]" by simp
  with h w show ?thesis by simp
qed

lemma power_lower:
  assumes "0 \<le> base_power b" and "random_draw u"
  shows "0.9 * base_power b \<le> calculate_battle_power b u"
  using battle_power_scaled_bounds [OF assms] by blast

lemma power_upper:
  assumes "0 \<le> base_power b" and "random_draw u"
  shows "calculate_battle_power b u \<le> 1.1 * base_power b"
  using battle_power_scaled_bounds [OF assms] by blast

lemma simulate_battle_winner:
  "winner_id (fst (simulate_battle narrate now red blue d s)) =
     Some (bug_id (fst (determine_winner (calculate_battle_power red (red_draw d))
        (calculate_battle_power blue (blue_draw d)) (tie_pick d) red blue)))"
  by (simp add: simulate_battle_def Let_def split: prod.split)

lemma upset_draw:
  fixes x y :: real
  assumes "0 < y" and "9 * x < 11 * y"
  obtains u where "0 \<le> u" and "u < 1" and "0.9 * x < y * (0.9 + 0.2 * u)"
proof -
  define e where "e = 1.1 * y - 0.9 * x"
  define m where "m = min 1 (e / (0.4 * y))"
  have e: "0 < e" using assms(2) by (simp add: e_def)
  then have m0: "0 < m" and m1: "m \<le> 1" using assms(1) by (simp_all add: m_def)
  have "m \<le> e / (0.4 * y)" by (simp add: m_def)
  then have "m * (0.4 * y) \<le> e" using assms(1) by (simp add: pos_le_divide_eq)
  then have le: "0.4 * (m * y) \<le> 1.1 * y - 0.9 * x" by (simp add: e_def algebra_simps)
  have pos: "0 < m * y" using m0 assms(1) by simp
  have "y * (0.9 + 0.2 * (1 - m)) = 1.1 * y - 0.2 * (m * y)" by (simp add: field_simps)
  with le pos have "0.9 * x < y * (0.9 + 0.2 * (1 - m))" by linarith
  moreover have "0 \<le> 1 - m" and "1 - m < 1" using m0 m1 by simp_all
  ultimately show ?thesis using that by blast
qed

text \<open>
  C9. No upset beyond the randomness margin: for well-formed draws and a blue bug with
  non-negative stats, if 11 times blue's weighted stat sum is below 9 times red's, red
  wins whatever the draws, since the \<open>random.uniform(0.9, 1.1)\<close> factor cannot close
  a gap of more than 1.1/0.9.
\<close>

theorem simulate_battle_no_upset:
  assumes "draws_ok d" and "bug_wf blue"
    and "11 * base_power blue < 9 * base_power red"
  shows "winner_id (fst (simulate_battle narrate now red blue d s)) = Some (bug_id red)"
proof -
  have bb: "0 \<le> base_power blue" using assms(2) by (rule base_power_nonneg)
  have margin: "0 \<le> y \<Longrightarrow> 11 * y < 9 * x \<Longrightarrow> 0 \<le> x \<and> 1.1 * y < 0.9 * x" for x y :: real
    by linarith
  from margin [OF bb assms(3)] have br: "0 \<le> base_power red"
    and lt: "1.1 * base_power blue < 0.9 * base_power red" by blast+
  from assms(1) have u: "random_draw (red_draw d)" "random_draw (blue_draw d)"
    by (simp_all add: draws_ok_def)
  have "calculate_battle_power blue (blue_draw d) \<le> 1.1 * base_power blue"
    using bb u(2) by (rule power_upper)
  also have "\<dots> < 0.9 * base_power red" by (rule lt)
  also have "\<dots> \<le> calculate_battle_power red (red_draw d)"
    using br u(1) by (rule power_lower)
  finally show ?thesis by (simp add: simulate_battle_winner determine_winner_strict)
qed


theorem simulate_battle_no_upset_witness:
  "draws_ok \<lparr>red_draw = 0.5, blue_draw = 0.25, tie_pick = False\<rparr>
   \<and> bug_wf (new_bug 2 ''Goliath'')
   \<and> 11 * base_power (new_bug 2 ''Goliath'') < 9 * base_power ((new_bug 1 ''Hercules'')\<lparr>attack := 20\<rparr>)
   \<and> winner_id (fst (simulate_battle (\<lambda>_ _ _. ''a fight'') 7 ((new_bug 1 ''Hercules'')\<lparr>attack := 20\<rparr>)
        (new_bug 2 ''Goliath'') \<lparr>red_draw = 0.5, blue_draw = 0.25, tie_pick = False\<rparr>
        \<lparr>bugs = Map.empty, battles = [], next_battle_id = 1\<rparr>)) = Some 1"
proof -
  have h: "draws_ok \<lparr>red_draw = 0.5, blue_draw = 0.25, tie_pick = False\<rparr>"
    "bug_wf (new_bug 2 ''Goliath'')"
    "11 * base_power (new_bug 2 ''Goliath'') < 9 * base_power ((new_bug 1 ''Hercules'')\<lparr>attack := 20\<rparr>)"
    by (simp_all add: draws_ok_def random_draw_def bug_wf_def new_bug_def)
  show ?thesis
    using simulate_battle_no_upset [OF h, of "\<lambda>_ _ _. ''a fight''" 7 "\<lparr>bugs = Map.empty, battles = [], next_battle_id = 1\<rparr>"] h
    by (simp add: new_bug_def)
qed

text \<open>
  C10. The margin is tight: when blue's weighted stat sum is positive and 9 times red's is
  below 11 times blue's, some well-formed draws make blue win, however much stronger red
  is within that margin.
\<close>

theorem simulate_battle_upset_possible:
  assumes "0 < base_power blue" and "9 * base_power red < 11 * base_power blue"
  shows "\<exists>d. draws_ok d \<and> winner_id (fst (simulate_battle narrate now red blue d s)) = Some (bug_id blue)"
proof -
  obtain u where u: "0 \<le> u" "u < 1" and lt: "0.9 * base_power red < base_power blue * (0.9 + 0.2 * u)"
    using upset_draw [OF assms] by blast
  define d where "d = \<lparr>red_draw = 0, blue_draw = u, tie_pick = False\<rparr>"
  have ok: "draws_ok d" using u by (simp add: d_def draws_ok_def random_draw_def)
  have "calculate_battle_power red (red_draw d) < calculate_battle_power blue (blue_draw d)"
    using lt by (simp add: d_def calculate_battle_power_eq py_uniform_def mult.commute)
  then have "winner_id (fst (simulate_battle narrate now red blue d s)) = Some (bug_id blue)"
    by (simp add: simulate_battle_winner determine_winner_strict)
  with ok show ?thesis by blast
qed

theorem simulate_battle_upset_possible_witness:
  "0 < base_power (new_bug 2 ''Goliath'')
   \<and> 9 * base_power ((new_bug 1 ''Hercules'')\<lparr>attack := 6\<rparr>) < 11 * base_power (new_bug 2 ''Goliath'')
   \<and> (\<exists>d. draws_ok d \<and> winner_id (fst (simulate_battle (\<lambda>_ _ _. ''a fight'') 7
          ((new_bug 1 ''Hercules'')\<lparr>attack := 6\<rparr>) (new_bug 2 ''Goliath'') d
          \<lparr>bugs = Map.empty, battles = [], next_battle_id = 1\<rparr>)) = Some (bug_id (new_bug 2 ''Goliath'')))"
proof -
  have h: "0 < base_power (new_bug 2 ''Goliath'')"
    "9 * base_power ((new_bug 1 ''Hercules'')\<lparr>attack := 6\<rparr>) < 11 * base_power (new_bug 2 ''Goliath'')"
    by (simp_all add: new_bug_def)
  show ?thesis using simulate_battle_upset_possible [OF h] h by blast
qed

end
