(* ===== verification/Py_Int.thy ===== *)
theory Py_Int
  imports Py_Prelude
begin

text \<open>
  Python's \<open>int(s)\<close> on a string and \<open>str(n)\<close> on an int, for the ASCII digits:
  surrounding whitespace is stripped, one sign is allowed, and single underscores may
  separate digits. \<open>int\<close> raising \<open>ValueError\<close> is \<open>None\<close>.
\<close>

definition is_digit :: "char \<Rightarrow> bool" where
  "is_digit c \<longleftrightarrow> 48 \<le> (of_char c :: nat) \<and> (of_char c :: nat) \<le> 57"

definition digit_val :: "char \<Rightarrow> int" where
  "digit_val c = int (of_char c) - 48"

definition digits_value :: "string \<Rightarrow> int" where
  "digits_value s = foldl (\<lambda>acc c. 10 * acc + digit_val c) 0 s"

fun no_double_underscore :: "string \<Rightarrow> bool" where
  "no_double_underscore (c # d # cs) =
     (\<not> (c = CHR ''_'' \<and> d = CHR ''_'') \<and> no_double_underscore (d # cs))"
| "no_double_underscore _ = True"

definition py_int_body :: "string \<Rightarrow> int option" where
  "py_int_body s =
     (if s \<noteq> [] \<and> is_digit (hd s) \<and> is_digit (last s)
         \<and> list_all (\<lambda>c. is_digit c \<or> c = CHR ''_'') s \<and> no_double_underscore s
      then Some (digits_value (filter is_digit s)) else None)"

definition py_space :: "char \<Rightarrow> bool" where
  "py_space c \<longleftrightarrow> (of_char c :: nat) \<in> {9, 10, 11, 12, 13, 28, 29, 30, 31, 32}"

definition py_strip :: "string \<Rightarrow> string" where
  "py_strip s = rev (dropWhile py_space (rev (dropWhile py_space s)))"

definition py_int :: "string \<Rightarrow> int option" where
  "py_int s =
     (case py_strip s of
        [] \<Rightarrow> None
      | c # r \<Rightarrow>
          if c = CHR ''-'' then map_option uminus (py_int_body r)
          else if c = CHR ''+'' then py_int_body r
          else py_int_body (c # r))"

fun nat_digits :: "nat \<Rightarrow> string" where
  "nat_digits n =
     (if n < 10 then [char_of (48 + n)] else nat_digits (n div 10) @ [char_of (48 + n mod 10)])"

definition py_str_int :: "int \<Rightarrow> string" where
  "py_str_int i = (if i < 0 then CHR ''-'' # nat_digits (nat (- i)) else nat_digits (nat i))"

declare nat_digits.simps [simp del]

lemma of_char_digit: "k < 10 \<Longrightarrow> (of_char (char_of (48 + k)) :: nat) = 48 + k"
  by (simp add: of_char_of)

lemma nat_digits_chars: "c \<in> set (nat_digits n) \<Longrightarrow> is_digit c"
proof (induction n rule: nat_digits.induct)
  case (1 n)
  then show ?case
    by (cases "n < 10") (auto simp: nat_digits.simps [of n] is_digit_def of_char_digit)
qed

lemma nat_digits_not_Nil [simp]: "nat_digits n \<noteq> []"
  by (subst nat_digits.simps) simp

lemma digits_value_snoc: "digits_value (xs @ [c]) = 10 * digits_value xs + digit_val c"
  by (simp add: digits_value_def)

lemma digits_value_nat_digits: "digits_value (nat_digits n) = int n"
proof (induction n rule: nat_digits.induct)
  case (1 n)
  show ?case
  proof (cases "n < 10")
    case True
    then show ?thesis
      by (simp add: nat_digits.simps [of n] digits_value_def digit_val_def of_char_digit)
  next
    case False
    then have "digits_value (nat_digits n)
        = 10 * int (n div 10) + digit_val (char_of (48 + n mod 10))"
      using "1.IH" by (simp add: nat_digits.simps [of n] digits_value_snoc)
    also have "\<dots> = 10 * int (n div 10) + int (n mod 10)"
      by (simp add: digit_val_def of_char_digit)
    also have "\<dots> = int (10 * (n div 10) + n mod 10)"
      by (simp only: of_nat_add of_nat_mult of_nat_numeral)
    also have "\<dots> = int n"
      by (simp only: mult_div_mod_eq)
    finally show ?thesis .
  qed
qed

lemma no_double_underscore_digits: "\<forall>c\<in>set s. is_digit c \<Longrightarrow> no_double_underscore s"
  by (induction s rule: no_double_underscore.induct) (auto simp: is_digit_def)

lemma digit_not_space: "is_digit c \<Longrightarrow> \<not> py_space c"
  by (auto simp: is_digit_def py_space_def)

lemma py_int_body_nat_digits: "py_int_body (nat_digits n) = Some (int n)"
proof -
  have all: "\<forall>c\<in>set (nat_digits n). is_digit c" using nat_digits_chars by blast
  then have "filter is_digit (nat_digits n) = nat_digits n" by simp
  moreover have "is_digit (hd (nat_digits n))" and "is_digit (last (nat_digits n))"
    using all by simp_all
  ultimately show ?thesis
    using all no_double_underscore_digits [OF all]
    by (simp add: py_int_body_def list_all_iff digits_value_nat_digits)
qed

lemma py_strip_digits:
  assumes "\<forall>c\<in>set s. \<not> py_space c" 
  shows "py_strip s = s"
proof -
  from assms have "dropWhile py_space s = s" by (cases s) simp_all
  moreover from assms have "dropWhile py_space (rev s) = rev s" by (cases "rev s") auto
  ultimately show ?thesis by (simp add: py_strip_def)
qed

lemma py_int_str [simp]: "py_int (py_str_int i) = Some i"
proof (cases "i < 0")
  case True
  have "\<forall>c\<in>set (CHR ''-'' # nat_digits (nat (- i))). \<not> py_space c"
    using nat_digits_chars digit_not_space by (auto simp: py_space_def)
  with True show ?thesis
    by (simp add: py_str_int_def py_int_def py_strip_digits py_int_body_nat_digits)
next
  case False
  have digits: "\<forall>c\<in>set (nat_digits (nat i)). is_digit c" using nat_digits_chars by blast
  then have "\<forall>c\<in>set (nat_digits (nat i)). \<not> py_space c" using digit_not_space by blast
  moreover obtain c r where cr: "nat_digits (nat i) = c # r" by (cases "nat_digits (nat i)") auto
  moreover from digits cr have "c \<noteq> CHR ''-''" and "c \<noteq> CHR ''+''"
    by (auto simp: is_digit_def)
  ultimately show ?thesis using False py_int_body_nat_digits [of "nat i"]
    by (simp add: py_str_int_def py_int_def py_strip_digits)
qed

end
