(* ===== verification/Battle_Routes.thy ===== *)
theory Battle_Routes
  imports Battle_Engine Py_Int
begin

text \<open>
  The battle routes of \<open>src/app/routes/battles.py\<close>: the POST branch of \<open>new_battle\<close>
  (read two ids from the form, reject a missing or zero id and a bug against itself,
  load both bugs or answer 404, simulate, flash the winner and redirect),
  \<open>view_battle\<close> (\<open>get_or_404\<close> on the battle key) and \<open>list_battles\<close> (ten battles per
  page, newest first). The form and the query string are maps from keys to strings;
  \<open>request.form.get(k, type=int)\<close> is \<open>form_get_int\<close>, which answers \<open>None\<close> for a
  missing key and for a value \<open>int()\<close> rejects, as werkzeug does. A response is a
  redirect with its flashed messages (message, category), a rendered page, a 404, or
  a server error for an exception raised after the commit.
\<close>

section \<open>Requests and responses\<close>

datatype endpoint = New_Battle | View_Battle int | Login

datatype response =
    Redirect endpoint "(string \<times> string) list"
  | Render_Battle battle
  | Render_Battles "battle list"
  | Render_New_Battle "bug list"
  | Abort_404
  | Server_Error py_error

definition form_get_int :: "(string \<rightharpoonup> string) \<Rightarrow> string \<Rightarrow> int option" where
  "form_get_int form key = (case form key of None \<Rightarrow> None | Some v \<Rightarrow> py_int v)"

text \<open>\<open>not x\<close> for the result of \<open>form.get(..., type=int)\<close>: \<open>None\<close> and \<open>0\<close> are falsy.\<close>

definition py_falsy_int :: "int option \<Rightarrow> bool" where
  "py_falsy_int x \<longleftrightarrow> x = None \<or> x = Some 0"

section \<open>The handlers\<close>

text \<open>
  The form key of the red corner is \<open>' red_corner_bug_id'\<close>, with a leading space, as on
  line 38 of the source.
\<close>

definition new_battle_post ::
    "narrator \<Rightarrow> int \<Rightarrow> (string \<rightharpoonup> string) \<Rightarrow> draws \<Rightarrow> arena \<Rightarrow> response \<times> arena" where
  "new_battle_post narrate now form d s =
     (let red_corner_bug_id = form_get_int form '' red_corner_bug_id'';
          blue_corner_bug_id = form_get_int form ''blue_corner_bug_id''
      in if py_falsy_int red_corner_bug_id \<or> py_falsy_int blue_corner_bug_id then
           (Redirect New_Battle [(''Please select two bugs'', ''danger'')], s)
         else if the red_corner_bug_id = the blue_corner_bug_id then
           (Redirect New_Battle [(''A bug cannot battle itself!'', ''warning'')], s)
         else
           (case bugs s (the red_corner_bug_id) of
              None \<Rightarrow> (Abort_404, s)
            | Some red_corner_bug \<Rightarrow>
                (case bugs s (the blue_corner_bug_id) of
                   None \<Rightarrow> (Abort_404, s)
                 | Some blue_corner_bug \<Rightarrow>
                     (let (battle, s') = simulate_battle narrate now red_corner_bug blue_corner_bug d s
                      in case Option.bind (winner_id battle) (bugs s') of
                           None \<Rightarrow> (Server_Error (AttributeError ''nickname''), s')
                         | Some winner \<Rightarrow>
                             (Redirect (View_Battle (battle_id battle))
                                [(''Battle complete! '' @ nickname winner @ '' wins!'', ''success'')], s')))))"

text \<open>The rows of the bug table in primary-key order (\<open>Bug.query.all()\<close>).\<close>

definition bug_rows :: "arena \<Rightarrow> bug list" where
  "bug_rows s = map (\<lambda>i. the (bugs s i)) (sorted_list_of_set (dom (bugs s)))"

datatype http_method = GET | POST

text \<open>
  The whole route: \<open>@login_required\<close> (line 34) sends an anonymous client to the login
  view with Flask-Login's default flash message before the handler runs; an
  authenticated GET renders the form over all bugs (lines 59 and 60); an authenticated
  POST is \<open>new_battle_post\<close>.
\<close>

definition new_battle ::
    "bool \<Rightarrow> http_method \<Rightarrow> narrator \<Rightarrow> int \<Rightarrow> (string \<rightharpoonup> string) \<Rightarrow> draws \<Rightarrow> arena \<Rightarrow> response \<times> arena" where
  "new_battle authenticated meth narrate now form d s =
     (if \<not> authenticated then
        (Redirect Login [(''Please log in to access this page.'', ''message'')], s)
      else case meth of
        POST \<Rightarrow> new_battle_post narrate now form d s
      | GET \<Rightarrow> (Render_New_Battle (bug_rows s), s))"

definition view_battle :: "int \<Rightarrow> arena \<Rightarrow> response" where
  "view_battle bid s =
     (case find (\<lambda>bt. battle_id bt = bid) (battles s) of
        None \<Rightarrow> Abort_404
      | Some bt \<Rightarrow> Render_Battle bt)"

text \<open>
  \<open>order_by(Battle.battle_date.desc())\<close> is a stable sort on the negated date (equal
  dates keep insertion order; SQL leaves their order open, and this is one of the
  orders it may return). \<open>paginate(page, per_page=10, error_out=False)\<close> clamps a page
  below 1 to 1 and returns the slice \<open>[(page - 1) * 10, page * 10)\<close>.
\<close>

definition list_battles :: "(string \<rightharpoonup> string) \<Rightarrow> arena \<Rightarrow> response" where
  "list_battles args s =
     (let page = (case form_get_int args ''page'' of None \<Rightarrow> 1 | Some p \<Rightarrow> p);
          page = (if page < 1 then 1 else page);
          ordered = sort_key (\<lambda>bt. - battle_date bt) (battles s)
      in Render_Battles (take 10 (drop (nat ((page - 1) * 10)) ordered)))"

section \<open>Lemmas\<close>

lemma form_get_int_str [simp]: "form_get_int (form(k \<mapsto> py_str_int i)) k = Some i"
  by (simp add: form_get_int_def)

lemma form_get_int_absent [simp]: "form k = None \<Longrightarrow> form_get_int form k = None"
  by (simp add: form_get_int_def)

lemma winner_stored:
  assumes wl: "(w, l) = (red, blue) \<or> (w, l) = (blue, red)"
    and "r \<noteq> b" and "bugs s r = Some red" and "bugs s b = Some blue" and "bug_id red = r" and "bug_id blue = b"
  shows "bugs s (bug_id w) = Some w \<and> bug_id l \<noteq> bug_id w"
proof -
  from wl have "w = red \<and> l = blue \<or> w = blue \<and> l = red" by simp
  then show ?thesis
  proof
    assume "w = red \<and> l = blue"
    with assms(2-6) show ?thesis by simp
  next
    assume "w = blue \<and> l = red"
    with assms(2-6) show ?thesis by simp
  qed
qed

text \<open>
  C17. The handler reads the red corner from the form key \<open>' red_corner_bug_id'\<close>, with a
  leading space: for any form without that exact key (in particular the form with the
  plain key \<open>red_corner_bug_id\<close>) it flashes "Please select two bugs", redirects back and
  changes nothing, so no battle can be started from a form that names the field plainly.
\<close>

theorem new_battle_post_misspelt_key:
  assumes "form '' red_corner_bug_id'' = None"
  shows "new_battle_post narrate now form d s = (Redirect New_Battle [(''Please select two bugs'', ''danger'')], s)"
  using assms by (simp add: new_battle_post_def py_falsy_int_def)

theorem new_battle_post_misspelt_key_witness:
  "[''red_corner_bug_id'' \<mapsto> py_str_int 1, ''blue_corner_bug_id'' \<mapsto> py_str_int 2] '' red_corner_bug_id'' = None
   \<and> new_battle_post (\<lambda>_ _ _. []) 0 [''red_corner_bug_id'' \<mapsto> py_str_int 1, ''blue_corner_bug_id'' \<mapsto> py_str_int 2]
       \<lparr>red_draw = 0.5, blue_draw = 0.5, tie_pick = False\<rparr>
       \<lparr>bugs = [1 \<mapsto> new_bug 1 ''Hercules'', 2 \<mapsto> new_bug 2 ''Goliath''], battles = [], next_battle_id = 1\<rparr>
     = (Redirect New_Battle [(''Please select two bugs'', ''danger'')],
        \<lparr>bugs = [1 \<mapsto> new_bug 1 ''Hercules'', 2 \<mapsto> new_bug 2 ''Goliath''], battles = [], next_battle_id = 1\<rparr>)"
proof -
  have h: "[''red_corner_bug_id'' \<mapsto> py_str_int 1, ''blue_corner_bug_id'' \<mapsto> py_str_int 2] '' red_corner_bug_id'' = None"
    by simp
  show ?thesis
    using new_battle_post_misspelt_key [of "[''red_corner_bug_id'' \<mapsto> py_str_int 1, ''blue_corner_bug_id'' \<mapsto> py_str_int 2]", OF h] h
    by blast
qed

text \<open>
  C15. A request naming the same nonzero bug in both corners is refused with the flash
  "A bug cannot battle itself!" and leaves the database unchanged.
\<close>

theorem new_battle_post_self:
  assumes "form_get_int form '' red_corner_bug_id'' = Some i"
    and "form_get_int form ''blue_corner_bug_id'' = Some i" and "i \<noteq> 0"
  shows "new_battle_post narrate now form d s = (Redirect New_Battle [(''A bug cannot battle itself!'', ''warning'')], s)"
  using assms by (simp add: new_battle_post_def py_falsy_int_def)

theorem new_battle_post_self_witness:
  "form_get_int ['' red_corner_bug_id'' \<mapsto> py_str_int 3, ''blue_corner_bug_id'' \<mapsto> py_str_int 3] '' red_corner_bug_id'' = Some 3
   \<and> form_get_int ['' red_corner_bug_id'' \<mapsto> py_str_int 3, ''blue_corner_bug_id'' \<mapsto> py_str_int 3] ''blue_corner_bug_id'' = Some 3
   \<and> (3::int) \<noteq> 0
   \<and> new_battle_post (\<lambda>_ _ _. []) 0 ['' red_corner_bug_id'' \<mapsto> py_str_int 3, ''blue_corner_bug_id'' \<mapsto> py_str_int 3]
       \<lparr>red_draw = 0.5, blue_draw = 0.5, tie_pick = False\<rparr>
       \<lparr>bugs = Map.empty, battles = [], next_battle_id = 1\<rparr>
     = (Redirect New_Battle [(''A bug cannot battle itself!'', ''warning'')],
        \<lparr>bugs = Map.empty, battles = [], next_battle_id = 1\<rparr>)"
proof -
  have h: "form_get_int ['' red_corner_bug_id'' \<mapsto> py_str_int 3, ''blue_corner_bug_id'' \<mapsto> py_str_int 3] '' red_corner_bug_id'' = Some 3"
    "form_get_int ['' red_corner_bug_id'' \<mapsto> py_str_int 3, ''blue_corner_bug_id'' \<mapsto> py_str_int 3] ''blue_corner_bug_id'' = Some 3"
    "(3::int) \<noteq> 0"
    by (simp_all add: form_get_int_def)
  show ?thesis using new_battle_post_self [OF h] h by blast
qed

text \<open>
  C16. A request with two different nonzero ids of which one names no stored bug is
  answered with 404 and leaves the database unchanged.
\<close>

theorem new_battle_post_not_found:
  assumes "form_get_int form '' red_corner_bug_id'' = Some r"
    and "form_get_int form ''blue_corner_bug_id'' = Some b"
    and "r \<noteq> 0" and "b \<noteq> 0" and "r \<noteq> b" and "bugs s r = None \<or> bugs s b = None"
  shows "new_battle_post narrate now form d s = (Abort_404, s)"
  using assms by (auto simp: new_battle_post_def py_falsy_int_def split: option.split)

theorem new_battle_post_not_found_witness:
  "form_get_int ['' red_corner_bug_id'' \<mapsto> py_str_int 1, ''blue_corner_bug_id'' \<mapsto> py_str_int 9] '' red_corner_bug_id'' = Some 1
   \<and> form_get_int ['' red_corner_bug_id'' \<mapsto> py_str_int 1, ''blue_corner_bug_id'' \<mapsto> py_str_int 9] ''blue_corner_bug_id'' = Some 9
   \<and> (1::int) \<noteq> 0 \<and> (9::int) \<noteq> 0 \<and> (1::int) \<noteq> 9
   \<and> ([1 \<mapsto> new_bug 1 ''Hercules''] (1::int) = None \<or> [1 \<mapsto> new_bug 1 ''Hercules''] (9::int) = None)
   \<and> new_battle_post (\<lambda>_ _ _. []) 0 ['' red_corner_bug_id'' \<mapsto> py_str_int 1, ''blue_corner_bug_id'' \<mapsto> py_str_int 9]
       \<lparr>red_draw = 0.5, blue_draw = 0.5, tie_pick = False\<rparr>
       \<lparr>bugs = [1 \<mapsto> new_bug 1 ''Hercules''], battles = [], next_battle_id = 1\<rparr>
     = (Abort_404, \<lparr>bugs = [1 \<mapsto> new_bug 1 ''Hercules''], battles = [], next_battle_id = 1\<rparr>)"
proof -
  have h: "form_get_int ['' red_corner_bug_id'' \<mapsto> py_str_int 1, ''blue_corner_bug_id'' \<mapsto> py_str_int 9] '' red_corner_bug_id'' = Some 1"
    "form_get_int ['' red_corner_bug_id'' \<mapsto> py_str_int 1, ''blue_corner_bug_id'' \<mapsto> py_str_int 9] ''blue_corner_bug_id'' = Some 9"
    "(1::int) \<noteq> 0" "(9::int) \<noteq> 0" "(1::int) \<noteq> 9"
    "bugs \<lparr>bugs = [1 \<mapsto> new_bug 1 ''Hercules''], battles = [], next_battle_id = 1\<rparr> 1 = None
     \<or> bugs \<lparr>bugs = [1 \<mapsto> new_bug 1 ''Hercules''], battles = [], next_battle_id = 1\<rparr> 9 = None"
    by (simp_all add: form_get_int_def)
  show ?thesis using new_battle_post_not_found [OF h] h by simp
qed

text \<open>
  C13. A request with two different nonzero ids of two stored bugs (each row keyed by
  its own id) always succeeds: the response redirects to the battle with the next key and
  flashes the nickname of the winner \<open>determine_winner\<close> picks from the two powers and
  the tie-break draw, and the new database is the one \<open>simulate_battle\<close> produced.
\<close>

theorem new_battle_post_success:
  assumes "form_get_int form '' red_corner_bug_id'' = Some r"
    and "form_get_int form ''blue_corner_bug_id'' = Some b"
    and "r \<noteq> 0" and "b \<noteq> 0" and "r \<noteq> b"
    and "bugs s r = Some red" and "bugs s b = Some blue" and "bug_id red = r" and "bug_id blue = b"
  shows "new_battle_post narrate now form d s =
           (Redirect (View_Battle (next_battle_id s))
              [(''Battle complete! '' @ nickname (fst (determine_winner (calculate_battle_power red (red_draw d))
                  (calculate_battle_power blue (blue_draw d)) (tie_pick d) red blue)) @ '' wins!'', ''success'')],
            snd (simulate_battle narrate now red blue d s))"
proof -
  obtain w l where wl_eq: "determine_winner (calculate_battle_power red (red_draw d))
      (calculate_battle_power blue (blue_draw d)) (tie_pick d) red blue = (w, l)"
    by (cases "determine_winner (calculate_battle_power red (red_draw d))
      (calculate_battle_power blue (blue_draw d)) (tie_pick d) red blue") blast
  then have wl: "(w, l) = (red, blue) \<or> (w, l) = (blue, red)"
    by (metis determine_winner_cases)
  define bt where "bt = \<lparr>battle_id = next_battle_id s, red_corner_bug_id = bug_id red,
                blue_corner_bug_id = bug_id blue, winner_id = Some (bug_id w),
                narrative = narrate red blue w, battle_date = now\<rparr>"
  define s' where "s' = s\<lparr>bugs := record_loss (bug_id l) (record_win (bug_id w) (bugs s)),
                battles := battles s @ [bt], next_battle_id := next_battle_id s + 1\<rparr>"
  have sim: "simulate_battle narrate now red blue d s = (bt, s')"
    using wl_eq by (simp add: simulate_battle_def Let_def bt_def s'_def)
  from winner_stored [OF wl assms(5-9)]
  have stored: "bugs s (bug_id w) = Some w" and "bug_id l \<noteq> bug_id w" by blast+
  then have "bugs s' (bug_id w) = Some (w\<lparr>wins := wins w + 1\<rparr>)" by (simp add: s'_def)
  then have winner: "Option.bind (winner_id bt) (bugs s') = Some (w\<lparr>wins := wins w + 1\<rparr>)"
    by (simp add: bt_def)
  from assms(1-7) have "new_battle_post narrate now form d s =
      (case simulate_battle narrate now red blue d s of (battle, s') \<Rightarrow>
        case Option.bind (winner_id battle) (bugs s') of
          None \<Rightarrow> (Server_Error (AttributeError ''nickname''), s')
        | Some winner \<Rightarrow> (Redirect (View_Battle (battle_id battle))
             [(''Battle complete! '' @ nickname winner @ '' wins!'', ''success'')], s'))"
    unfolding new_battle_post_def Let_def py_falsy_int_def
    by (simp only: option.simps if_False if_True simp_thms option.sel)
  also have "\<dots> = (Redirect (View_Battle (next_battle_id s))
             [(''Battle complete! '' @ nickname w @ '' wins!'', ''success'')], s')"
    using sim winner by (simp add: bt_def)
  finally show ?thesis using sim wl_eq by simp
qed

text \<open>
  A page number given in the query string selects the slice of ten battles it
  names, newest first: page \<open>p \<ge> 1\<close> shows the battles at positions \<open>10 (p - 1)\<close> to
  \<open>10 p - 1\<close> of the date-ordered list.
\<close>

theorem list_battles_page:
  assumes "1 \<le> p"
  shows "list_battles [''page'' \<mapsto> py_str_int p] s =
    Render_Battles (take 10 (drop (nat ((p - 1) * 10)) (sort_key (\<lambda>bt. - battle_date bt) (battles s))))"
  using assms by (simp add: list_battles_def)

theorem list_battles_page_witness:
  "1 \<le> (2::int)
   \<and> list_battles [''page'' \<mapsto> py_str_int 2] \<lparr>bugs = Map.empty, battles = [], next_battle_id = 1\<rparr> = Render_Battles []"
  using list_battles_page [of 2 "\<lparr>bugs = Map.empty, battles = [], next_battle_id = 1\<rparr>"] by simp

text \<open>
  A missing, non-numeric or non-positive page number falls back to the first page
  instead of failing.
\<close>

theorem list_battles_default_page:
  assumes "case form_get_int args ''page'' of None \<Rightarrow> True | Some p \<Rightarrow> p < 1"
  shows "list_battles args s = Render_Battles (take 10 (sort_key (\<lambda>bt. - battle_date bt) (battles s)))"
  using assms by (auto simp: list_battles_def split: option.splits)

theorem list_battles_default_page_witness:
  "(case form_get_int [''page'' \<mapsto> ''two''] ''page'' of None \<Rightarrow> True | Some p \<Rightarrow> p < 1)
   \<and> list_battles [''page'' \<mapsto> ''two''] \<lparr>bugs = Map.empty, battles = [], next_battle_id = 1\<rparr> = Render_Battles []"
proof -
  have h: "case form_get_int [''page'' \<mapsto> ''two''] ''page'' of None \<Rightarrow> True | Some p \<Rightarrow> p < 1"
    by code_simp
  show ?thesis using list_battles_default_page [OF h] h by simp
qed

text \<open>
  C32. The pages partition the battle list: pages 1 to n, read one after the other, are
  exactly the first \<open>10 n\<close> battles in date order, each once and in order.
\<close>

theorem list_battles_pages_partition:
  "concat (map (\<lambda>p. case list_battles [''page'' \<mapsto> py_str_int (int p)] s of Render_Battles xs \<Rightarrow> xs | _ \<Rightarrow> [])
      [1..<Suc n])
   = take (10 * n) (sort_key (\<lambda>bt. - battle_date bt) (battles s))"
proof -
  define F where "F = (\<lambda>p::nat. case list_battles [''page'' \<mapsto> py_str_int (int p)] s of
                         Render_Battles xs \<Rightarrow> xs | _ \<Rightarrow> [])"
  let ?xs = "sort_key (\<lambda>bt. - battle_date bt) (battles s)"
  have page: "F (Suc k) = take 10 (drop (10 * k) ?xs)" for k
    unfolding F_def by (simp add: list_battles_def nat_mult_distrib mult.commute)
  have "concat (map F [1..<Suc k]) = take (10 * k) ?xs" for k
  proof (induction k)
    case 0
    show ?case by simp
  next
    case (Suc k)
    have "concat (map F [1..<Suc (Suc k)]) = concat (map F [1..<Suc k]) @ F (Suc k)" by simp
    also have "\<dots> = take (10 * k) ?xs @ take 10 (drop (10 * k) ?xs)" using Suc.IH page by simp
    also have "\<dots> = take (10 * Suc k) ?xs"
      using take_add [of "10 * k" 10 ?xs] by (simp add: add.commute)
    finally show ?case .
  qed
  then show ?thesis unfolding F_def .
qed

text \<open>
  C14. Only an authenticated POST naming two different stored bugs writes the database:
  a request to the battle route that changes the state came from a logged-in client,
  by POST, with two different ids under the form keys the handler reads, both of stored
  bugs. Anonymous requests, GET requests and every refused POST leave it unchanged.
\<close>

theorem new_battle_writes_only_authenticated_post:
  assumes "new_battle a meth narrate now form d s = (resp, s')" and "s' \<noteq> s"
  shows "a \<and> meth = POST
    \<and> (\<exists>r b. r \<noteq> b \<and> form_get_int form '' red_corner_bug_id'' = Some r
         \<and> form_get_int form ''blue_corner_bug_id'' = Some b
         \<and> r \<in> dom (bugs s) \<and> b \<in> dom (bugs s))"
proof -
  have post: "a \<and> meth = POST"
  proof (rule ccontr)
    assume "\<not> (a \<and> meth = POST)"
    then have "snd (new_battle a meth narrate now form d s) = s"
      by (cases meth) (simp_all add: new_battle_def)
    with assms show False by simp
  qed
  with assms(1) have run: "new_battle_post narrate now form d s = (resp, s')"
    by (simp add: new_battle_def)
  from run assms(2) have "\<exists>r b. r \<noteq> b \<and> form_get_int form '' red_corner_bug_id'' = Some r
         \<and> form_get_int form ''blue_corner_bug_id'' = Some b
         \<and> r \<in> dom (bugs s) \<and> b \<in> dom (bugs s)"
    by (auto simp: new_battle_post_def Let_def py_falsy_int_def split: if_splits option.splits prod.splits)
  with post show ?thesis by blast
qed

end
