(* ===== verification/Arena.thy ===== *)
theory Arena
  imports Battle_Routes
begin

text \<open>
  The application as a state machine over the database: from the empty database, a step
  either inserts a new bug row (a submission; its route is not among the sources, so
  the step takes any fresh row with the column defaults \<open>wins = 0\<close> and
  \<open>losses = 0\<close>) or runs the route \<open>new_battle\<close> (anonymous or logged in, GET or
  POST) on any form, clock value and random draws. The invariant \<open>arena_inv\<close> ties
  every row's counters to the
  recorded battles and every battle to two distinct stored bugs, one of them the winner,
  with a key below the next autoincrement key; battle keys are distinct, so
  \<open>view_battle\<close> on a recorded key renders that battle. It holds in every reachable
  state, by rule induction.
\<close>

section \<open>Steps and reachable states\<close>

definition init_arena :: arena where
  "init_arena = \<lparr>bugs = Map.empty, battles = [], next_battle_id = 1\<rparr>"

inductive arena_step :: "arena \<Rightarrow> arena \<Rightarrow> bool" where
  submit: "bugs s (bug_id b) = None \<Longrightarrow> 0 < bug_id b \<Longrightarrow> wins b = 0 \<Longrightarrow> losses b = 0 \<Longrightarrow>
     arena_step s (s\<lparr>bugs := (bugs s)(bug_id b \<mapsto> b)\<rparr>)"
| battle: "new_battle a meth narrate now form d s = (resp, s') \<Longrightarrow> arena_step s s'"

inductive arena_reachable :: "arena \<Rightarrow> bool" where
  init: "arena_reachable init_arena"
| step: "arena_reachable s \<Longrightarrow> arena_step s s' \<Longrightarrow> arena_reachable s'"

section \<open>The invariant\<close>

definition count_wins :: "int \<Rightarrow> battle list \<Rightarrow> nat" where
  "count_wins i bts = length (filter (\<lambda>bt. winner_id bt = Some i) bts)"

definition count_losses :: "int \<Rightarrow> battle list \<Rightarrow> nat" where
  "count_losses i bts = length (filter (\<lambda>bt. (red_corner_bug_id bt = i \<or> blue_corner_bug_id bt = i)
     \<and> winner_id bt \<noteq> Some i) bts)"

definition battle_ok :: "arena \<Rightarrow> battle \<Rightarrow> bool" where
  "battle_ok s bt \<longleftrightarrow> red_corner_bug_id bt \<noteq> blue_corner_bug_id bt
     \<and> (winner_id bt = Some (red_corner_bug_id bt) \<or> winner_id bt = Some (blue_corner_bug_id bt))
     \<and> red_corner_bug_id bt \<in> dom (bugs s) \<and> blue_corner_bug_id bt \<in> dom (bugs s)
     \<and> 0 < battle_id bt \<and> battle_id bt < next_battle_id s"

definition arena_inv :: "arena \<Rightarrow> bool" where
  "arena_inv s \<longleftrightarrow>
     (\<forall>i b. bugs s i = Some b \<longrightarrow> bug_id b = i \<and> wins b = int (count_wins i (battles s))
                                 \<and> losses b = int (count_losses i (battles s)))
     \<and> (\<forall>bt\<in>set (battles s). battle_ok s bt)
     \<and> distinct (map battle_id (battles s)) \<and> 0 < next_battle_id s"

section \<open>Lemmas\<close>

lemma count_wins_snoc [simp]:
  "count_wins i (bts @ [bt]) = count_wins i bts + (if winner_id bt = Some i then 1 else 0)"
  by (simp add: count_wins_def)

lemma count_losses_snoc [simp]:
  "count_losses i (bts @ [bt]) = count_losses i bts +
     (if (red_corner_bug_id bt = i \<or> blue_corner_bug_id bt = i) \<and> winner_id bt \<noteq> Some i then 1 else 0)"
  by (simp add: count_losses_def)

lemma count_absent:
  assumes "\<forall>bt\<in>set bts. red_corner_bug_id bt \<noteq> i \<and> blue_corner_bug_id bt \<noteq> i
     \<and> (winner_id bt = Some (red_corner_bug_id bt) \<or> winner_id bt = Some (blue_corner_bug_id bt))"
  shows "count_wins i bts = 0 \<and> count_losses i bts = 0"
  using assms by (force simp: count_wins_def count_losses_def filter_empty_conv)

lemma arena_inv_init: "arena_inv init_arena"
  by (simp add: arena_inv_def init_arena_def)

lemma submit_inv:
  assumes inv: "arena_inv s" and fresh: "bugs s (bug_id b) = None"
    and "wins b = 0" and "losses b = 0"
  shows "arena_inv (s\<lparr>bugs := (bugs s)(bug_id b \<mapsto> b)\<rparr>)"
proof -
  from inv fresh have "\<forall>bt\<in>set (battles s). red_corner_bug_id bt \<noteq> bug_id b
      \<and> blue_corner_bug_id bt \<noteq> bug_id b
      \<and> (winner_id bt = Some (red_corner_bug_id bt) \<or> winner_id bt = Some (blue_corner_bug_id bt))"
    by (auto simp: arena_inv_def battle_ok_def)
  then have "count_wins (bug_id b) (battles s) = 0 \<and> count_losses (bug_id b) (battles s) = 0"
    by (rule count_absent)
  with assms show ?thesis by (auto simp: arena_inv_def battle_ok_def)
qed

lemma simulate_battle_inv:
  assumes inv: "arena_inv s" and r: "bugs s r = Some red" and b: "bugs s b = Some blue"
    and rb: "r \<noteq> b" and sim: "simulate_battle narrate now red blue d s = (bt, s')"
  shows "arena_inv s'"
proof -
  from inv r b have ids: "bug_id red = r" "bug_id blue = b" by (auto simp: arena_inv_def)
  obtain w l where wl: "(w, l) = (red, blue) \<or> (w, l) = (blue, red)"
    and bt: "bt = \<lparr>battle_id = next_battle_id s, red_corner_bug_id = bug_id red,
                blue_corner_bug_id = bug_id blue, winner_id = Some (bug_id w),
                narrative = narrate red blue w, battle_date = now\<rparr>"
    and s': "s' = s\<lparr>bugs := record_loss (bug_id l) (record_win (bug_id w) (bugs s)),
                battles := battles s @ [bt], next_battle_id := next_battle_id s + 1\<rparr>"
    using simulate_battle_shape [OF sim] by blast
  from wl ids rb have wl_ids: "{bug_id w, bug_id l} = {r, b}" "bug_id w \<noteq> bug_id l" by auto
  have rows: "bugs s' i = Some c \<Longrightarrow> bug_id c = i \<and> wins c = int (count_wins i (battles s'))
               \<and> losses c = int (count_losses i (battles s'))" for i c
  proof -
    assume c: "bugs s' i = Some c"
    show ?thesis
    proof (cases "i = bug_id w")
      case True
      with c s' wl_ids obtain c0 where "bugs s i = Some c0" and "c = c0\<lparr>wins := wins c0 + 1\<rparr>"
        by auto
      with inv True bt s' wl_ids show ?thesis by (auto simp: arena_inv_def)
    next
      case nw: False
      show ?thesis
      proof (cases "i = bug_id l")
        case True
        with c s' nw obtain c0 where "bugs s i = Some c0" and "c = c0\<lparr>losses := losses c0 + 1\<rparr>"
          by auto
        with inv True nw bt s' wl_ids wl ids show ?thesis by (auto simp: arena_inv_def)
      next
        case False
        with c s' nw have "bugs s i = Some c" by simp
        moreover from False nw wl_ids have "i \<noteq> r" "i \<noteq> b" by auto
        ultimately show ?thesis using inv nw bt s' ids by (auto simp: arena_inv_def)
      qed
    qed
  qed
  have "dom (bugs s') = dom (bugs s)" using s' by simp
  moreover have "battle_ok s' bt"
    using r b ids rb wl bt s' inv by (auto simp: battle_ok_def arena_inv_def)
  ultimately have ok: "\<forall>x\<in>set (battles s'). battle_ok s' x"
    using inv s' by (auto simp: arena_inv_def battle_ok_def)
  have "\<forall>x\<in>set (battles s). battle_id x < next_battle_id s"
    using inv by (simp add: arena_inv_def battle_ok_def)
  then have "next_battle_id s \<notin> battle_id ` set (battles s)" by auto
  then have "distinct (map battle_id (battles s'))" using inv s' bt by (simp add: arena_inv_def)
  moreover have "0 < next_battle_id s'" using inv s' by (simp add: arena_inv_def)
  ultimately show ?thesis using rows ok by (simp add: arena_inv_def)
qed

lemma new_battle_post_cases:
  assumes post: "new_battle_post narrate now form d s = (resp, s')"
  shows "s' = s \<or> (\<exists>r b red blue bt. r \<noteq> b \<and> bugs s r = Some red \<and> bugs s b = Some blue
            \<and> simulate_battle narrate now red blue d s = (bt, s'))"
proof -
  let ?r = "form_get_int form '' red_corner_bug_id''"
  let ?b = "form_get_int form ''blue_corner_bug_id''"
  show ?thesis
  proof (cases "py_falsy_int ?r \<or> py_falsy_int ?b \<or> the ?r = the ?b
                \<or> bugs s (the ?r) = None \<or> bugs s (the ?b) = None")
    case True
    with post show ?thesis by (auto simp: new_battle_post_def Let_def split: if_splits option.splits)
  next
    case False
    then obtain red blue where red: "bugs s (the ?r) = Some red"
      and blue: "bugs s (the ?b) = Some blue" by auto
    obtain bt s'' where sim: "simulate_battle narrate now red blue d s = (bt, s'')"
      by (cases "simulate_battle narrate now red blue d s") blast
    from post False red blue sim have "s' = s''"
      by (auto simp: new_battle_post_def Let_def split: option.splits)
    with False red blue sim show ?thesis by blast
  qed
qed

lemma new_battle_cases:
  assumes "new_battle a meth narrate now form d s = (resp, s')"
  shows "s' = s \<or> (\<exists>r b red blue bt. r \<noteq> b \<and> bugs s r = Some red \<and> bugs s b = Some blue
            \<and> simulate_battle narrate now red blue d s = (bt, s'))"
proof (cases "a \<and> meth = POST")
  case True
  with assms have "new_battle_post narrate now form d s = (resp, s')" by (simp add: new_battle_def)
  then show ?thesis by (rule new_battle_post_cases)
next
  case False
  then have "snd (new_battle a meth narrate now form d s) = s"
    by (cases meth) (simp_all add: new_battle_def)
  with assms show ?thesis by simp
qed

lemma arena_step_inv: "arena_step s s' \<Longrightarrow> arena_inv s \<Longrightarrow> arena_inv s'"
proof (induction rule: arena_step.induct)
  case (submit s b)
  then show ?case by (blast intro: submit_inv)
next
  case (battle a meth narrate now form d s resp s')
  from battle.hyps show ?case
  proof (rule new_battle_cases [THEN disjE])
    assume "s' = s"
    with battle.prems show ?thesis by simp
  next
    assume "\<exists>r b red blue bt. r \<noteq> b \<and> bugs s r = Some red \<and> bugs s b = Some blue
              \<and> simulate_battle narrate now red blue d s = (bt, s')"
    then show ?thesis using battle.prems by (blast intro: simulate_battle_inv)
  qed
qed

lemma arena_reachable_inv: "arena_reachable s \<Longrightarrow> arena_inv s"
proof (induction rule: arena_reachable.induct)
  case init
  show ?case by (rule arena_inv_init)
next
  case (step s s')
  then show ?case by (blast intro: arena_step_inv)
qed

lemma find_distinct_key:
  "distinct (map f xs) \<Longrightarrow> x \<in> set xs \<Longrightarrow> find (\<lambda>y. f y = f x) xs = Some x"
proof (induction xs)
  case Nil
  then show ?case by simp
next
  case (Cons y ys)
  then show ?case by (auto simp: image_iff)
qed

lemma arena_inv_view_battle:
  "arena_inv s \<Longrightarrow> bt \<in> set (battles s) \<Longrightarrow> view_battle (battle_id bt) s = Render_Battle bt"
  by (simp add: arena_inv_def view_battle_def find_distinct_key)

lemma new_battle_post_view_redirect:
  assumes "new_battle_post narrate now form d s = (Redirect (View_Battle k) msgs, s')"
  shows "\<exists>r b red blue bt. r \<noteq> b \<and> bugs s r = Some red \<and> bugs s b = Some blue
            \<and> simulate_battle narrate now red blue d s = (bt, s') \<and> battle_id bt = k"
  using assms
  by (auto simp: new_battle_post_def Let_def split: if_splits option.splits prod.splits) blast

lemma sum_length_filter:
  "finite A \<Longrightarrow> (\<Sum>i\<in>A. length (filter (P i) xs)) = (\<Sum>x\<leftarrow>xs. card {i\<in>A. P i x})"
proof (induction xs)
  case Nil
  then show ?case by simp
next
  case (Cons x xs)
  have "(\<Sum>i\<in>A. length (filter (P i) (x # xs)))
      = (\<Sum>i\<in>A. (if P i x then 1 else 0) + length (filter (P i) xs))"
    by (rule sum.cong) simp_all
  also have "\<dots> = card {i\<in>A. P i x} + (\<Sum>i\<in>A. length (filter (P i) xs))"
    using Cons.prems by (simp add: sum.distrib sum.If_cases Int_def conj_commute)
  finally show ?case using Cons by simp
qed

lemma battle_ok_one_winner:
  assumes "battle_ok s bt"
  shows "card {i\<in>dom (bugs s). winner_id bt = Some i} = 1"
proof -
  from assms obtain w where "winner_id bt = Some w" and "w \<in> dom (bugs s)"
    by (auto simp: battle_ok_def)
  then have "{i\<in>dom (bugs s). winner_id bt = Some i} = {w}" by auto
  then show ?thesis by simp
qed

lemma battle_ok_one_loser:
  assumes "battle_ok s bt"
  shows "card {i\<in>dom (bugs s). (red_corner_bug_id bt = i \<or> blue_corner_bug_id bt = i)
            \<and> winner_id bt \<noteq> Some i} = 1"
proof -
  let ?r = "red_corner_bug_id bt" and ?b = "blue_corner_bug_id bt"
  from assms have w: "winner_id bt = Some ?r \<or> winner_id bt = Some ?b"
    and rb: "?r \<noteq> ?b" and dom: "?r \<in> dom (bugs s)" "?b \<in> dom (bugs s)"
    by (simp_all add: battle_ok_def)
  from w have "{i\<in>dom (bugs s). (?r = i \<or> ?b = i) \<and> winner_id bt \<noteq> Some i}
      = (if winner_id bt = Some ?r then {?b} else {?r})"
  proof
    assume "winner_id bt = Some ?r"
    with rb dom show ?thesis by auto
  next
    assume "winner_id bt = Some ?b"
    with rb dom show ?thesis by auto
  qed
  then show ?thesis by simp
qed

lemma arena_step_finite:
  assumes "arena_step s s'" and "finite (dom (bugs s))"
  shows "finite (dom (bugs s'))"
  using assms
proof (induction rule: arena_step.induct)
  case (submit s b)
  show ?case
    by (rule finite_subset [of _ "insert (bug_id b) (dom (bugs s))"]) (auto simp: submit.prems)
next
  case (battle a meth narrate now form d s resp s')
  from new_battle_cases [OF battle.hyps] battle.prems show ?case
    by (auto elim: simulate_battle_shape)
qed

lemma arena_reachable_finite: "arena_reachable s \<Longrightarrow> finite (dom (bugs s))"
proof (induction rule: arena_reachable.induct)
  case init
  then show ?case by (simp add: init_arena_def)
next
  case (step s s')
  then show ?case using arena_step_finite by blast
qed

lemma new_battle_view_redirect:
  "new_battle a meth narrate now form d s = (Redirect (View_Battle k) msgs, s') \<Longrightarrow>
   new_battle_post narrate now form d s = (Redirect (View_Battle k) msgs, s')"
  by (auto simp: new_battle_def split: if_splits http_method.splits)

end
