(* ===== verification/Py_Werkzeug.thy ===== *)
theory Py_Werkzeug
  imports Py_Prelude
begin

text \<open>
  The two functions of \<open>werkzeug.security\<close> that the \<open>User\<close> model calls, as far as
  their observable behaviour goes. \<open>generate_password_hash(password)\<close> draws a salt,
  hashes, and stores \<open>method$salt$hash\<close>; \<open>check_password_hash(pwhash, password)\<close>
  splits the stored string with \<open>pwhash.split("$", 2)\<close>, answers \<open>False\<close> when that
  does not give three parts, and otherwise compares a fresh hash with the stored one.
  The key derivation itself (\<open>_hash_internal\<close>) is a parameter \<open>H\<close>: it maps a method,
  a salt and a password to the hex digest and the method string actually used (for
  \<open>scrypt\<close> the method with its cost parameters). The salt, drawn by \<open>gen_salt\<close>
  from letters and digits, is an explicit argument. Nothing is assumed of \<open>H\<close>: every
  lemma states the property of the hash it needs as a hypothesis.
\<close>

section \<open>\<open>str.split(sep, maxsplit)\<close>\<close>

primrec py_split_max :: "char \<Rightarrow> nat \<Rightarrow> string \<Rightarrow> string list" where
  "py_split_max c 0 s = [s]"
| "py_split_max c (Suc n) s =
     (if c \<in> set s
      then takeWhile (\<lambda>x. x \<noteq> c) s # py_split_max c n (tl (dropWhile (\<lambda>x. x \<noteq> c) s))
      else [s])"

section \<open>The hash interface\<close>

type_synonym hash_internal = "string \<Rightarrow> string \<Rightarrow> string \<Rightarrow> string \<times> string"

definition generate_password_hash :: "hash_internal \<Rightarrow> string \<Rightarrow> string \<Rightarrow> string \<Rightarrow> string" where
  "generate_password_hash H meth salt password =
     (let (h, actual_method) = H meth salt password
      in actual_method @ ''$'' @ salt @ ''$'' @ h)"

definition check_password_hash :: "hash_internal \<Rightarrow> string \<Rightarrow> string \<Rightarrow> bool" where
  "check_password_hash H pwhash password =
     (case py_split_max CHR ''$'' 2 pwhash of
        [meth, salt, hashval] \<Rightarrow> fst (H meth salt password) = hashval
      | _ \<Rightarrow> False)"

section \<open>Lemmas\<close>

lemma takeWhile_sep: "c \<notin> set a \<Longrightarrow> takeWhile (\<lambda>x. x \<noteq> c) (a @ c # r) = a"
  by (induction a) auto

lemma dropWhile_sep: "c \<notin> set a \<Longrightarrow> dropWhile (\<lambda>x. x \<noteq> c) (a @ c # r) = c # r"
  by (induction a) auto

lemma py_split_max_sep:
  "c \<notin> set a \<Longrightarrow> py_split_max c (Suc n) (a @ c # r) = a # py_split_max c n r"
  by (simp add: takeWhile_sep dropWhile_sep)

lemma py_split_max_last: "c \<notin> set a \<Longrightarrow> py_split_max c n a = [a]"
  by (cases n) simp_all

text \<open>Splitting the stored string gives back its three fields, whatever the digest holds.\<close>

lemma split_generated:
  assumes "CHR ''$'' \<notin> set m" and "CHR ''$'' \<notin> set salt"
  shows "py_split_max CHR ''$'' 2 (m @ ''$'' @ salt @ ''$'' @ h) = [m, salt, h]"
proof -
  have "py_split_max CHR ''$'' (Suc 0) (salt @ CHR ''$'' # h) = salt # py_split_max CHR ''$'' 0 h"
    using assms(2) by (rule py_split_max_sep)
  then have inner: "py_split_max CHR ''$'' (Suc 0) (salt @ CHR ''$'' # h) = [salt, h]"
    by (simp only: py_split_max.simps(1))
  have "py_split_max CHR ''$'' (Suc (Suc 0)) (m @ CHR ''$'' # salt @ CHR ''$'' # h)
      = m # py_split_max CHR ''$'' (Suc 0) (salt @ CHR ''$'' # h)"
    using assms(1) by (rule py_split_max_sep)
  with inner show ?thesis by (simp only: numeral_2_eq_2 append.simps)
qed

lemma check_generated:
  assumes "CHR ''$'' \<notin> set (snd (H meth salt p))" and "CHR ''$'' \<notin> set salt"
  shows "check_password_hash H (generate_password_hash H meth salt p) q
    \<longleftrightarrow> fst (H (snd (H meth salt p)) salt q) = fst (H meth salt p)"
proof -
  obtain h am where H: "H meth salt p = (h, am)" by (cases "H meth salt p") blast
  from assms(1) H have "CHR ''$'' \<notin> set am" by simp
  from this assms(2) have "py_split_max CHR ''$'' 2 (am @ ''$'' @ salt @ ''$'' @ h) = [am, salt, h]"
    by (rule split_generated)
  with H show ?thesis by (simp add: generate_password_hash_def check_password_hash_def)
qed

end
