(* ===== verification/User_Model.thy ===== *)
theory User_Model
  imports Py_Werkzeug Py_Int
begin

text \<open>
  The \<open>User\<close> model of \<open>src/app/models.py\<close> (lines 17 to 34) and the Flask-Login
  loader \<open>load_user\<close> (lines 12 to 14). A row is a record; the nullable column
  \<open>password_hash\<close> is a \<open>string option\<close>, \<open>None\<close> until \<open>set_password\<close> runs.
  \<open>set_password\<close> stores \<open>generate_password_hash(password)\<close>; \<open>check_password\<close>
  calls \<open>check_password_hash\<close> on the stored value, which raises \<open>AttributeError\<close> on
  \<open>None.split\<close> when no password was ever set. \<open>load_user\<close> receives the id Flask-Login
  kept in the session, the string \<open>UserMixin.get_id()\<close> made of \<open>str(self.id)\<close>, and
  runs \<open>int(user_id)\<close> on it before the primary-key lookup. The key derivation and the
  salt are explicit arguments (see \<open>Py_Werkzeug\<close>); the user table is a map from keys to
  rows, as the bug table is.
\<close>

record user =
  user_id :: int
  username :: string
  email :: string
  password_hash :: "string option"

text \<open>A row as the constructor makes it, before \<open>set_password\<close>.\<close>

definition new_user :: "int \<Rightarrow> string \<Rightarrow> string \<Rightarrow> user" where
  "new_user i name mail = \<lparr>user_id = i, username = name, email = mail, password_hash = None\<rparr>"

definition set_password :: "hash_internal \<Rightarrow> string \<Rightarrow> string \<Rightarrow> user \<Rightarrow> string \<Rightarrow> user" where
  "set_password H meth salt u password =
     u\<lparr>password_hash := Some (generate_password_hash H meth salt password)\<rparr>"

definition check_password :: "hash_internal \<Rightarrow> user \<Rightarrow> string \<Rightarrow> py_error + bool" where
  "check_password H u password =
     (case password_hash u of
        None \<Rightarrow> Inl (AttributeError ''split'')
      | Some pwhash \<Rightarrow> Inr (check_password_hash H pwhash password))"

text \<open>\<open>UserMixin.get_id\<close>: the session keeps the key as a string.\<close>

definition get_id :: "user \<Rightarrow> string" where
  "get_id u = py_str_int (user_id u)"

definition load_user :: "(int \<rightharpoonup> user) \<Rightarrow> string \<Rightarrow> py_error + user option" where
  "load_user users uid =
     (case py_int uid of
        None \<Rightarrow> Inl ValueError
      | Some i \<Rightarrow> Inr (users i))"

section \<open>Lemmas\<close>

lemma check_password_set:
  assumes "CHR ''$'' \<notin> set (snd (H meth salt p))" and "CHR ''$'' \<notin> set salt"
  shows "check_password H (set_password H meth salt u p) q
           = Inr (fst (H (snd (H meth salt p)) salt q) = fst (H meth salt p))"
  using check_generated [where H = H and meth = meth and salt = salt and p = p, OF assms] by (simp add: check_password_def set_password_def)

text \<open>
  C19. Password round trip: for a salt and a method string free of \<open>$\<close> (as
  \<open>gen_salt\<close> and werkzeug's method names are) and a key derivation that gives the same
  digest under the method it reports, \<open>check_password\<close> accepts the password that
  \<open>set_password\<close> stored, for every user row.
\<close>

theorem check_password_roundtrip:
  assumes "CHR ''$'' \<notin> set salt" and "CHR ''$'' \<notin> set (snd (H meth salt p))"
    and "fst (H (snd (H meth salt p)) salt p) = fst (H meth salt p)"
  shows "check_password H (set_password H meth salt u p) p = Inr True"
  using check_password_set [where H = H and meth = meth and salt = salt and p = p, OF assms(2,1)] assms(3) by simp

theorem check_password_roundtrip_witness:
  "CHR ''$'' \<notin> set ''Xy7'' \<and> CHR ''$'' \<notin> set (snd ((\<lambda>m s q. (s @ q, m)) ''scrypt'' ''Xy7'' ''hunter2''))
   \<and> fst ((\<lambda>m s q. (s @ q, m)) (snd ((\<lambda>m s q. (s @ q, m)) ''scrypt'' ''Xy7'' ''hunter2'')) ''Xy7'' ''hunter2'')
       = fst ((\<lambda>m s q. (s @ q, m)) ''scrypt'' ''Xy7'' ''hunter2'')
   \<and> check_password (\<lambda>m s q. (s @ q, m)) (set_password (\<lambda>m s q. (s @ q, m)) ''scrypt'' ''Xy7''
       (new_user 1 ''ada'' ''ada@example.org'') ''hunter2'') ''hunter2'' = Inr True"
proof -
  have h: "CHR ''$'' \<notin> set ''Xy7''" "CHR ''$'' \<notin> set (snd ((\<lambda>m s q. (s @ q, m)) ''scrypt'' ''Xy7'' ''hunter2''))"
    "fst ((\<lambda>m s q. (s @ q, m)) (snd ((\<lambda>m s q. (s @ q, m)) ''scrypt'' ''Xy7'' ''hunter2'')) ''Xy7'' ''hunter2'')
       = fst ((\<lambda>m s q. (s @ q, m)) ''scrypt'' ''Xy7'' ''hunter2'')"
    by simp_all
  show ?thesis using check_password_roundtrip [where H = "\<lambda>m s q. (s @ q, m)" and meth = "''scrypt''" and salt = "''Xy7''" and p = "''hunter2''", OF h, where u = "new_user 1 ''ada'' ''ada@example.org''"] h
    by blast
qed

text \<open>
  C20. A wrong password is refused: under the same conditions, and for a key derivation
  without collisions on the stored salt, \<open>check_password\<close> rejects every password other
  than the one \<open>set_password\<close> stored.
\<close>

theorem check_password_rejects_other:
  assumes "CHR ''$'' \<notin> set salt" and "CHR ''$'' \<notin> set (snd (H meth salt p))"
    and "fst (H (snd (H meth salt p)) salt p) = fst (H meth salt p)"
    and "inj (\<lambda>x. fst (H (snd (H meth salt p)) salt x))" and "q \<noteq> p"
  shows "check_password H (set_password H meth salt u p) q = Inr False"
proof -
  from assms(4,5) have "fst (H (snd (H meth salt p)) salt q) \<noteq> fst (H (snd (H meth salt p)) salt p)"
    by (auto dest: injD)
  with assms(3) show ?thesis using check_password_set [where H = H and meth = meth and salt = salt and p = p, OF assms(2,1)] by simp
qed

theorem check_password_rejects_other_witness:
  "CHR ''$'' \<notin> set ''Xy7'' \<and> CHR ''$'' \<notin> set (snd ((\<lambda>m s q. (s @ q, m)) ''scrypt'' ''Xy7'' ''hunter2''))
   \<and> fst ((\<lambda>m s q. (s @ q, m)) (snd ((\<lambda>m s q. (s @ q, m)) ''scrypt'' ''Xy7'' ''hunter2'')) ''Xy7'' ''hunter2'')
       = fst ((\<lambda>m s q. (s @ q, m)) ''scrypt'' ''Xy7'' ''hunter2'')
   \<and> inj (\<lambda>x. fst ((\<lambda>m s q. (s @ q, m)) (snd ((\<lambda>m s q. (s @ q, m)) ''scrypt'' ''Xy7'' ''hunter2'')) ''Xy7'' x))
   \<and> ''hunter3'' \<noteq> ''hunter2''
   \<and> check_password (\<lambda>m s q. (s @ q, m)) (set_password (\<lambda>m s q. (s @ q, m)) ''scrypt'' ''Xy7''
       (new_user 1 ''ada'' ''ada@example.org'') ''hunter2'') ''hunter3'' = Inr False"
proof -
  have h: "CHR ''$'' \<notin> set ''Xy7''" "CHR ''$'' \<notin> set (snd ((\<lambda>m s q. (s @ q, m)) ''scrypt'' ''Xy7'' ''hunter2''))"
    "fst ((\<lambda>m s q. (s @ q, m)) (snd ((\<lambda>m s q. (s @ q, m)) ''scrypt'' ''Xy7'' ''hunter2'')) ''Xy7'' ''hunter2'')
       = fst ((\<lambda>m s q. (s @ q, m)) ''scrypt'' ''Xy7'' ''hunter2'')"
    "inj (\<lambda>x. fst ((\<lambda>m s q. (s @ q, m)) (snd ((\<lambda>m s q. (s @ q, m)) ''scrypt'' ''Xy7'' ''hunter2'')) ''Xy7'' x))"
    "''hunter3'' \<noteq> ''hunter2''"
    by (simp_all add: inj_def)
  show ?thesis using check_password_rejects_other [where H = "\<lambda>m s q. (s @ q, m)" and meth = "''scrypt''" and salt = "''Xy7''" and p = "''hunter2''", OF h, where u = "new_user 1 ''ada'' ''ada@example.org''"] h
    by blast
qed

text \<open>
  The error path of \<open>check_password\<close>: it raises exactly when the row has no
  password hash, as every row has until \<open>set_password\<close> runs, and the error is
  \<open>AttributeError\<close> on \<open>None.split\<close>; a row that went through \<open>set_password\<close> never
  raises.
\<close>

theorem check_password_error:
  "(check_password H u p = Inl e \<longleftrightarrow> password_hash u = None \<and> e = AttributeError ''split'')
   \<and> check_password H (new_user i name mail) p = Inl (AttributeError ''split'')
   \<and> (\<exists>b. check_password H (set_password H meth salt u q) p = Inr b)"
  by (auto simp: check_password_def new_user_def set_password_def split: option.split)

end
