(* ===== verification/Main_Routes.thy ===== *)
theory Main_Routes
  imports Battle_Routes User_Model "HOL-Library.Multiset"
begin

text \<open>
  The two handlers of \<open>src/app/routes/main.py\<close>. \<open>index\<close> (lines 11 to 29) queries the
  five most recent battles and the ten bugs with most wins, then calls
  \<open>submission_date(Bug)\<close>, a name defined nowhere, so it raises \<open>NameError\<close> before it
  renders. \<open>dashboard\<close> (lines 32 to 48) counts the bugs, users and battles, then reads
  the undefined \<open>Tournament\<close> and raises \<open>NameError\<close> as well; the lines after 48
  never run. The two queries are modelled as the code writes them:
  \<open>order_by(desc(column)).limit(n)\<close> is a stable sort on the negated column of the rows
  in table order (the order \<open>list_battles\<close> also assumes) followed by \<open>take n\<close>; the
  table order of the bug rows is ascending primary key.
\<close>

section \<open>The queries\<close>

text \<open>\<open>Battle.query.order_by(desc(Battle.battle_date)).limit(n).all()\<close>.\<close>

definition recent_battles :: "nat \<Rightarrow> arena \<Rightarrow> battle list" where
  "recent_battles n s = take n (sort_key (\<lambda>bt. - battle_date bt) (battles s))"

text \<open>\<open>Bug.query.order_by(desc(Bug.wins)).limit(n).all()\<close> over the rows.\<close>

definition top_bugs :: "nat \<Rightarrow> bug list \<Rightarrow> bug list" where
  "top_bugs n rows = take n (sort_key (\<lambda>b. - wins b) rows)"

section \<open>The handlers\<close>

definition index :: "arena \<Rightarrow> py_error + battle list \<times> bug list" where
  "index s =
     (let recent_battles = recent_battles 5 s;
          top_bugs = top_bugs 10 (bug_rows s)
      in Inl (NameError ''submission_date''))"

definition dashboard :: "(int \<rightharpoonup> user) \<Rightarrow> arena \<Rightarrow> py_error + nat \<times> nat \<times> nat" where
  "dashboard users s =
     (let total_bugs = card (dom (bugs s));
          total_users = card (dom users);
          total_battles = length (battles s)
      in Inl (NameError ''Tournament''))"

section \<open>Lemmas\<close>

lemma sorted_take_drop_le:
  assumes "sorted (map f xs)" and "x \<in> set (take n xs)" and "y \<in> set (drop n xs)"
  shows "f x \<le> f y"
proof -
  from assms(1) have "sorted (map f (take n xs) @ map f (drop n xs))"
    by (simp flip: map_append)
  with assms(2,3) show ?thesis by (auto simp: sorted_append)
qed

lemma mset_top_bugs_split:
  "mset rows = mset (top_bugs n rows) + mset (drop n (sort_key (\<lambda>b. - wins b) rows))"
  by (simp add: top_bugs_def flip: mset_append)

lemma mset_top_bugs_rest: "mset rows - mset (top_bugs n rows) = mset (drop n (sort_key (\<lambda>b. - wins b) rows))"
  using mset_top_bugs_split [of rows n] by simp

lemma mset_top_bugs_sub: "mset (top_bugs n rows) \<subseteq># mset rows"
  using mset_top_bugs_split [of rows n] by (metis mset_subset_eq_add_left)

text \<open>
  The top-bugs query meets its contract: it returns \<open>min n (length rows)\<close> of the
  rows, each at most as often as it occurs, in descending order of wins, and no row left
  out has more wins than any row returned.
\<close>

theorem top_bugs_contract:
  "sorted_wrt (\<lambda>a b. wins b \<le> wins a) (top_bugs n rows)
   \<and> length (top_bugs n rows) = min n (length rows)
   \<and> mset (top_bugs n rows) \<subseteq># mset rows
   \<and> (\<forall>x\<in>set (top_bugs n rows). \<forall>y\<in>#mset rows - mset (top_bugs n rows). wins y \<le> wins x)"
proof -
  let ?xs = "sort_key (\<lambda>b. - wins b) rows"
  have sorted: "sorted (map (\<lambda>b. - wins b) ?xs)" by simp
  then have "sorted_wrt (\<lambda>a b. - wins a \<le> - wins b) (take n ?xs)"
    by (simp add: sorted_map sorted_wrt_take)
  then have "sorted_wrt (\<lambda>a b. wins b \<le> wins a) (top_bugs n rows)"
    by (simp add: top_bugs_def)
  moreover have "length (top_bugs n rows) = min n (length rows)"
    by (simp add: top_bugs_def)
  moreover have "mset (top_bugs n rows) \<subseteq># mset rows"
    by (rule mset_top_bugs_sub)
  moreover have "wins y \<le> wins x" if "x \<in> set (top_bugs n rows)"
      and "y \<in># mset rows - mset (top_bugs n rows)" for x y
  proof -
    from that(2) have "y \<in> set (drop n ?xs)" by (simp add: mset_top_bugs_rest)
    with sorted that(1) have "- wins x \<le> - wins y"
      unfolding top_bugs_def by (rule sorted_take_drop_le)
    then show ?thesis by simp
  qed
  ultimately show ?thesis by blast
qed

theorem top_bugs_contract_witness:
  "sorted_wrt (\<lambda>a b. wins b \<le> wins a) (top_bugs 1 [(new_bug 1 ''Atlas'')\<lparr>wins := 1\<rparr>, (new_bug 2 ''Stag'')\<lparr>wins := 3\<rparr>])
   \<and> length (top_bugs 1 [(new_bug 1 ''Atlas'')\<lparr>wins := 1\<rparr>, (new_bug 2 ''Stag'')\<lparr>wins := 3\<rparr>]) = 1
   \<and> top_bugs 1 [(new_bug 1 ''Atlas'')\<lparr>wins := 1\<rparr>, (new_bug 2 ''Stag'')\<lparr>wins := 3\<rparr>] = [(new_bug 2 ''Stag'')\<lparr>wins := 3\<rparr>]
   \<and> mset [(new_bug 1 ''Atlas'')\<lparr>wins := 1\<rparr>, (new_bug 2 ''Stag'')\<lparr>wins := 3\<rparr>] - mset (top_bugs 1 [(new_bug 1 ''Atlas'')\<lparr>wins := 1\<rparr>, (new_bug 2 ''Stag'')\<lparr>wins := 3\<rparr>]) = {#(new_bug 1 ''Atlas'')\<lparr>wins := 1\<rparr>#}
   \<and> wins ((new_bug 1 ''Atlas'')\<lparr>wins := 1\<rparr>) \<le> wins ((new_bug 2 ''Stag'')\<lparr>wins := 3\<rparr>)"
proof -
  have v: "top_bugs 1 [(new_bug 1 ''Atlas'')\<lparr>wins := 1\<rparr>, (new_bug 2 ''Stag'')\<lparr>wins := 3\<rparr>] = [(new_bug 2 ''Stag'')\<lparr>wins := 3\<rparr>]"
    by (simp add: top_bugs_def new_bug_def)
  have d: "mset [(new_bug 1 ''Atlas'')\<lparr>wins := 1\<rparr>, (new_bug 2 ''Stag'')\<lparr>wins := 3\<rparr>] - mset (top_bugs 1 [(new_bug 1 ''Atlas'')\<lparr>wins := 1\<rparr>, (new_bug 2 ''Stag'')\<lparr>wins := 3\<rparr>]) = {#(new_bug 1 ''Atlas'')\<lparr>wins := 1\<rparr>#}"
    using v by (simp add: new_bug_def)
  show ?thesis
    using top_bugs_contract [of 1 "[(new_bug 1 ''Atlas'')\<lparr>wins := 1\<rparr>, (new_bug 2 ''Stag'')\<lparr>wins := 3\<rparr>]"] v d by simp
qed

text \<open>
  The homepage and the first battles page agree: the five recent battles \<open>index\<close>
  queries are the first five entries of \<open>list_battles\<close> with no page argument.
\<close>

theorem recent_battles_first_page:
  "recent_battles 5 s = take 5 (case list_battles Map.empty s of Render_Battles xs \<Rightarrow> xs | _ \<Rightarrow> [])"
  by (simp add: recent_battles_def list_battles_def min_def)

text \<open>
  Neither page of \<open>main.py\<close> can be served: \<open>index\<close> always raises \<open>NameError\<close> on
  \<open>submission_date\<close>, and \<open>dashboard\<close> always raises \<open>NameError\<close> on
  \<open>Tournament\<close>, whatever the database holds.
\<close>

theorem main_pages_raise:
  "index s = Inl (NameError ''submission_date'') \<and> dashboard users s = Inl (NameError ''Tournament'')"
  by (simp add: index_def dashboard_def)

end
