(* ===== verification/App_Factory.thy ===== *)
theory App_Factory
  imports Py_Prelude
begin

text \<open>
  Start-up of the application: \<open>src/run.py\<close> imports the package \<open>app\<close>
  (\<open>src/app/__init__.py\<close>), calls \<open>create_app()\<close>, creates the tables and serves.
  \<open>create_app\<close> reads \<open>UPLOAD_FOLDER\<close> from the configuration, imports
  \<open>app.models\<close> and the four route modules, and registers their blueprints.

  Importing is Python's: a module already in \<open>sys.modules\<close> is not run again; a
  module is entered into \<open>sys.modules\<close> before its body runs (so import cycles end);
  a missing module raises \<open>ModuleNotFoundError\<close>; a file that does not compile raises
  its \<open>SyntaxError\<close> (here an \<open>IndentationError\<close>) when it is first imported. The
  model reduces a module to what importing it does: a source module runs the imports of
  its body in order, a broken one raises, and a third-party one (Flask, SQLAlchemy)
  loads. The loader walks the pending imports depth first with an explicit fuel bound;
  \<open>import_fuel\<close> is enough fuel for every module table, which is the termination
  argument of Python's import of a finite set of modules. The table of the modules
  under \<open>src/\<close> is fixed by the sources; every other module (the configuration, the
  route modules \<open>auth\<close> and \<open>bugs\<close>, the libraries) is an arbitrary table appended
  after it.
\<close>

section \<open>Modules and the loader\<close>

datatype module = Source "string list" | Broken py_error | External

type_synonym module_table = "(string \<times> module) list"

fun load_modules :: "nat \<Rightarrow> module_table \<Rightarrow> string list \<Rightarrow> string list \<Rightarrow> (py_error + string list) option" where
  "load_modules 0 tbl L ns = None"
| "load_modules (Suc f) tbl L [] = Some (Inr L)"
| "load_modules (Suc f) tbl L (n # ns) =
     (if n \<in> set L then load_modules f tbl L ns
      else case map_of tbl n of
        None \<Rightarrow> Some (Inl (ModuleNotFoundError n))
      | Some (Broken e) \<Rightarrow> Some (Inl e)
      | Some External \<Rightarrow> load_modules f tbl (n # L) ns
      | Some (Source ds) \<Rightarrow> load_modules f tbl (n # L) (ds @ ns))"

text \<open>The imports still to run for the modules not yet loaded.\<close>

definition dep_count :: "module_table \<Rightarrow> string \<Rightarrow> nat" where
  "dep_count tbl n = (case map_of tbl n of Some (Source ds) \<Rightarrow> length ds | _ \<Rightarrow> 0)"

definition pending :: "module_table \<Rightarrow> string list \<Rightarrow> nat" where
  "pending tbl L = (\<Sum>n \<in> set (map fst tbl) - set L. dep_count tbl n)"

definition import_fuel :: "module_table \<Rightarrow> string list \<Rightarrow> string list \<Rightarrow> nat" where
  "import_fuel tbl L ns = length ns + pending tbl L + 1"

text \<open>\<open>import x\<close> with the fuel that suffices; \<open>None\<close> is never returned (see below).\<close>

definition py_import :: "module_table \<Rightarrow> string list \<Rightarrow> string list \<Rightarrow> (py_error + string list) option" where
  "py_import tbl L ns = load_modules (import_fuel tbl L ns) tbl L ns"

text \<open>Every module a successful import has entered into \<open>sys.modules\<close> compiled.\<close>

fun broken :: "module option \<Rightarrow> bool" where
  "broken (Some (Broken e)) = True"
| "broken _ = False"

definition no_broken :: "module_table \<Rightarrow> string list \<Rightarrow> bool" where
  "no_broken tbl L = list_all (\<lambda>n. \<not> broken (map_of tbl n)) L"

section \<open>The modules under src\<close>

text \<open>
  \<open>app\<close> imports Flask, Flask-SQLAlchemy, Flask-Login, \<open>config\<close> and \<open>os\<close>
  (\<open>__init__.py\<close> lines 1 to 5); \<open>app.routes\<close> is a directory without
  \<open>__init__.py\<close>, a namespace package; \<open>main.py\<close> imports lines 4 to 7;
  \<open>models.py\<close> and \<open>battles.py\<close> do not compile (unexpected indent at line 144 and at
  line 39), so importing them raises before any of their imports runs.
\<close>

definition src_modules :: module_table where
  "src_modules = [
     (''app'', Source [''flask'', ''flask_sqlalchemy'', ''flask_login'', ''config'', ''os'']),
     (''app.models'', Broken (IndentationError ''src/app/models.py'' 144)),
     (''app.routes'', Source []),
     (''app.routes.main'', Source [''flask'', ''app'', ''app.models'', ''sqlalchemy'']),
     (''app.routes.battles'', Broken (IndentationError ''src/app/routes/battles.py'' 39))]"

section \<open>The factory and the entry point\<close>

record flask_app =
  blueprints :: "string list"
  login_view :: string

definition route_modules :: "string list" where
  "route_modules = [''app.routes.main'', ''app.routes.auth'', ''app.routes.bugs'', ''app.routes.battles'']"

text \<open>
  \<open>create_app\<close> (lines 10 to 30): \<open>app.config['UPLOAD_FOLDER']\<close> (line 18) raises
  \<open>KeyError\<close> when the configuration has no such key; line 22 imports \<open>app.models\<close>;
  line 24 imports \<open>app.routes\<close> and its four modules; lines 25 to 28 register one
  blueprint per route module, and line 17 names the login view.
\<close>

definition create_app :: "module_table \<Rightarrow> string list \<Rightarrow> string option \<Rightarrow> (py_error + flask_app) option" where
  "create_app tbl L upload_folder =
     (case upload_folder of
        None \<Rightarrow> Some (Inl (KeyError ''UPLOAD_FOLDER''))
      | Some _ \<Rightarrow>
          (case py_import tbl L [''app.models''] of
             None \<Rightarrow> None
           | Some (Inl e) \<Rightarrow> Some (Inl e)
           | Some (Inr L') \<Rightarrow>
               (case py_import tbl L' (''app.routes'' # route_modules) of
                  None \<Rightarrow> None
                | Some (Inl e) \<Rightarrow> Some (Inl e)
                | Some (Inr _) \<Rightarrow> Some (Inr \<lparr>blueprints = route_modules, login_view = ''auth.login''\<rparr>))))"

text \<open>
  \<open>python run.py\<close>: line 5 imports \<open>app\<close>, line 7 calls \<open>create_app()\<close>; the table
  creation, the print and \<open>app.run\<close> (lines 10 to 17) are I/O on a created app.
\<close>

definition run_py :: "module_table \<Rightarrow> string option \<Rightarrow> (py_error + flask_app) option" where
  "run_py others upload_folder =
     (let tbl = src_modules @ others
      in case py_import tbl [] [''app''] of
           None \<Rightarrow> None
         | Some (Inl e) \<Rightarrow> Some (Inl e)
         | Some (Inr L) \<Rightarrow> create_app tbl L upload_folder)"

section \<open>Lemmas\<close>

lemma pending_Source:
  assumes "map_of tbl n = Some (Source ds)" and "n \<notin> set L"
  shows "pending tbl L = length ds + pending tbl (n # L)"
proof -
  from assms(1) have "n \<in> fst ` set tbl" by (metis map_of_eq_None_iff option.distinct(1))
  with assms(2) have n: "n \<in> set (map fst tbl) - set L" by simp
  have "set (map fst tbl) - set (n # L) = (set (map fst tbl) - set L) - {n}" by auto
  moreover have "dep_count tbl n = length ds" using assms(1) by (simp add: dep_count_def)
  ultimately show ?thesis
    using sum.remove [OF _ n, of "dep_count tbl"] by (simp add: pending_def)
qed

lemma pending_Cons_le: "pending tbl (n # L) \<le> pending tbl L"
  unfolding pending_def by (rule sum_mono2) auto

lemma load_modules_enough:
  "length ns + pending tbl L < f \<Longrightarrow> load_modules f tbl L ns \<noteq> None"
proof (induction f tbl L ns rule: load_modules.induct)
  case (1 tbl L ns)
  then show ?case by simp
next
  case (2 f tbl L)
  then show ?case by simp
next
  case (3 f tbl L n ns)
  show ?case
  proof (cases "n \<in> set L")
    case True
    with "3.IH"(1) "3.prems" show ?thesis by simp
  next
    case notin: False
    show ?thesis
    proof (cases "map_of tbl n")
      case None
      with notin show ?thesis by simp
    next
      case (Some m)
      show ?thesis
      proof (cases m)
        case (Source ds)
        with Some notin have "pending tbl L = length ds + pending tbl (n # L)"
          by (simp add: pending_Source)
        with "3.prems" have "length (ds @ ns) + pending tbl (n # L) < f" by simp
        with "3.IH"(2) [OF notin Some Source] notin Some Source show ?thesis by simp
      next
        case (Broken e)
        with Some notin show ?thesis by simp
      next
        case External
        have "pending tbl (n # L) \<le> pending tbl L" by (rule pending_Cons_le)
        with "3.prems" have "length ns + pending tbl (n # L) < f" by simp
        with "3.IH"(3) [OF notin Some External] notin Some External show ?thesis by simp
      qed
    qed
  qed
qed

lemma load_modules_mono:
  "load_modules f tbl L ns = Some r \<Longrightarrow> f \<le> g \<Longrightarrow> load_modules g tbl L ns = Some r"
proof (induction f tbl L ns arbitrary: g rule: load_modules.induct)
  case (1 tbl L ns)
  then show ?case by simp
next
  case (2 f tbl L)
  then obtain g' where "g = Suc g'" by (cases g) auto
  with 2 show ?case by simp
next
  case (3 f tbl L n ns)
  then obtain g' where g: "g = Suc g'" and fg: "f \<le> g'" by (cases g) auto
  show ?case
  proof (cases "n \<in> set L")
    case True
    with "3.prems"(1) "3.IH"(1) [OF True _ fg] show ?thesis unfolding g by simp
  next
    case notin: False
    show ?thesis
    proof (cases "map_of tbl n")
      case None
      with notin "3.prems"(1) show ?thesis unfolding g by simp
    next
      case (Some m)
      show ?thesis
      proof (cases m)
        case (Source ds)
        with "3.prems"(1) "3.IH"(2) [OF notin Some Source _ fg] notin Some show ?thesis
          unfolding g by simp
      next
        case (Broken e)
        with "3.prems"(1) notin Some show ?thesis unfolding g by simp
      next
        case External
        with "3.prems"(1) "3.IH"(3) [OF notin Some External _ fg] notin Some show ?thesis
          unfolding g by simp
      qed
    qed
  qed
qed

lemma py_import_Some: "\<exists>r. py_import tbl L ns = Some r"
  using load_modules_enough [of ns tbl L "import_fuel tbl L ns"]
  by (simp add: py_import_def import_fuel_def)

lemma py_import_Broken:
  assumes "n \<notin> set L" and "map_of tbl n = Some (Broken e)"
  shows "py_import tbl L (n # ns) = Some (Inl e)"
proof -
  obtain k where "import_fuel tbl L (n # ns) = Suc k" by (simp add: import_fuel_def)
  with assms show ?thesis by (simp add: py_import_def)
qed

lemma load_modules_no_broken:
  "load_modules f tbl L ns = Some (Inr L') \<Longrightarrow> no_broken tbl L \<Longrightarrow> no_broken tbl L'"
  by (induction f tbl L ns rule: load_modules.induct)
     (auto simp: no_broken_def split: if_splits option.splits module.splits)

lemma no_broken_notin: "no_broken tbl L \<Longrightarrow> map_of tbl n = Some (Broken e) \<Longrightarrow> n \<notin> set L"
  by (auto simp: no_broken_def list_all_iff)

lemma src_models_broken:
  "map_of (src_modules @ others) ''app.models'' = Some (Broken (IndentationError ''src/app/models.py'' 144))"
  by (simp add: src_modules_def)

lemma run_py_example:
  "run_py [(''flask'', External), (''flask_sqlalchemy'', External), (''flask_login'', External),
           (''config'', Source []), (''os'', External)] (Some ''uploads'')
     = Some (Inl (IndentationError ''src/app/models.py'' 144))"
  by code_simp

text \<open>
  Termination of the import: for every module table, every set of loaded modules
  and every list of imports, \<open>import_fuel\<close> is enough fuel, and any more fuel gives
  the same result: importing a finite set of modules always ends, with the modules
  loaded or with the first error.
\<close>

theorem load_modules_terminates:
  assumes "import_fuel tbl L ns \<le> f"
  shows "load_modules f tbl L ns = py_import tbl L ns \<and> py_import tbl L ns \<noteq> None"
proof -
  have "py_import tbl L ns \<noteq> None"
    unfolding py_import_def by (rule load_modules_enough) (simp add: import_fuel_def)
  then obtain r where r: "py_import tbl L ns = Some r" by blast
  then have "load_modules f tbl L ns = Some r"
    using assms unfolding py_import_def by (rule load_modules_mono)
  with r show ?thesis by simp
qed


theorem load_modules_terminates_witness:
  "import_fuel src_modules [] [''app''] \<le> 20
   \<and> load_modules 20 src_modules [] [''app''] = py_import src_modules [] [''app'']
   \<and> py_import src_modules [] [''app''] = Some (Inl (ModuleNotFoundError ''flask''))"
proof -
  have h: "import_fuel src_modules [] [''app''] \<le> 20" by code_simp
  have v: "py_import src_modules [] [''app''] = Some (Inl (ModuleNotFoundError ''flask''))" by code_simp
  show ?thesis using load_modules_terminates [OF h] h v by simp
qed

text \<open>
  C18. The application never starts: whatever the modules outside \<open>src/\<close> provide
  (the configuration, the route modules \<open>auth\<close> and \<open>bugs\<close>, the libraries) and
  whatever the configuration holds, \<open>python run.py\<close> ends in an exception before
  \<open>app.run\<close>: the one importing \<open>app\<close> raises, the \<open>KeyError\<close> of a missing
  \<open>UPLOAD_FOLDER\<close>, or the \<open>IndentationError\<close> of \<open>models.py\<close> at line 144.
\<close>

theorem run_py_never_starts:
  "run_py others uf \<in> (\<lambda>e. Some (Inl e)) `
     ({e. py_import (src_modules @ others) [] [''app''] = Some (Inl e)}
      \<union> {KeyError ''UPLOAD_FOLDER'', IndentationError ''src/app/models.py'' 144})"
proof -
  let ?tbl = "src_modules @ others"
  obtain r where r: "py_import ?tbl [] [''app''] = Some r" using py_import_Some by blast
  show ?thesis
  proof (cases r)
    case (Inl e)
    with r show ?thesis by (simp add: run_py_def)
  next
    case (Inr L)
    with r have "load_modules (import_fuel ?tbl [] [''app'']) ?tbl [] [''app''] = Some (Inr L)"
      by (simp add: py_import_def)
    then have "no_broken ?tbl L" by (rule load_modules_no_broken) (simp add: no_broken_def)
    then have "''app.models'' \<notin> set L" using src_models_broken by (rule no_broken_notin)
    then have "py_import ?tbl L [''app.models''] = Some (Inl (IndentationError ''src/app/models.py'' 144))"
      using src_models_broken by (rule py_import_Broken)
    with r Inr show ?thesis by (cases uf) (simp_all add: run_py_def create_app_def)
  qed
qed

end
