(* ===== verification/Spec_Resolver.thy ===== *)
theory Spec_Resolver
  imports Battle_Engine Matchup Size_Modifier
begin

text \<open>
  The Battle Resolver as the spec describes it (sections 3, 4.3 and 4.4 of \<open>spec.md\<close>)
  and its relation to \<open>simulate_battle\<close> of \<open>src/app/routes/battles.py\<close>. The spec's
  resolver is a pure function from two competitors and the random draws to a
  \<open>BattleOutcome\<close> record (winner, loser, both powers and a tie-broken flag); the caller
  then persists the outcome: one battle row and the two counter updates. Its power is
  \<open>base * matchup * size * noise\<close>, where the matchup factor is the table lookup of
  \<open>Matchup\<close>, the size factor is the first component of the size resolver of
  \<open>Size_Modifier\<close> with the competitor first, and an unrecognised size is neutral
  (spec 4.2, step 1). The code's \<open>simulate_battle\<close> is the same resolver without the two
  factors, fused with the persistence step. The refinement theorem shows that the code
  implements the spec exactly on the pairs for which all four factors are neutral, and
  the divergence theorem shows that outside them the two can crown different winners.
\<close>

section \<open>The abstract resolver\<close>

record 'r battle_outcome =
  winner_ref :: 'r
  loser_ref :: 'r
  winner_power :: real
  loser_power :: real
  tie_broken :: bool

text \<open>The size factor of one competitor; an unrecognised size degrades to 1.0 (spec 4.2).\<close>

definition spec_size_mult :: "bug \<Rightarrow> bug \<Rightarrow> real" where
  "spec_size_mult c opp =
     (case get_size_multipliers (size_class c) (size_class opp) (attack_type c) (attack_type opp) of
        Inr (m, _) \<Rightarrow> m
      | Inl _ \<Rightarrow> 1.0)"

text \<open>\<open>battlePower(competitor, opponent)\<close> of spec 4.3, with the noise drawn from \<open>u\<close>.\<close>

definition spec_battle_power :: "bug \<Rightarrow> bug \<Rightarrow> real \<Rightarrow> real" where
  "spec_battle_power c opp u =
     base_power c * get_matchup_multiplier (attack_type c) (defense_type opp) * spec_size_mult c opp
       * py_uniform 0.9 1.1 u"

text \<open>
  \<open>resolve(A, B)\<close> of spec 4.4: the two powers from independent draws, the strictly
  higher one wins, and on equal powers the tie-break draw picks the winner.
\<close>

definition resolve :: "bug \<Rightarrow> bug \<Rightarrow> draws \<Rightarrow> bug battle_outcome" where
  "resolve a b d =
     (let pa = spec_battle_power a b (red_draw d);
          pb = spec_battle_power b a (blue_draw d)
      in if pa > pb then \<lparr>winner_ref = a, loser_ref = b, winner_power = pa, loser_power = pb, tie_broken = False\<rparr>
         else if pb > pa then \<lparr>winner_ref = b, loser_ref = a, winner_power = pb, loser_power = pa, tie_broken = False\<rparr>
         else if tie_pick d then \<lparr>winner_ref = b, loser_ref = a, winner_power = pb, loser_power = pa, tie_broken = True\<rparr>
         else \<lparr>winner_ref = a, loser_ref = b, winner_power = pa, loser_power = pb, tie_broken = True\<rparr>)"

text \<open>
  The counter update the spec asks of the caller (spec 4.4, step 5, and section 9),
  written per row: the row keyed by the winner's id gains one win, the row keyed by the
  loser's id one loss, every other row is unchanged.
\<close>

definition credit_outcome :: "int \<Rightarrow> int \<Rightarrow> (int \<rightharpoonup> bug) \<Rightarrow> (int \<rightharpoonup> bug)" where
  "credit_outcome w l m =
     (\<lambda>i. map_option (\<lambda>r. r\<lparr>wins := wins r + (if i = w then 1 else 0),
                             losses := losses r + (if i = l then 1 else 0)\<rparr>) (m i))"

text \<open>
  The caller's persistence step (spec 4.4, step 5, and section 6): the narrative of the
  pair and the winner, one battle row naming the winner, one win and one loss.
\<close>

definition persist_outcome ::
    "narrator \<Rightarrow> int \<Rightarrow> bug \<Rightarrow> bug \<Rightarrow> bug battle_outcome \<Rightarrow> arena \<Rightarrow> battle \<times> arena" where
  "persist_outcome narrate now red blue out s =
     (let bt = \<lparr>battle_id = next_battle_id s, red_corner_bug_id = bug_id red,
                blue_corner_bug_id = bug_id blue, winner_id = Some (bug_id (winner_ref out)),
                narrative = narrate red blue (winner_ref out), battle_date = now\<rparr>
      in (bt, s\<lparr>bugs := credit_outcome (bug_id (winner_ref out)) (bug_id (loser_ref out)) (bugs s),
                battles := battles s @ [bt], next_battle_id := next_battle_id s + 1\<rparr>))"

text \<open>A pair on which all four factors of the spec's powers are 1.\<close>

definition neutral_pair :: "bug \<Rightarrow> bug \<Rightarrow> bool" where
  "neutral_pair a b \<longleftrightarrow>
     get_matchup_multiplier (attack_type a) (defense_type b) = 1
     \<and> get_matchup_multiplier (attack_type b) (defense_type a) = 1
     \<and> spec_size_mult a b = 1 \<and> spec_size_mult b a = 1"

section \<open>Lemmas\<close>

lemma spec_battle_power_neutral:
  "get_matchup_multiplier (attack_type c) (defense_type opp) = 1 \<Longrightarrow> spec_size_mult c opp = 1 \<Longrightarrow>
   spec_battle_power c opp u = calculate_battle_power c u"
  by (simp add: spec_battle_power_def calculate_battle_power_eq)

lemma spec_size_mult_absent: "size_class c = None \<or> size_class opp = None \<Longrightarrow> spec_size_mult c opp = 1"
  by (simp add: spec_size_mult_def get_size_multipliers_absent)

lemma neutral_pair_untyped:
  "attack_type a = None \<Longrightarrow> attack_type b = None \<Longrightarrow> size_class a = None \<Longrightarrow> neutral_pair a b"
  by (simp add: neutral_pair_def get_matchup_multiplier_def spec_size_mult_absent)

text \<open>The code's two sequential updates make the spec's per-row update.\<close>

lemma record_win_loss_credit:
  "record_loss l (record_win w m) = credit_outcome w l m"
proof
  fix i
  show "record_loss l (record_win w m) i = credit_outcome w l m i"
    by (cases "i = w"; cases "i = l"; cases "m i") (simp_all add: record_win_def record_loss_def credit_outcome_def)
qed

text \<open>
  The resolver as a function of the two powers: it is \<open>determine_winner\<close> of the code,
  with the powers and the tie flag attached.
\<close>

lemma resolve_determine_winner:
  "(winner_ref (resolve a b d), loser_ref (resolve a b d))
     = determine_winner (spec_battle_power a b (red_draw d)) (spec_battle_power b a (blue_draw d)) (tie_pick d) a b"
  by (auto simp: resolve_def determine_winner_def Let_def)

lemma resolve_tie_broken:
  "tie_broken (resolve a b d) \<longleftrightarrow> spec_battle_power a b (red_draw d) = spec_battle_power b a (blue_draw d)"
  by (simp add: resolve_def Let_def)

text \<open>
  C11. Refinement of the spec's resolver: on a pair whose matchup and size factors are all
  neutral, \<open>simulate_battle\<close> is the spec's \<open>resolve\<close> followed by the caller's
  persistence of its outcome (the same winner, loser, battle row and counter updates,
  on every branch, the random tie-break included), and the spec's tie-broken flag is
  set exactly when the code's two powers are equal.
\<close>

theorem simulate_battle_refines_resolve:
  assumes "neutral_pair a b"
  shows "simulate_battle narrate now a b d s = persist_outcome narrate now a b (resolve a b d) s
    \<and> (tie_broken (resolve a b d) \<longleftrightarrow> calculate_battle_power a (red_draw d) = calculate_battle_power b (blue_draw d))"
proof -
  from assms have pa: "spec_battle_power a b (red_draw d) = calculate_battle_power a (red_draw d)"
    and pb: "spec_battle_power b a (blue_draw d) = calculate_battle_power b (blue_draw d)"
    by (simp_all add: neutral_pair_def spec_battle_power_neutral)
  have "determine_winner (calculate_battle_power a (red_draw d)) (calculate_battle_power b (blue_draw d)) (tie_pick d) a b
          = (winner_ref (resolve a b d), loser_ref (resolve a b d))"
    using resolve_determine_winner [of a b d] by (simp add: pa pb)
  then have "simulate_battle narrate now a b d s = persist_outcome narrate now a b (resolve a b d) s"
    by (simp add: simulate_battle_def persist_outcome_def Let_def record_win_loss_credit)
  moreover have "tie_broken (resolve a b d) \<longleftrightarrow> calculate_battle_power a (red_draw d) = calculate_battle_power b (blue_draw d)"
    by (simp add: resolve_tie_broken pa pb)
  ultimately show ?thesis ..
qed

theorem simulate_battle_refines_resolve_witness:
  "neutral_pair (new_bug 1 ''Hercules'') (new_bug 2 ''Goliath'')
   \<and> simulate_battle (\<lambda>_ _ _. ''a fight'') 7 (new_bug 1 ''Hercules'') (new_bug 2 ''Goliath'')
       \<lparr>red_draw = 0.5, blue_draw = 0.5, tie_pick = True\<rparr> \<lparr>bugs = Map.empty, battles = [], next_battle_id = 1\<rparr>
     = persist_outcome (\<lambda>_ _ _. ''a fight'') 7 (new_bug 1 ''Hercules'') (new_bug 2 ''Goliath'')
         (resolve (new_bug 1 ''Hercules'') (new_bug 2 ''Goliath'') \<lparr>red_draw = 0.5, blue_draw = 0.5, tie_pick = True\<rparr>) \<lparr>bugs = Map.empty, battles = [], next_battle_id = 1\<rparr>
   \<and> tie_broken (resolve (new_bug 1 ''Hercules'') (new_bug 2 ''Goliath'') \<lparr>red_draw = 0.5, blue_draw = 0.5, tie_pick = True\<rparr>)
   \<and> winner_ref (resolve (new_bug 1 ''Hercules'') (new_bug 2 ''Goliath'') \<lparr>red_draw = 0.5, blue_draw = 0.5, tie_pick = True\<rparr>)
       = new_bug 2 ''Goliath''"
proof -
  have h: "neutral_pair (new_bug 1 ''Hercules'') (new_bug 2 ''Goliath'')"
    by (rule neutral_pair_untyped) (simp_all add: new_bug_def)
  have w: "winner_ref (resolve (new_bug 1 ''Hercules'') (new_bug 2 ''Goliath'') \<lparr>red_draw = 0.5, blue_draw = 0.5, tie_pick = True\<rparr>)
       = new_bug 2 ''Goliath''"
    using h by (simp add: resolve_def Let_def neutral_pair_def spec_battle_power_neutral calculate_battle_power_eq new_bug_def)
  have e: "calculate_battle_power (new_bug 1 ''Hercules'') 0.5 = calculate_battle_power (new_bug 2 ''Goliath'') 0.5"
    by (simp add: calculate_battle_power_eq new_bug_def)
  show ?thesis
    using simulate_battle_refines_resolve [OF h, where narrate = "\<lambda>_ _ _. ''a fight''" and now = 7
        and d = "\<lparr>red_draw = 0.5, blue_draw = 0.5, tie_pick = True\<rparr>" and s = "\<lparr>bugs = Map.empty, battles = [], next_battle_id = 1\<rparr>"] h w e
    by simp
qed

text \<open>
  C12. The refinement needs its hypothesis, and the code departs from the spec outside
  it: a well-formed piercing attacker of weighted stat sum 23.5 against a hard-shelled
  bug of sum 25.5, both of unknown size, with equal draws, wins the spec's \<open>resolve\<close>
  (the matchup factor 1.5 gives it 35.25 against 25.5) and loses the code's
  \<open>simulate_battle\<close>, which never applies the factor.
\<close>

theorem simulate_battle_diverges_from_resolve:
  "\<exists>a b d. bug_wf a \<and> bug_wf b \<and> draws_ok d \<and> bug_id a \<noteq> bug_id b
     \<and> winner_ref (resolve a b d) = a
     \<and> winner_id (fst (simulate_battle narrate now a b d s)) = Some (bug_id b)"
proof -
  let ?a = "(new_bug 1 ''Stag'')\<lparr>attack_type := Some ''piercing''\<rparr>"
  let ?b = "(new_bug 2 ''Shell'')\<lparr>attack := 6, defense_type := Some ''hard_shell''\<rparr>"
  let ?d = "\<lparr>red_draw = 0.5, blue_draw = 0.5, tie_pick = False\<rparr>"
  have m: "get_matchup_multiplier (Some ''piercing'') (Some ''hard_shell'') = 1.5"
    using matchup_named [of Piercing Hard_shell] by simp
  have wf: "bug_wf ?a" "bug_wf ?b" "draws_ok ?d"
    by (simp_all add: bug_wf_def new_bug_def draws_ok_def random_draw_def)
  have "winner_ref (resolve ?a ?b ?d) = ?a"
    using m by (simp add: resolve_def Let_def spec_battle_power_def spec_size_mult_absent
        get_matchup_multiplier_def py_uniform_def new_bug_def)
  moreover have "winner_id (fst (simulate_battle narrate now ?a ?b ?d s)) = Some (bug_id ?b)"
    by (simp add: simulate_battle_def determine_winner_def calculate_battle_power_eq py_uniform_def new_bug_def Let_def)
  ultimately show ?thesis using wf by (intro exI [of _ ?a] exI [of _ ?b] exI [of _ ?d]) (simp add: new_bug_def)
qed

end
