(* ===== verification/Spec2Isabelle.thy ===== *)
theory Spec2Isabelle
  imports Matchup Size_Modifier Arena Main_Routes App_Factory Spec_Resolver
begin

text \<open>
  \<^bold>\<open>BugBrawl: the battle engine and its routes in Isabelle/HOL.\<close>

  The repository is a small Flask application (\<open>src/run.py\<close>, \<open>src/app/__init__.py\<close>)
  in which users submit bugs and set two of them to fight. Its domain logic is the battle
  engine of \<open>src/app/routes/battles.py\<close>; the rest is ORM models
  (\<open>src/app/models.py\<close>) and page handlers. The parts and how they interact:
  \<^item> the matchup table (\<open>MATCHUP_MATRIX\<close>, \<open>get_matchup_multiplier\<close>) and the size
    resolver (\<open>SIZE_ORDER\<close>, \<open>SIZE_BASE_MODIFIER\<close>, \<open>get_size_multipliers\<close>) are pure
    lookups; the code defines them but nothing calls them;
  \<^item> \<open>calculate_battle_power\<close> scales the weighted stats of one bug by one random draw;
  \<^item> \<open>simulate_battle\<close> draws both powers, picks the winner (random on a tie), writes a
    \<open>Battle\<close> row and increments the winner's \<open>wins\<close> and the loser's \<open>losses\<close>;
  \<^item> the route \<open>new_battle\<close> reads two ids from the form, validates them, loads both bugs
    and calls \<open>simulate_battle\<close>; \<open>view_battle\<close> and \<open>list_battles\<close> read the rows back.

  \<^bold>\<open>Theories.\<close>
  \<^item> \<open>Py_Prelude\<close>: the Python runtime the model needs: exceptions as \<open>py_error\<close>,
    truthiness of nullable strings, ASCII \<open>str.lower\<close>, dict \<open>get\<close> on association lists,
    \<open>list.index\<close>, \<open>round(x, n)\<close> (half to even), \<open>random.uniform\<close>; \<open>Py_Int\<close>: \<open>int(s)\<close>
    and \<open>str(n)\<close> with their round trip.
  \<^item> \<open>Matchup\<close>: \<open>MATCHUP_MATRIX\<close> and \<open>get_matchup_multiplier\<close> (lines 62 to 91, 119
    to 126); the design table over the enumerations \<open>offense\<close> and \<open>defense\<close>, and the
    refinement of one by the other.
  \<^item> \<open>Size_Modifier\<close>: \<open>SIZE_ORDER\<close>, \<open>SIZE_BASE_MODIFIER\<close>, the attack sets,
    \<open>default_for_diff\<close>, \<open>explicit_multipliers\<close> (lines 172 to 186) and
    \<open>get_size_multipliers\<close> (lines 128 to 194); the enumeration \<open>size_class\<close> as a
    \<open>linorder\<close> and the computed matrix \<open>size_modifier\<close>.
  \<^item> \<open>Bug_Model\<close>: the \<open>bug\<close> and \<open>battle\<close> rows, \<open>win_rate\<close>, \<open>power_level\<close>,
    \<open>generate_flair\<close> (\<open>models.py\<close> lines 37 to 127, 174 to 187).
  \<^item> \<open>Battle_Power\<close>: \<open>calculate_battle_power\<close> (lines 265 to 290).
  \<^item> \<open>Battle_Engine\<close>: the store (\<open>arena\<close>: bug rows by key, battle rows in insertion
    order, next key), the draws of one battle, \<open>determine_winner\<close> (lines 231 to 241),
    \<open>record_win\<close>/\<open>record_loss\<close> (lines 255 and 256) and \<open>simulate_battle\<close>.
  \<^item> \<open>Battle_Routes\<close>: \<open>new_battle\<close> (lines 33 to 60: the \<open>login_required\<close>
    redirect, the GET form, and the POST branch \<open>new_battle_post\<close>), \<open>view_battle\<close>,
    \<open>list_battles\<close>.
  \<^item> \<open>Arena\<close>: the application as an \<^theory_text>\<open>inductive\<close> step relation (bug submission,
    battle request) over the store, reachability from the empty database, and the
    invariant \<open>arena_inv\<close> by rule induction.
  \<^item> \<open>Py_Werkzeug\<close>: the observable behaviour of werkzeug's
    \<open>generate_password_hash\<close> and \<open>check_password_hash\<close> (the \<open>method$salt$hash\<close>
    format and \<open>str.split("$", 2)\<close>), with the key derivation as a parameter of which
    each lemma assumes only what it needs.
  \<^item> \<open>User_Model\<close>: the \<open>User\<close> row, \<open>set_password\<close>, \<open>check_password\<close>
    (\<open>models.py\<close> lines 17 to 32) and the Flask-Login loader \<open>load_user\<close> (lines 12
    to 14), with the session id as the string \<open>str(user.id)\<close>.
  \<^item> \<open>Main_Routes\<close>: \<open>index\<close> and \<open>dashboard\<close> of \<open>main.py\<close> up to the
    \<open>NameError\<close> each raises, and their queries \<open>recent_battles\<close> and \<open>top_bugs\<close>.
  \<^item> \<open>App_Factory\<close>: start-up (\<open>src/app/__init__.py\<close>, \<open>src/run.py\<close>): Python's
    import of a table of modules, with the modules under \<open>src/\<close> fixed (two of them do
    not compile) and every other module arbitrary, \<open>create_app\<close> and \<open>run_py\<close>. The
    loader takes fuel; \<open>import_fuel\<close> (imports to run plus the imports of the modules
    not yet loaded, plus one) is proved enough, so the fuel never runs out.
  \<^item> \<open>Spec_Resolver\<close>: the Battle Resolver of the spec (\<open>spec.md\<close> 3, 4.3, 4.4), not
    code: its \<open>BattleOutcome\<close> record \<open>battle_outcome\<close>, \<open>spec_battle_power\<close> (base
    times matchup times size times noise, built on the code's two lookups), \<open>resolve\<close>
    and the caller's \<open>persist_outcome\<close>; it relates the code's \<open>simulate_battle\<close> to
    them.
  \<^item> this theory: the properties that span the components, stated over reachable states.

  \<^bold>\<open>Correspondence.\<close> Python floats are \<open>real\<close>; \<open>round(x, 3)\<close> is exact
  round-half-even, which agrees with CPython on every value the resolver rounds (none is
  a tie). Each call of \<open>random.random()\<close> is an explicit argument in \<open>[0, 1)\<close>
  (\<open>random_draw\<close>), and \<open>random.choice\<close> of two elements a boolean, so the functions
  are deterministic and a run is the list of its draws. The database is explicit state
  passed in and returned; a handler that raises after the commit returns the committed
  state with a server error. The narrative generator, which the code calls but never
  defines, is a parameter. SQL leaves the order of \<open>Bug.query.all()\<close> (no \<open>ORDER BY\<close>)
  to the database; \<open>bug_rows\<close> lists the rows in ascending key order, a choice of the
  model on which no claim rests.

  \<^bold>\<open>What is not literally the code.\<close> The source does not run as written: line 39
  of \<open>battles.py\<close> is indented one space too far, \<open>Optional\<close> is not imported, lines
  136 and 137 read the undefined names \<open>red_corner_bug\<close>/\<open>blue_corner_bug\<close>, lines 217
  to 225 read \<open>winner\<close> before it is assigned, lines 233 to 252 use \<open>bug1\<close>/\<open>bug2\<close> for
  the parameters \<open>red_corner_bug\<close>/\<open>blue_corner_bug\<close>, and the \<open>Battle\<close> row is built
  with the keywords \<open>bug1_id\<close>/\<open>bug2_id\<close> the model does not have. The model takes the
  evident reading of each (the parameters for the undefined names, the red and blue
  columns for the row), and every one of these is a finding of the manifest. Likewise
  \<open>wins = db.Column(...),\<close> (line 87) is a tuple, not a column; the model takes it as
  the integer column it is meant to be.

  \<^bold>\<open>Not modelled.\<close> The \<open>Species\<close> table: its class body does not compile
  (which the start-up model records), so the class never exists, its columns past
  line 144 are not even parsed, and \<open>add_to_dict\<close> reads a column it does not have;
  nothing reads the table, so a model of it would be a model of code Python rejects.
  The \<open>__repr__\<close> methods (string formatting for the debugger, read by no other code), the initialisation of
  Flask, SQLAlchemy and Flask-Login, \<open>makedirs\<close>, \<open>create_all\<close> and \<open>app.run\<close>
  (library I/O), template rendering, the lines of \<open>dashboard\<close> after its
  \<open>NameError\<close> (they never run), and the internals of the password key derivation,
  which is werkzeug's and enters as a parameter.

  \<^bold>\<open>Properties.\<close> Each claim of the manifest is one theorem right after a text block
  naming it. The groups:
  \<^item> the matchup table: the lookup is characterised on every input (absent, empty,
    unknown or known in any letter case) by the enumerated design table, and fails open
    to 1.0; its range, case-insensitivity and balance are further lemmas;
  \<^item> the size resolver: refinement by the enumerated size matrix, both-agnostic
    neutrality, one-sided cancellation, \<open>ValueError\<close> on an unknown size, swap symmetry,
    bounds \<open>[0.7, 1.5]\<close> and the unreachable fallback; its result type (only
    \<open>ValueError\<close>, three-place decimals) is a further lemma;
  \<^item> the power: bounds with the explicit weights, and independence from the type and
    size columns;
  \<^item> the resolver: the higher power wins, no upset beyond the randomness margin 11/9,
    and tightness of that margin;
  \<^item> the spec's resolver: \<open>simulate_battle\<close> refines \<open>resolve\<close> followed by
    \<open>persist_outcome\<close> (whose counter update \<open>credit_outcome\<close> is written per row,
    independently of the code's two updates) on every pair whose four factors are
    neutral, the tie-broken flag included; and a concrete pair of well-formed bugs on
    which the two crown different winners, so the hypothesis cannot be dropped;
  \<^item> the routes: the write guard (only an authenticated POST naming two stored bugs
    writes), the self-battle guard, \<open>get_or_404\<close>, the misspelt form key, the success
    path (redirect to the new battle, flashing the nickname of the winner
    \<open>determine_winner\<close> picks), pagination;
  \<^item> accounts: password round trip and refusal of a wrong password; the
    \<open>AttributeError\<close> of a row without hash is a further lemma;
  \<^item> the flair: the percentage threshold bug, the unreachable Dominator branch, the
    \<open>NameError\<close> on \<open>Null\<close>;
  \<^item> start-up: \<open>python run.py\<close> never reaches \<open>app.run\<close>, whatever the modules outside
    \<open>src/\<close> provide; that the import loader terminates within \<open>import_fuel\<close> is the
    lemma this rests on;
  \<^item> here, the properties of the reachable states: the counters match the battle log,
    the wins and the losses of all bugs each add up to the number of battles, every
    battle is between two distinct stored bugs one of which won, battle keys are unique
    so \<open>view_battle\<close> finds every recorded battle, the redirect after a battle request
    renders exactly the battle it appended, and every win rate lies in \<open>[0, 100]\<close>.
  The homepage queries (\<open>top_bugs\<close>, \<open>recent_battles\<close>) have their contracts as
  lemmas only: \<open>index\<close> raises \<open>NameError\<close> before their results are used. The list of
  claims is in the manifest in order of importance (C1 to C6 here; the component claims
  in their theories).

  \<^bold>\<open>Termination and fuel.\<close> The loops of the application code are over finite
  lists (the dict lookups, \<open>list.index\<close>, the query filters), modelled by structural
  recursion or library list functions, so those operations are total. The one loop
  whose end needs an argument is Python's import of the start-up modules, which may
  meet cycles: it is modelled with fuel, and the theorem on \<open>import_fuel\<close> shows
  that enough fuel always gives a result, independent of any larger fuel.
\<close>

section \<open>A concrete run\<close>

text \<open>Two bugs with default stats, and a battle request between them.\<close>

definition demo_two :: arena where
  "demo_two = \<lparr>bugs = [1 \<mapsto> new_bug 1 ''Hercules'', 2 \<mapsto> new_bug 2 ''Goliath''],
     battles = [], next_battle_id = 1\<rparr>"

definition demo_form :: "string \<rightharpoonup> string" where
  "demo_form = ['' red_corner_bug_id'' \<mapsto> py_str_int 1, ''blue_corner_bug_id'' \<mapsto> py_str_int 2]"

definition demo_draws :: draws where
  "demo_draws = \<lparr>red_draw = 0.5, blue_draw = 0.25, tie_pick = False\<rparr>"

definition demo_fought :: arena where
  "demo_fought = snd (new_battle True POST (\<lambda>_ _ _. ''a fight'') 7 demo_form demo_draws demo_two)"

section \<open>Invariants of the reachable states\<close>

lemma demo_two_reachable: "arena_reachable demo_two"
proof -
  have "arena_step init_arena (init_arena\<lparr>bugs := (bugs init_arena)(1 \<mapsto> new_bug 1 ''Hercules'')\<rparr>)"
    using arena_step.submit [of init_arena "new_bug 1 ''Hercules''"]
    by (simp add: init_arena_def new_bug_def)
  with arena_reachable.init
  have one: "arena_reachable (init_arena\<lparr>bugs := (bugs init_arena)(1 \<mapsto> new_bug 1 ''Hercules'')\<rparr>)"
    by (rule arena_reachable.step)
  have "arena_step (init_arena\<lparr>bugs := (bugs init_arena)(1 \<mapsto> new_bug 1 ''Hercules'')\<rparr>) demo_two"
    using arena_step.submit [of "init_arena\<lparr>bugs := (bugs init_arena)(1 \<mapsto> new_bug 1 ''Hercules'')\<rparr>"
        "new_bug 2 ''Goliath''"]
    by (simp add: init_arena_def new_bug_def demo_two_def)
  with one show ?thesis by (rule arena_reachable.step)
qed

lemma demo_fought_reachable: "arena_reachable demo_fought"
  unfolding demo_fought_def
  by (rule arena_reachable.step [OF demo_two_reachable],
      rule arena_step.battle [where resp = "fst (new_battle True POST (\<lambda>_ _ _. ''a fight'') 7 demo_form demo_draws demo_two)"],
      simp)

lemmas demo_eval = demo_fought_def demo_two_def demo_form_def demo_draws_def new_battle_def new_battle_post_def
  simulate_battle_def calculate_battle_power_def py_uniform_def determine_winner_def new_bug_def
  Let_def py_falsy_int_def record_win_def record_loss_def form_get_int_def

text \<open>
  C1. In every reachable state, every stored bug's \<open>wins\<close> counter equals the number of
  recorded battles it won, and its \<open>losses\<close> counter the number of recorded battles it
  took part in and did not win: the counters the handler increments never drift from the
  battle log.
\<close>

theorem reachable_counters_match_log:
  assumes "arena_reachable s" and "bugs s i = Some b"
  shows "wins b = int (count_wins i (battles s)) \<and> losses b = int (count_losses i (battles s))"
  using arena_reachable_inv [OF assms(1)] assms(2) by (simp add: arena_inv_def)

theorem reachable_counters_match_log_witness:
  "arena_reachable demo_fought \<and> bugs demo_fought 1 = Some ((new_bug 1 ''Hercules'')\<lparr>wins := 1\<rparr>)
   \<and> wins ((new_bug 1 ''Hercules'')\<lparr>wins := 1\<rparr>) = int (count_wins 1 (battles demo_fought))
   \<and> losses ((new_bug 1 ''Hercules'')\<lparr>wins := 1\<rparr>) = int (count_losses 1 (battles demo_fought))"
proof -
  have st: "bugs demo_fought 1 = Some ((new_bug 1 ''Hercules'')\<lparr>wins := 1\<rparr>)"
    by (simp add: demo_eval)
  show ?thesis
    using reachable_counters_match_log [OF demo_fought_reachable st] demo_fought_reachable st
    by simp
qed

text \<open>
  C2. In every reachable state, every recorded battle is between two different bugs, both
  stored, and its winner is one of the two.
\<close>

theorem reachable_battles_well_formed:
  assumes "arena_reachable s" and "bt \<in> set (battles s)"
  shows "red_corner_bug_id bt \<noteq> blue_corner_bug_id bt
    \<and> (winner_id bt = Some (red_corner_bug_id bt) \<or> winner_id bt = Some (blue_corner_bug_id bt))
    \<and> red_corner_bug_id bt \<in> dom (bugs s) \<and> blue_corner_bug_id bt \<in> dom (bugs s)"
  using arena_reachable_inv [OF assms(1)] assms(2) by (simp add: arena_inv_def battle_ok_def)

theorem reachable_battles_well_formed_witness:
  "arena_reachable demo_fought \<and> hd (battles demo_fought) \<in> set (battles demo_fought)
   \<and> red_corner_bug_id (hd (battles demo_fought)) = 1
   \<and> blue_corner_bug_id (hd (battles demo_fought)) = 2
   \<and> winner_id (hd (battles demo_fought)) = Some 1
   \<and> 1 \<in> dom (bugs demo_fought) \<and> 2 \<in> dom (bugs demo_fought)"
proof -
  have mem: "hd (battles demo_fought) \<in> set (battles demo_fought)"
    by (simp add: demo_eval)
  have "red_corner_bug_id (hd (battles demo_fought)) = 1"
    and "blue_corner_bug_id (hd (battles demo_fought)) = 2"
    and "winner_id (hd (battles demo_fought)) = Some 1"
    by (simp_all add: demo_eval)
  with reachable_battles_well_formed [OF demo_fought_reachable mem] demo_fought_reachable mem
  show ?thesis by simp
qed

text \<open>
  C6. In every reachable state, every stored bug's \<open>win_rate\<close> lies between 0 and 100:
  the counters the battles write are never negative.
\<close>

theorem reachable_win_rate_bounds:
  assumes "arena_reachable s" and "bugs s i = Some b"
  shows "0 \<le> win_rate b \<and> win_rate b \<le> 100"
proof -
  from arena_reachable_inv [OF assms(1)] assms(2)
  have "wins b = int (count_wins i (battles s))" and "losses b = int (count_losses i (battles s))"
    by (simp_all add: arena_inv_def)
  then show ?thesis by (simp add: win_rate_bounds)
qed

theorem reachable_win_rate_bounds_witness:
  "arena_reachable demo_fought \<and> bugs demo_fought 2 = Some ((new_bug 2 ''Goliath'')\<lparr>losses := 1\<rparr>)
   \<and> 0 \<le> win_rate ((new_bug 2 ''Goliath'')\<lparr>losses := 1\<rparr>)
   \<and> win_rate ((new_bug 2 ''Goliath'')\<lparr>losses := 1\<rparr>) \<le> 100"
proof -
  have st: "bugs demo_fought 2 = Some ((new_bug 2 ''Goliath'')\<lparr>losses := 1\<rparr>)"
    by (simp add: demo_eval)
  show ?thesis
    using reachable_win_rate_bounds [OF demo_fought_reachable st] demo_fought_reachable st by simp
qed

text \<open>
  C5. In every reachable state, \<open>view_battle\<close> on the key of a recorded battle renders
  that battle: battle keys stay unique, so the lookup by key finds the row it names.
\<close>

theorem reachable_view_battle:
  assumes "arena_reachable s" and "bt \<in> set (battles s)"
  shows "view_battle (battle_id bt) s = Render_Battle bt"
  using arena_inv_view_battle [OF arena_reachable_inv [OF assms(1)] assms(2)] .

theorem reachable_view_battle_witness:
  "arena_reachable demo_fought \<and> hd (battles demo_fought) \<in> set (battles demo_fought)
   \<and> view_battle (battle_id (hd (battles demo_fought))) demo_fought = Render_Battle (hd (battles demo_fought))"
proof -
  have mem: "hd (battles demo_fought) \<in> set (battles demo_fought)"
    by (simp add: demo_eval)
  show ?thesis using reachable_view_battle [OF demo_fought_reachable mem] demo_fought_reachable mem
    by simp
qed

text \<open>
  C4. From a reachable state, a request to the battle route answered by a redirect to
  \<open>view_battle(k)\<close> appended exactly one battle, keyed \<open>k\<close>, and following the redirect
  renders that battle.
\<close>

theorem reachable_redirect_shows_battle:
  assumes "arena_reachable s"
    and "new_battle a meth narrate now form d s = (Redirect (View_Battle k) msgs, s')"
  shows "\<exists>bt. battles s' = battles s @ [bt] \<and> battle_id bt = k \<and> view_battle k s' = Render_Battle bt"
proof -
  obtain r b red blue bt where sim: "simulate_battle narrate now red blue d s = (bt, s')"
    and k: "battle_id bt = k"
    using new_battle_post_view_redirect [OF new_battle_view_redirect [OF assms(2)]] by blast
  have app: "battles s' = battles s @ [bt]" by (rule simulate_battle_shape [OF sim]) simp
  have "arena_step s s'" using arena_step.battle [OF assms(2)] .
  with assms(1) have "arena_reachable s'" by (rule arena_reachable.step)
  then have "view_battle (battle_id bt) s' = Render_Battle bt"
    by (rule arena_inv_view_battle [OF arena_reachable_inv]) (simp add: app)
  with app k show ?thesis by blast
qed

theorem reachable_redirect_shows_battle_witness:
  "arena_reachable demo_two
   \<and> new_battle True POST (\<lambda>_ _ _. ''a fight'') 7 demo_form demo_draws demo_two
       = (Redirect (View_Battle 1) [(''Battle complete! Hercules wins!'', ''success'')], demo_fought)
   \<and> (\<exists>bt. battles demo_fought = battles demo_two @ [bt] \<and> battle_id bt = 1
           \<and> view_battle 1 demo_fought = Render_Battle bt)"
proof -
  have run: "new_battle True POST (\<lambda>_ _ _. ''a fight'') 7 demo_form demo_draws demo_two
       = (Redirect (View_Battle 1) [(''Battle complete! Hercules wins!'', ''success'')], demo_fought)"
    by (simp add: demo_eval)
  show ?thesis using reachable_redirect_shows_battle [OF demo_two_reachable run] demo_two_reachable run
    by simp
qed

text \<open>
  Witness of the success path of \<open>new_battle_post\<close>: the demo request between Hercules
  and Goliath redirects to battle 1 and flashes Hercules as the winner.
\<close>

theorem new_battle_post_success_witness:
  "form_get_int demo_form '' red_corner_bug_id'' = Some 1
   \<and> form_get_int demo_form ''blue_corner_bug_id'' = Some 2
   \<and> (1::int) \<noteq> 0 \<and> (2::int) \<noteq> 0 \<and> (1::int) \<noteq> 2
   \<and> bugs demo_two 1 = Some (new_bug 1 ''Hercules'') \<and> bugs demo_two 2 = Some (new_bug 2 ''Goliath'')
   \<and> bug_id (new_bug 1 ''Hercules'') = 1 \<and> bug_id (new_bug 2 ''Goliath'') = 2
   \<and> new_battle_post (\<lambda>_ _ _. ''a fight'') 7 demo_form demo_draws demo_two =
          (Redirect (View_Battle 1) [(''Battle complete! Hercules wins!'', ''success'')],
           snd (simulate_battle (\<lambda>_ _ _. ''a fight'') 7 (new_bug 1 ''Hercules'') (new_bug 2 ''Goliath'') demo_draws demo_two))"
proof -
  have h: "form_get_int demo_form '' red_corner_bug_id'' = Some 1"
    "form_get_int demo_form ''blue_corner_bug_id'' = Some 2"
    "(1::int) \<noteq> 0" "(2::int) \<noteq> 0" "(1::int) \<noteq> 2"
    "bugs demo_two 1 = Some (new_bug 1 ''Hercules'')" "bugs demo_two 2 = Some (new_bug 2 ''Goliath'')"
    "bug_id (new_bug 1 ''Hercules'') = 1" "bug_id (new_bug 2 ''Goliath'') = 2"
    by (simp_all add: demo_eval)
  have w: "fst (determine_winner (calculate_battle_power (new_bug 1 ''Hercules'') (red_draw demo_draws))
      (calculate_battle_power (new_bug 2 ''Goliath'') (blue_draw demo_draws)) (tie_pick demo_draws)
      (new_bug 1 ''Hercules'') (new_bug 2 ''Goliath'')) = new_bug 1 ''Hercules''"
    by (simp add: determine_winner_def calculate_battle_power_eq py_uniform_def demo_draws_def new_bug_def)
  have n: "nickname (new_bug 1 ''Hercules'') = ''Hercules''" "next_battle_id demo_two = 1"
    by (simp_all add: new_bug_def demo_two_def)
  show ?thesis using Battle_Routes.new_battle_post_success [OF h, where narrate = "\<lambda>_ _ _. ''a fight''"
      and now = 7 and d = demo_draws] h w n by simp
qed

text \<open>
  Witness of the write guard of the battle route: the demo POST changes the database,
  and it is authenticated and names two different stored bugs.
\<close>

theorem new_battle_writes_only_authenticated_post_witness:
  "new_battle True POST (\<lambda>_ _ _. ''a fight'') 7 demo_form demo_draws demo_two
     = (Redirect (View_Battle 1) [(''Battle complete! Hercules wins!'', ''success'')], demo_fought)
   \<and> demo_fought \<noteq> demo_two
   \<and> True \<and> POST = POST
   \<and> (\<exists>r b. r \<noteq> b \<and> form_get_int demo_form '' red_corner_bug_id'' = Some r
         \<and> form_get_int demo_form ''blue_corner_bug_id'' = Some b
         \<and> r \<in> dom (bugs demo_two) \<and> b \<in> dom (bugs demo_two))"
proof -
  have run: "new_battle True POST (\<lambda>_ _ _. ''a fight'') 7 demo_form demo_draws demo_two
     = (Redirect (View_Battle 1) [(''Battle complete! Hercules wins!'', ''success'')], demo_fought)"
    by (simp add: demo_eval)
  have ne: "demo_fought \<noteq> demo_two"
  proof
    assume "demo_fought = demo_two"
    then have "battles demo_fought = battles demo_two" by simp
    then show False by (simp add: demo_eval)
  qed
  show ?thesis using Battle_Routes.new_battle_writes_only_authenticated_post [OF run ne] run ne by blast
qed

text \<open>
  C3. Conservation: in every reachable state, the wins of all stored bugs add up to the
  number of recorded battles, and so do their losses: every battle credits exactly one
  win and one loss, both to stored bugs.
\<close>

theorem reachable_totals:
  assumes "arena_reachable s"
  shows "(\<Sum>i\<in>dom (bugs s). wins (the (bugs s i))) = int (length (battles s))
    \<and> (\<Sum>i\<in>dom (bugs s). losses (the (bugs s i))) = int (length (battles s))"
proof -
  have inv: "arena_inv s" and fin: "finite (dom (bugs s))"
    using assms by (rule arena_reachable_inv, rule arena_reachable_finite)
  have ok: "\<forall>bt\<in>set (battles s). battle_ok s bt" using inv by (simp add: arena_inv_def)
  have w: "wins (the (bugs s i)) = int (count_wins i (battles s))"
    and l: "losses (the (bugs s i)) = int (count_losses i (battles s))" if "i \<in> dom (bugs s)" for i
    using inv that by (auto simp: arena_inv_def)
  have "(\<Sum>i\<in>dom (bugs s). count_wins i (battles s)) = (\<Sum>bt\<leftarrow>battles s. 1)"
    unfolding count_wins_def sum_length_filter [OF fin]
    by (rule arg_cong [where f = sum_list], rule map_cong) (simp_all add: ok battle_ok_one_winner)
  moreover have "(\<Sum>i\<in>dom (bugs s). count_losses i (battles s)) = (\<Sum>bt\<leftarrow>battles s. 1)"
    unfolding count_losses_def sum_length_filter [OF fin]
    by (rule arg_cong [where f = sum_list], rule map_cong) (simp_all add: ok battle_ok_one_loser)
  ultimately show ?thesis
    by (simp add: w l sum_list_triv flip: of_nat_sum)
qed

theorem reachable_totals_witness:
  "arena_reachable demo_fought \<and> length (battles demo_fought) = 1
   \<and> (\<Sum>i\<in>dom (bugs demo_fought). wins (the (bugs demo_fought i))) = 1
   \<and> (\<Sum>i\<in>dom (bugs demo_fought). losses (the (bugs demo_fought i))) = 1"
proof -
  have len: "length (battles demo_fought) = 1" by (simp add: demo_eval)
  show ?thesis using reachable_totals [OF demo_fought_reachable] demo_fought_reachable len by simp
qed

end
